(* ===== verification/Prelude.thy ===== *)
theory Prelude
  imports Complex_Main
begin

text \<open>
  Shared vocabulary of the development: how the JavaScript built-ins that the
  station finder calls are read in HOL.
  \<^item> A JavaScript number that the code computes with is a rational (\<open>rat\<close>); the
    code only adds, multiplies, divides by constants and rounds, so exact rationals
    idealise IEEE doubles (rounding of the binary expansion is not modelled).
  \<^item> A number that may be \<open>undefined\<close> or \<open>NaN\<close> (an array read out of range, arithmetic
    on it) is a \<open>js_num\<close> = \<open>rat option\<close>, \<open>None\<close> standing for the non-number;
    every comparison with it is false, as in JavaScript.
  \<^item> \<open>Math.round\<close> is \<open>js_round\<close>: \<open>\<lfloor>x + 1/2\<rfloor>\<close> (halves round up).
  \<^item> \<open>new Date()\<close>, \<open>getHours\<close> and \<open>getDay\<close> read a \<open>clock\<close>: the epoch time in
    milliseconds and the local time-zone offset.
\<close>

named_theorems js_simps "evaluation rules of the JavaScript built-in models"

type_synonym js_num = "rat option"
type_synonym millis = int

subsection \<open>Math.round, Math.min, Math.max\<close>

definition js_round :: "rat \<Rightarrow> int" where
  "js_round x = \<lfloor>x + 1 / 2\<rfloor>"

definition js_round_num :: "js_num \<Rightarrow> js_num" where
  "js_round_num v = map_option (\<lambda>x. of_int (js_round x)) v"

subsection \<open>Comparisons in which NaN is false\<close>

fun js_le :: "js_num \<Rightarrow> rat \<Rightarrow> bool" where
  "js_le None c = False"
| "js_le (Some x) c = (x \<le> c)"

fun js_ge :: "js_num \<Rightarrow> rat \<Rightarrow> bool" where
  "js_ge None c = False"
| "js_ge (Some x) c = (c \<le> x)"

subsection \<open>Nullable numbers and array reads\<close>

text \<open>\<open>Number(null)\<close> is 0: \<open>x || 0\<close> and \<open>x * y\<close> both read a null \<open>x\<close> as 0.\<close>

definition nullable_num :: "int option \<Rightarrow> rat" where
  "nullable_num v = (case v of None \<Rightarrow> 0 | Some q \<Rightarrow> of_int q)"

text \<open>\<open>arr[i]\<close> is \<open>undefined\<close> when \<open>i\<close> is not below the length.\<close>

definition js_index :: "rat list \<Rightarrow> nat \<Rightarrow> js_num" where
  "js_index xs i = (if i < length xs then Some (xs ! i) else None)"

subsection \<open>The clock\<close>

record clock =
  now_ms :: millis
  tz_offset :: millis

definition getHours :: "clock \<Rightarrow> nat" where
  "getHours c = nat (((now_ms c + tz_offset c) div 3600000) mod 24)"

text \<open>The epoch (1 January 1970) was a Thursday, day 4 of \<open>getDay\<close>.\<close>

definition getDay :: "clock \<Rightarrow> nat" where
  "getDay c = nat (((now_ms c + tz_offset c) div 86400000 + 4) mod 7)"

subsection \<open>Strings\<close>

text \<open>\<open>toLowerCase\<close> on the ASCII letters (the model's strings are byte lists; non-ASCII
  case mapping is not modelled), \<open>Array.join\<close> and \<open>String.includes\<close>, the last
  as the scan the engine performs: a prefix test at each position.\<close>

definition js_lower_char :: "char \<Rightarrow> char" where
  "js_lower_char c =
     (if 65 \<le> (of_char c :: nat) \<and> (of_char c :: nat) \<le> 90 then char_of (of_char c + (32::nat)) else c)"

definition js_toLowerCase :: "string \<Rightarrow> string" where
  "js_toLowerCase s = map js_lower_char s"

fun js_join :: "string \<Rightarrow> string list \<Rightarrow> string" where
  "js_join sep [] = []"
| "js_join sep [x] = x"
| "js_join sep (x # xs) = x @ sep @ js_join sep xs"

fun js_includes :: "string \<Rightarrow> string \<Rightarrow> bool" where
  "js_includes [] n = (n = [])"
| "js_includes (c # cs) n = (take (length n) (c # cs) = n \<or> js_includes cs n)"

subsection \<open>Mutating the object that \<open>find\<close> returns\<close>

text \<open>\<open>const x = xs.find(P); x.f = ...\<close> mutates the first element satisfying \<open>P\<close>
  in place; the list keeps its order and length.\<close>

fun update_first :: "('a \<Rightarrow> bool) \<Rightarrow> ('a \<Rightarrow> 'a) \<Rightarrow> 'a list \<Rightarrow> 'a list" where
  "update_first P f [] = []"
| "update_first P f (x # xs) = (if P x then f x # xs else x # update_first P f xs)"

subsection \<open>Generic lemmas\<close>

lemma floor_numeral_div_rat [simp, js_simps]:
  "\<lfloor>(numeral a / numeral b :: rat)\<rfloor> = numeral a div numeral b"
  by (metis floor_divide_of_int_eq of_int_numeral)

lemma floor_one_div_rat [simp, js_simps]:
  "\<lfloor>(1 / numeral b :: rat)\<rfloor> = 1 div numeral b"
  by (metis floor_divide_of_int_eq of_int_numeral of_int_1)

lemma js_round_of_int [simp, js_simps]: "js_round (of_int k) = k"
  unfolding js_round_def by (rule floor_unique) simp_all

lemma js_round_mono: "x \<le> y \<Longrightarrow> js_round x \<le> js_round y"
  by (simp add: js_round_def floor_mono)

lemma js_round_near: "x - 1 / 2 < of_int (js_round x) \<and> of_int (js_round x) \<le> x + 1 / 2"
  unfolding js_round_def using floor_correct [of "x + 1/2"] by linarith

lemma js_round_num_None [simp, js_simps]: "js_round_num None = None"
  by (simp add: js_round_num_def)

lemma js_round_num_Some [simp, js_simps]: "js_round_num (Some x) = Some (of_int (js_round x))"
  by (simp add: js_round_num_def)

lemma js_index_Some [simp]: "i < length xs \<Longrightarrow> js_index xs i = Some (xs ! i)"
  by (simp add: js_index_def)

lemma js_index_None [simp]: "length xs \<le> i \<Longrightarrow> js_index xs i = None"
  by (simp add: js_index_def)

lemma nullable_num_simps [simp, js_simps]:
  "nullable_num None = 0" "nullable_num (Some q) = of_int q"
  by (simp_all add: nullable_num_def)

lemma getHours_lt [simp]: "getHours c < 24"
  by (simp add: getHours_def nat_less_iff)

lemma getDay_lt [simp]: "getDay c < 7"
  by (simp add: getDay_def nat_less_iff)

lemma rel_option_le_js_le:
  "rel_option (\<le>) a b \<Longrightarrow> js_le b c \<Longrightarrow> js_le a c"
  by (cases a; cases b) auto

lemma rel_option_le_js_ge:
  "rel_option (\<le>) a b \<Longrightarrow> js_ge a c \<Longrightarrow> js_ge b c"
  by (cases a; cases b) auto

lemma rel_option_le_round:
  "rel_option (\<le>) a b \<Longrightarrow> rel_option (\<le>) (js_round_num a) (js_round_num b)"
  by (cases a; cases b) (auto intro: js_round_mono)

lemma length_update_first [simp]: "length (update_first P f xs) = length xs"
  by (induction xs) auto

lemma update_first_no_match: "find P xs = None \<Longrightarrow> update_first P f xs = xs"
  by (induction xs) auto

lemma map_update_first:
  "(\<And>x. P x \<Longrightarrow> g (f x) = g x) \<Longrightarrow> map g (update_first P f xs) = map g xs"
  by (induction xs) auto

lemma find_update_first:
  "find P xs = Some x \<Longrightarrow> P (f x) \<Longrightarrow> find P (update_first P f xs) = Some (f x)"
  by (induction xs) (auto split: if_splits)

lemma set_update_first:
  "find P xs = Some x \<Longrightarrow> set (update_first P f xs) \<subseteq> insert (f x) (set xs)"
  by (induction xs) (auto split: if_splits)

lemma list_all_update_first [simp]:
  "list_all Q xs \<Longrightarrow> (\<And>x. Q x \<Longrightarrow> Q (f x)) \<Longrightarrow> list_all Q (update_first P f xs)"
  by (induction xs) auto

lemma update_first_ident: "(\<And>x. P x \<Longrightarrow> f x = x) \<Longrightarrow> update_first P f xs = xs"
  by (induction xs) auto

lemma update_first_comp:
  "(\<And>x. P x \<Longrightarrow> P (f x)) \<Longrightarrow>
   update_first P g (update_first P f xs) = update_first P (g \<circ> f) xs"
  by (induction xs) auto

lemma take_length_eq_prefix: "take (length n) h = n \<longleftrightarrow> (\<exists>ys. h = n @ ys)"
  by (metis append_eq_conv_conj append_take_drop_id)

lemma js_includes_substring: "js_includes h n \<longleftrightarrow> (\<exists>xs ys. h = xs @ n @ ys)"
proof (induction h)
  case Nil
  then show ?case by simp
next
  case (Cons c cs)
  have "(\<exists>xs ys. c # cs = xs @ n @ ys) \<longleftrightarrow>
        (\<exists>ys. c # cs = n @ ys) \<or> (\<exists>xs ys. cs = xs @ n @ ys)"
    by (auto simp: Cons_eq_append_conv)
  with Cons.IH show ?case by (simp add: take_length_eq_prefix)
qed

lemma js_join_Nil_iff: "js_join sep xs = [] \<longleftrightarrow> (\<forall>x \<in> set xs. x = []) \<and> (length xs \<le> 1 \<or> sep = [])"
  by (induction sep xs rule: js_join.induct) auto

lemma length_filter_update_off:
  "i < length xs \<Longrightarrow> P (xs ! i) \<Longrightarrow> \<not> P y \<Longrightarrow>
   length (filter P (xs[i := y])) = length (filter P xs) - 1"
proof (induction xs arbitrary: i)
  case Nil
  then show ?case by simp
next
  case (Cons x xs)
  show ?case
  proof (cases i)
    case 0
    with Cons.prems show ?thesis by simp
  next
    case (Suc j)
    with Cons.prems have "0 < length (filter P xs)"
      by (auto simp: length_filter_conv_card card_gt_0_iff)
    with Cons.IH [of j] Cons.prems Suc show ?thesis by auto
  qed
qed

lemma map_update_first_comm:
  "(\<And>x. h (f x) = g (h x)) \<Longrightarrow> (\<And>x. Q (h x) = P x) \<Longrightarrow>
   map h (update_first P f xs) = update_first Q g (map h xs)"
  by (induction xs) auto

lemma sort_key_map_comm:
  "sort_key k (map h xs) = map h (sort_key (\<lambda>x. k (h x)) xs)"
proof (induction xs)
  case Nil
  then show ?case by simp
next
  case (Cons x xs)
  have "insort_key k (h x) (map h ys) = map h (insort_key (\<lambda>x. k (h x)) x ys)" for ys
    by (induction ys) auto
  with Cons show ?case by simp
qed

lemma map_enumerate_snd: "map (\<lambda>x. f (snd x)) (enumerate n xs) = map f xs"
  by (induction xs arbitrary: n) auto

end
