(* ===== verification/Station.thy ===== *)
theory Station
  imports Prelude
begin

text \<open>
  The station record shared by every component of \<open>src/public/app.js\<close>
  (\<open>CNGFlowApp\<close>): the object literals of \<open>loadSampleData\<close> and
  \<open>loadKnownCNGStations\<close>, with the fields that the code computes with. The
  colour buckets of \<open>queueStatus\<close> and the traffic buckets of
  \<open>calculateTrafficDensity\<close> are datatypes; the traffic buckets are ordered
  (\<open>Low < Medium < High\<close>) through a linear-order instance.
\<close>

datatype queue_status = Green | Yellow | Red | Gray

datatype traffic_density = Low | Medium | High

record pump =
  pump_id :: string
  name :: string
  address :: string
  brand :: string
  queueStatus :: queue_status
  queueLength :: "int option"
  lastUpdated :: "millis option"
  distance :: "rat option"
  trafficDensity :: "traffic_density option"
  historicalData :: "rat list option"
  predictedQueue :: js_num
  predictionConfidence :: "rat option"

subsection \<open>Buckets\<close>

text \<open>
  \<open>submitQueueUpdate\<close> and \<open>refreshData\<close> colour a reported length:
  \<^verbatim>\<open>queueLength <= 5 ? 'green' : queueLength <= 15 ? 'yellow' : 'red'\<close>.
\<close>

definition queueStatusOf :: "int \<Rightarrow> queue_status" where
  "queueStatusOf ql = (if ql \<le> 5 then Green else if ql \<le> 15 then Yellow else Red)"

text \<open>\<open>calculateTrafficDensity\<close>; its argument may be a prediction, hence NaN.\<close>

definition calculateTrafficDensity :: "js_num \<Rightarrow> traffic_density" where
  "calculateTrafficDensity q =
     (if js_ge q 20 then High else if js_ge q 10 then Medium else Low)"

text \<open>The well-formedness the estimator expects of a station (spec section 7): an
  hourly profile, when there is one, has an entry for each of the 24 hours.\<close>

definition profile_ok :: "pump \<Rightarrow> bool" where
  "profile_ok p \<longleftrightarrow> (case historicalData p of None \<Rightarrow> True | Some avg \<Rightarrow> length avg = 24)"

subsection \<open>Orders on the buckets\<close>

fun traffic_rank :: "traffic_density \<Rightarrow> nat" where
  "traffic_rank Low = 0"
| "traffic_rank Medium = 1"
| "traffic_rank High = 2"

instantiation traffic_density :: linorder
begin

definition less_eq_traffic_density :: "traffic_density \<Rightarrow> traffic_density \<Rightarrow> bool" where
  "less_eq_traffic_density a b \<longleftrightarrow> traffic_rank a \<le> traffic_rank b"

definition less_traffic_density :: "traffic_density \<Rightarrow> traffic_density \<Rightarrow> bool" where
  "less_traffic_density a b \<longleftrightarrow> traffic_rank a < traffic_rank b"

instance
proof
  fix x y z :: traffic_density
  show "(x < y) = (x \<le> y \<and> \<not> y \<le> x)"
    by (auto simp: less_eq_traffic_density_def less_traffic_density_def)
  show "x \<le> x" by (simp add: less_eq_traffic_density_def)
  show "x \<le> y \<Longrightarrow> y \<le> z \<Longrightarrow> x \<le> z" by (simp add: less_eq_traffic_density_def)
  show "x \<le> y \<Longrightarrow> y \<le> x \<Longrightarrow> x = y"
    by (cases x; cases y) (simp_all add: less_eq_traffic_density_def)
  show "x \<le> y \<or> y \<le> x" by (auto simp: less_eq_traffic_density_def)
qed

end

text \<open>The colours of a queue, from shortest to longest; gray (no data) first.\<close>

fun status_rank :: "queue_status \<Rightarrow> nat" where
  "status_rank Gray = 0"
| "status_rank Green = 1"
| "status_rank Yellow = 2"
| "status_rank Red = 3"

subsection \<open>Lemmas\<close>

lemma calculateTrafficDensity_Some:
  "calculateTrafficDensity (Some x) =
     (if 20 \<le> x then High else if 10 \<le> x then Medium else Low)"
  by (simp add: calculateTrafficDensity_def)

lemma calculateTrafficDensity_None [simp]: "calculateTrafficDensity None = Low"
  by (simp add: calculateTrafficDensity_def)

lemma calculateTrafficDensity_mono:
  "rel_option (\<le>) a b \<Longrightarrow> calculateTrafficDensity a \<le> calculateTrafficDensity b"
  by (cases a; cases b)
     (auto simp: calculateTrafficDensity_def less_eq_traffic_density_def)

lemma queueStatusOf_not_Gray [simp]: "queueStatusOf q \<noteq> Gray"
  by (simp add: queueStatusOf_def)

lemma queueStatusOf_mono: "q \<le> q' \<Longrightarrow> status_rank (queueStatusOf q) \<le> status_rank (queueStatusOf q')"
  by (simp add: queueStatusOf_def)

end
