(* ===== verification/Estimator.thy ===== *)
theory Estimator
  imports Station
begin

text \<open>
  The queue-status estimator: \<open>calculateSmartQueueStatus\<close> of
  \<open>src/public/app.js\<close> (lines 598--660). It reads the clock, the station's last
  reading and its hourly profile, blends them, applies the weekday peak-hour
  multiplier, buckets the result and writes three fields back into the station
  object (\<open>trafficDensity\<close>, \<open>predictedQueue\<close>, \<open>predictionConfidence\<close>). The
  model returns the smart data together with the updated station.
  The steps are separate definitions, in the order of the source:
  \<open>minutes_since\<close> (line 602), \<open>historical_estimate\<close> (604--622),
  \<open>peak_adjust\<close> (624--631), \<open>smart_status\<close> (633--641), and the whole
  function \<open>calculateSmartQueueStatus\<close>.
\<close>

record smart_data =
  sd_status :: queue_status
  sd_predictedQueue :: js_num
  sd_confidence :: rat
  sd_trafficDensity :: traffic_density
  sd_isPrediction :: bool

text \<open>\<open>(now - pump.lastUpdated) / 60000\<close>: a null date reads as the epoch.\<close>

definition minutes_since :: "clock \<Rightarrow> pump \<Rightarrow> rat" where
  "minutes_since c p =
     of_int (now_ms c - (case lastUpdated p of None \<Rightarrow> 0 | Some t \<Rightarrow> t)) / 60000"

text \<open>\<open>Math.min(timeSinceUpdate / 60, 0.5)\<close> and the weighted mean of line 619.\<close>

definition weight_of :: "rat \<Rightarrow> rat" where
  "weight_of timeSinceUpdate = min (timeSinceUpdate / 60) (1 / 2)"

definition blend :: "rat \<Rightarrow> rat \<Rightarrow> rat \<Rightarrow> rat" where
  "blend q historicalAvg weight = q * (1 - weight) + historicalAvg * weight"

text \<open>Steps 0 and 1: the initial values and the blend with the hourly profile;
  the result is the pair (confidence, predicted queue).\<close>

definition historical_estimate :: "nat \<Rightarrow> rat \<Rightarrow> pump \<Rightarrow> rat \<times> js_num" where
  "historical_estimate currentHour timeSinceUpdate p =
     (case historicalData p of
        None \<Rightarrow> (100, Some (nullable_num (queueLength p)))
      | Some avgQueueByHour \<Rightarrow>
          (let historicalAvg = js_index avgQueueByHour currentHour in
           if timeSinceUpdate > 30 then (60, historicalAvg)
           else
             (let weight = weight_of timeSinceUpdate in
              (max 50 (100 - timeSinceUpdate),
               js_round_num
                 (map_option (\<lambda>avg. blend (nullable_num (queueLength p)) avg weight)
                    historicalAvg)))))"

text \<open>Step 2: 30\% more on weekdays at 8--10 and 17--20 when the reading is older
  than 20 minutes.\<close>

definition is_peak_hour :: "nat \<Rightarrow> bool" where
  "is_peak_hour currentHour \<longleftrightarrow>
     (8 \<le> currentHour \<and> currentHour \<le> 10) \<or> (17 \<le> currentHour \<and> currentHour \<le> 20)"

definition is_weekend :: "nat \<Rightarrow> bool" where
  "is_weekend dayOfWeek \<longleftrightarrow> dayOfWeek = 0 \<or> dayOfWeek = 6"

definition peak_adjust :: "nat \<Rightarrow> nat \<Rightarrow> rat \<Rightarrow> js_num \<Rightarrow> js_num" where
  "peak_adjust currentHour dayOfWeek timeSinceUpdate pq =
     (if is_peak_hour currentHour \<and> \<not> is_weekend dayOfWeek \<and> timeSinceUpdate > 20
      then js_round_num (map_option (\<lambda>q. q * (13 / 10)) pq)
      else pq)"

text \<open>Step 3: the colour of the (possibly NaN) prediction; NaN falls through to red.\<close>

definition smart_status :: "js_num \<Rightarrow> queue_status" where
  "smart_status pq =
     (if js_le pq 5 then Green
      else if js_le pq 15 then Yellow
      else Red)"

text \<open>Steps 4 and 5: traffic from the actual reading when there is one, the write-back
  into the station object, and the returned object.\<close>

definition calculateSmartQueueStatus :: "clock \<Rightarrow> pump \<Rightarrow> smart_data \<times> pump" where
  "calculateSmartQueueStatus c p =
     (let currentHour = getHours c;
          dayOfWeek = getDay c;
          timeSinceUpdate = minutes_since c p
      in case historical_estimate currentHour timeSinceUpdate p of
           (confidence, pq0) \<Rightarrow>
             (let pq = peak_adjust currentHour dayOfWeek timeSinceUpdate pq0;
                  smartStatus = smart_status pq;
                  currentQueue = (case queueLength p of
                                    Some q \<Rightarrow> Some (of_int q)
                                  | None \<Rightarrow> pq);
                  trafficIndicator = calculateTrafficDensity currentQueue
              in (\<lparr>sd_status = smartStatus, sd_predictedQueue = pq,
                   sd_confidence = confidence, sd_trafficDensity = trafficIndicator,
                   sd_isPrediction = timeSinceUpdate > 30\<rparr>,
                  p\<lparr>trafficDensity := Some trafficIndicator,
                    predictedQueue := pq,
                    predictionConfidence := Some confidence\<rparr>)))"

abbreviation smart :: "clock \<Rightarrow> pump \<Rightarrow> smart_data" where
  "smart c p \<equiv> fst (calculateSmartQueueStatus c p)"

lemmas estimator_defs =
  calculateSmartQueueStatus_def historical_estimate_def peak_adjust_def
  smart_status_def minutes_since_def

subsection \<open>Component lemmas\<close>

text \<open>The fields of the smart data, one equation each.\<close>

lemma smart_fields:
  shows "sd_predictedQueue (smart c p) =
           peak_adjust (getHours c) (getDay c) (minutes_since c p)
             (snd (historical_estimate (getHours c) (minutes_since c p) p))"
    and "sd_confidence (smart c p) = fst (historical_estimate (getHours c) (minutes_since c p) p)"
    and "sd_status (smart c p) = smart_status (sd_predictedQueue (smart c p))"
    and "sd_isPrediction (smart c p) = (minutes_since c p > 30)"
    and "sd_trafficDensity (smart c p) =
           calculateTrafficDensity
             (case queueLength p of Some q \<Rightarrow> Some (of_int q) | None \<Rightarrow> sd_predictedQueue (smart c p))"
  by (simp_all add: calculateSmartQueueStatus_def Let_def split_beta split: option.split)

text \<open>What the estimator reads of the station: neither the fields it writes nor
  the descriptive ones.\<close>

lemma minutes_since_cong: "lastUpdated p = lastUpdated p' \<Longrightarrow> minutes_since c p = minutes_since c p'"
  by (simp add: minutes_since_def)

lemma historical_estimate_cong:
  assumes "historicalData p = historicalData p'" and "queueLength p = queueLength p'"
  shows "historical_estimate h t p = historical_estimate h t p'"
  by (simp only: historical_estimate_def assms)

lemma smart_status_mono:
  "rel_option (\<le>) a b \<Longrightarrow> status_rank (smart_status a) \<le> status_rank (smart_status b)"
  by (cases a; cases b) (auto simp: smart_status_def)

lemma smart_status_not_Gray [simp]: "smart_status q \<noteq> Gray"
  by (simp add: smart_status_def)

lemma peak_adjust_mono:
  "rel_option (\<le>) a b \<Longrightarrow> rel_option (\<le>) (peak_adjust h d t a) (peak_adjust h d t b)"
  unfolding peak_adjust_def
  by (cases a; cases b) (auto intro: js_round_mono)

text \<open>The weight of the last reading, \<open>1 - weight_of t\<close>, is at least one half
  whatever the age, so the blend grows with the reading.\<close>

lemma weight_of_le_half: "weight_of t \<le> 1 / 2"
  by (simp add: weight_of_def)

lemma blend_mono:
  fixes q q' :: rat
  assumes "q \<le> q'"
  shows "blend q a (weight_of t) \<le> blend q' a (weight_of t)"
proof -
  have "0 \<le> 1 - weight_of t" using weight_of_le_half [of t] by linarith
  with assms have "q * (1 - weight_of t) \<le> q' * (1 - weight_of t)"
    by (rule mult_right_mono)
  then show ?thesis unfolding blend_def by (rule add_right_mono)
qed

lemma historical_estimate_mono:
  assumes "q \<le> q'"
  shows "rel_option (\<le>)
           (snd (historical_estimate h t (p\<lparr>queueLength := Some q\<rparr>)))
           (snd (historical_estimate h t (p\<lparr>queueLength := Some q'\<rparr>)))"
proof (cases "historicalData p")
  case None
  with assms show ?thesis by (simp add: historical_estimate_def)
next
  case (Some avg)
  note hist = this
  show ?thesis
  proof (cases "js_index avg h")
    case None
    with hist show ?thesis by (simp add: historical_estimate_def Let_def)
  next
    case (Some a)
    have "rel_option (\<le>) (Some (blend (of_int q) a (weight_of t))) (Some (blend (of_int q') a (weight_of t)))"
      using blend_mono [of "of_int q" "of_int q'" a t] assms by simp
    then have "rel_option (\<le>) (js_round_num (Some (blend (of_int q) a (weight_of t))))
                 (js_round_num (Some (blend (of_int q') a (weight_of t))))"
      by (rule rel_option_le_round)
    with hist Some show ?thesis
      by (simp add: historical_estimate_def Let_def del: js_round_num_Some)
  qed
qed


subsection \<open>Helper lemmas for the estimator claims\<close>

lemma smart_status_of_int [simp]: "smart_status (Some (of_int q)) = queueStatusOf q"
  by (simp add: smart_status_def queueStatusOf_def)

lemma peak_adjust_quiet [simp]: "t \<le> 20 \<Longrightarrow> peak_adjust h d t pq = pq"
  by (simp add: peak_adjust_def)

lemma peak_adjust_Some: "\<exists>y. peak_adjust h d t (Some x) = Some y"
  by (simp add: peak_adjust_def)

lemma historical_estimate_None:
  "historicalData p = None \<Longrightarrow> historical_estimate h t p = (100, Some (nullable_num (queueLength p)))"
  by (simp add: historical_estimate_def)

lemma historical_estimate_stale:
  "historicalData p = Some avg \<Longrightarrow> 30 < t \<Longrightarrow> historical_estimate h t p = (60, js_index avg h)"
  by (simp add: historical_estimate_def Let_def)

lemma historical_estimate_fresh:
  "historicalData p = Some avg \<Longrightarrow> \<not> 30 < t \<Longrightarrow>
   historical_estimate h t p =
     (max 50 (100 - t), js_round_num (map_option (\<lambda>a. blend (nullable_num (queueLength p)) a (weight_of t)) (js_index avg h)))"
  by (simp add: historical_estimate_def Let_def)


subsection \<open>Properties of the estimator\<close>

text \<open>C1. A fresh direct reading with no hourly profile is returned as it is: the
  prediction is the reading, confidence 100, not a prediction, and the colour and
  traffic buckets are those of the reading.\<close>

theorem estimate_fresh_reading:
  assumes "historicalData p = None" and "queueLength p = Some q"
    and "minutes_since c p \<le> 20"
  shows "sd_predictedQueue (smart c p) = Some (of_int q) \<and> sd_confidence (smart c p) = 100
       \<and> sd_status (smart c p) = queueStatusOf q
       \<and> sd_trafficDensity (smart c p) = calculateTrafficDensity (Some (of_int q))
       \<and> \<not> sd_isPrediction (smart c p)"
  using assms by (simp add: smart_fields historical_estimate_None)

text \<open>C2. A reading at most 30 minutes old with a 24-hour profile is blended with the
  profile entry of the current hour, rounded, then peak-adjusted; the confidence is
  \<open>max 50 (100 - age)\<close>, between 70 and 100, and the result is not a prediction.\<close>

theorem estimate_blend_branch:
  assumes "historicalData p = Some avg" and "length avg = 24"
    and "queueLength p = Some q"
    and "0 \<le> minutes_since c p" and "minutes_since c p \<le> 30"
  shows "sd_predictedQueue (smart c p) =
           peak_adjust (getHours c) (getDay c) (minutes_since c p)
             (Some (of_int (js_round (blend (of_int q) (avg ! getHours c) (weight_of (minutes_since c p))))))
       \<and> sd_confidence (smart c p) = max 50 (100 - minutes_since c p)
       \<and> 70 \<le> sd_confidence (smart c p) \<and> sd_confidence (smart c p) \<le> 100
       \<and> \<not> sd_isPrediction (smart c p)"
  using assms by (simp add: smart_fields historical_estimate_fresh)

text \<open>C3. A reading older than 30 minutes with a 24-hour profile is replaced by the
  profile entry of the current hour (then peak-adjusted), with confidence 60, and is
  flagged as a prediction.\<close>

theorem estimate_stale_profile:
  assumes "historicalData p = Some avg" and "length avg = 24"
    and "30 < minutes_since c p"
  shows "sd_predictedQueue (smart c p) =
           peak_adjust (getHours c) (getDay c) (minutes_since c p) (Some (avg ! getHours c))
       \<and> sd_confidence (smart c p) = 60 \<and> sd_isPrediction (smart c p)"
  using assms by (simp add: smart_fields historical_estimate_stale)

text \<open>C4. When the reading is not dated in the future, the confidence lies between
  60 and 100.\<close>

theorem estimate_confidence_bounds:
  assumes "0 \<le> minutes_since c p"
  shows "60 \<le> sd_confidence (smart c p) \<and> sd_confidence (smart c p) \<le> 100"
  using assms
  by (cases "historicalData p"; cases "30 < minutes_since c p")
     (simp_all add: smart_fields historical_estimate_def Let_def)

text \<open>C5. Monotonicity: a longer reported queue, everything else fixed, never gives a
  smaller prediction, a lower colour or a lower traffic bucket.\<close>

theorem estimate_monotone_in_reading:
  assumes "q \<le> q'"
  shows "rel_option (\<le>) (sd_predictedQueue (smart c (p\<lparr>queueLength := Some q\<rparr>)))
                         (sd_predictedQueue (smart c (p\<lparr>queueLength := Some q'\<rparr>)))
       \<and> status_rank (sd_status (smart c (p\<lparr>queueLength := Some q\<rparr>)))
           \<le> status_rank (sd_status (smart c (p\<lparr>queueLength := Some q'\<rparr>)))
       \<and> sd_trafficDensity (smart c (p\<lparr>queueLength := Some q\<rparr>))
           \<le> sd_trafficDensity (smart c (p\<lparr>queueLength := Some q'\<rparr>))"
proof -
  let ?p = "p\<lparr>queueLength := Some q\<rparr>" and ?p' = "p\<lparr>queueLength := Some q'\<rparr>"
  have t: "minutes_since c ?p' = minutes_since c ?p" by (simp add: minutes_since_def)
  have pq: "rel_option (\<le>) (sd_predictedQueue (smart c ?p)) (sd_predictedQueue (smart c ?p'))"
    unfolding smart_fields(1) t
    using historical_estimate_mono [OF assms] by (rule peak_adjust_mono)
  then have st: "status_rank (sd_status (smart c ?p)) \<le> status_rank (sd_status (smart c ?p'))"
    unfolding smart_fields(3) by (rule smart_status_mono)
  have "rel_option (\<le>) (Some (of_int q :: rat)) (Some (of_int q'))" using assms by simp
  then have tr: "sd_trafficDensity (smart c ?p) \<le> sd_trafficDensity (smart c ?p')"
    unfolding smart_fields(5) by (simp add: calculateTrafficDensity_mono)
  from pq st tr show ?thesis by blast
qed

text \<open>C6. With a profile of 24 entries (or none), the prediction is always a number:
  \<open>getHours\<close> is below 24, so the profile read is in range and NaN never arises.\<close>

theorem estimate_prediction_defined:
  assumes "profile_ok p"
  shows "\<exists>x. sd_predictedQueue (smart c p) = Some x"
proof -
  have "\<exists>x. snd (historical_estimate (getHours c) (minutes_since c p) p) = Some x"
    using assms
    by (cases "historicalData p"; cases "30 < minutes_since c p")
       (simp_all add: historical_estimate_def Let_def profile_ok_def)
  then show ?thesis
    unfolding smart_fields(1) using peak_adjust_Some by metis
qed

text \<open>C7. The write-back is harmless: running the estimator again on the station it has
  updated gives the same smart data and the same station, so repeated renders agree.\<close>

theorem estimate_idempotent:
  "calculateSmartQueueStatus c (snd (calculateSmartQueueStatus c p)) = calculateSmartQueueStatus c p"
  by (simp add: calculateSmartQueueStatus_def historical_estimate_def minutes_since_def Let_def
      split_beta split: option.split)

text \<open>C8. Traffic density is taken from the actual last reading whenever there is one,
  however stale the reading and whatever the prediction.\<close>

theorem estimate_traffic_from_reading:
  assumes "queueLength p = Some q"
  shows "sd_trafficDensity (smart c p) =
           (if 20 \<le> q then High else if 10 \<le> q then Medium else Low)"
  using assms by (simp add: smart_fields calculateTrafficDensity_Some)

text \<open>C9. The colour is a step function of a numeric prediction: green up to 5, yellow
  above 5 up to 15, red above 15; it is never gray.\<close>

theorem estimate_status_buckets:
  assumes "sd_predictedQueue (smart c p) = Some x"
  shows "(sd_status (smart c p) = Green \<longleftrightarrow> x \<le> 5)
       \<and> (sd_status (smart c p) = Yellow \<longleftrightarrow> 5 < x \<and> x \<le> 15)
       \<and> (sd_status (smart c p) = Red \<longleftrightarrow> 15 < x)"
  using assms by (auto simp: smart_fields(3) smart_status_def)

end
