(* ===== verification/SampleData.thy ===== *)
theory SampleData
  imports Station
begin

text \<open>
  The station lists that \<open>src/public/app.js\<close> builds in memory:
  \<open>loadSampleData\<close> (lines 243--466), twelve Delhi NCR stations whose readings are
  dated relative to \<open>Date.now()\<close>, and the three curated stations of
  \<open>loadKnownCNGStations\<close> (lines 174--214), which start without any reading.
  Fields the code never computes with (coordinates, phone, opening hours, payment
  modes, active users) are left out of the record.
\<close>

text \<open>One literal of the sample array: \<open>lastUpdated\<close> is \<open>Date.now() - m * 60000\<close>; the
  fields the estimator writes later are absent (\<open>undefined\<close>).\<close>

definition sample_pump ::
  "millis \<Rightarrow> string \<Rightarrow> string \<Rightarrow> string \<Rightarrow> string \<Rightarrow> queue_status \<Rightarrow> int option \<Rightarrow> int \<Rightarrow>
   rat \<Rightarrow> traffic_density option \<Rightarrow> rat list option \<Rightarrow> pump" where
  "sample_pump now i n a b st ql m d td h =
     \<lparr>pump_id = i, name = n, address = a, brand = b, queueStatus = st, queueLength = ql,
      lastUpdated = Some (now - m * 60000), distance = Some d, trafficDensity = td,
      historicalData = h, predictedQueue = None, predictionConfidence = None\<rparr>"

definition loadSampleData :: "millis \<Rightarrow> pump list" where
  "loadSampleData now =
   [sample_pump now ''pump_001'' ''Indian Oil - Sector 18'' ''Sector 18, Noida, UP'' ''Indian Oil''
      Green (Some 3) 15 (5/2) (Some Low)
      (Some [0,0,0,0,2,5,8,12,15,10,8,12,18,15,12,10,8,15,20,18,12,8,5,2]),
    sample_pump now ''pump_002'' ''Bharat Petroleum - DLF Phase 2'' ''DLF Phase 2, Gurgaon, Haryana''
      ''Bharat Petroleum'' Yellow (Some 12) 30 (51/10) (Some Medium)
      (Some [2,1,1,1,3,8,15,20,25,18,15,18,22,20,18,15,12,18,25,22,15,10,5,3]),
    sample_pump now ''pump_003'' ''IGL Station - Connaught Place'' ''Connaught Place, New Delhi'' ''IGL''
      Red (Some 25) 5 (83/10) None None,
    sample_pump now ''pump_004'' ''Indian Oil - Dwarka'' ''Sector 6, Dwarka, New Delhi'' ''Indian Oil''
      Green (Some 0) 45 (127/10) None None,
    sample_pump now ''pump_005'' ''Shell - Greater Noida'' ''Knowledge Park, Greater Noida'' ''Shell''
      Gray None 120 (76/5) (Some Low)
      (Some [1,0,0,0,2,5,10,15,18,12,10,14,20,18,15,12,10,15,18,15,10,6,3,2]),
    sample_pump now ''pump_006'' ''Indian Oil - Rohini Sector 3'' ''Sector 3, Rohini, Delhi'' ''Indian Oil''
      Yellow (Some 10) 25 (17/2) (Some Medium)
      (Some [1,1,0,1,3,7,12,18,20,15,12,15,22,18,15,12,10,18,22,20,15,8,4,2]),
    sample_pump now ''pump_007'' ''Bharat Petroleum - Janakpuri'' ''District Centre, Janakpuri, Delhi''
      ''Bharat Petroleum'' Green (Some 2) 10 (36/5) (Some Low)
      (Some [2,1,1,1,4,8,14,20,22,16,12,14,20,18,14,11,9,16,20,18,14,10,6,3]),
    sample_pump now ''pump_008'' ''IGL Station - Vasant Kunj'' ''Vasant Kunj, New Delhi'' ''IGL''
      Red (Some 22) 8 (103/10) (Some High)
      (Some [2,1,1,2,5,10,16,22,25,18,14,16,24,20,16,13,11,20,25,22,16,12,8,4]),
    sample_pump now ''pump_009'' ''Indian Oil - Mayur Vihar'' ''Mayur Vihar Phase 1, Delhi'' ''Indian Oil''
      Yellow (Some 13) 40 (24/5) (Some Medium)
      (Some [1,1,0,1,3,8,15,20,22,16,12,14,20,17,14,11,9,17,22,20,15,10,5,2]),
    sample_pump now ''pump_010'' ''Shell - Saket'' ''Saket District Centre, Delhi'' ''Shell''
      Green (Some 4) 12 (91/10) (Some Low)
      (Some [2,1,1,1,4,9,15,20,23,17,13,15,21,18,15,12,10,18,23,20,15,11,6,3]),
    sample_pump now ''pump_011'' ''Bharat Petroleum - Faridabad'' ''Sector 15, Faridabad, Haryana''
      ''Bharat Petroleum'' Yellow (Some 14) 35 (37/2) (Some Medium)
      (Some [1,0,0,1,3,7,14,19,21,15,11,13,19,16,13,10,8,16,21,19,14,9,5,2]),
    sample_pump now ''pump_012'' ''IGL Station - Karol Bagh'' ''Karol Bagh, Central Delhi'' ''IGL''
      Red (Some 28) 20 (32/5) (Some High)
      (Some [3,2,1,2,6,12,18,25,28,20,16,18,26,22,18,15,13,22,28,25,18,14,10,5])]"

text \<open>\<open>knownStations.map(station => ({...station, queueStatus: 'gray', queueLength: null,
  lastUpdated: null, distance: null, isReal: true}))\<close>.\<close>

definition known_station :: "string \<Rightarrow> string \<Rightarrow> string \<Rightarrow> string \<Rightarrow> pump" where
  "known_station i n a b =
     \<lparr>pump_id = i, name = n, address = a, brand = b, queueStatus = Gray, queueLength = None,
      lastUpdated = None, distance = None, trafficDensity = None, historicalData = None,
      predictedQueue = None, predictionConfidence = None\<rparr>"

definition knownStations :: "pump list" where
  "knownStations =
   [known_station ''real_001'' ''Indian Oil CNG Station - Noida Sector 18''
      ''Sector 18, Noida, Uttar Pradesh'' ''Indian Oil'',
    known_station ''real_002'' ''IGL CNG Station - Connaught Place'' ''Connaught Place, New Delhi'' ''IGL'',
    known_station ''real_003'' ''Bharat Gas CNG - Gurgaon Sector 29'' ''Sector 29, Gurgaon, Haryana''
      ''Bharat Gas'']"

end
