(* ===== verification/Store.thy ===== *)
theory Store
  imports Estimator SampleData
begin

text \<open>
  The state of \<open>CNGFlowApp\<close> (\<open>src/public/app.js\<close>) and the handlers that change
  it. The record \<open>app\<close> holds the fields of the constructor (lines 3--13) that the
  logic reads: the station list, the ids that have a map marker (\<open>this.markers\<close>),
  the favourites, the points, the selected station (held by its id: every access the
  code makes through \<open>this.selectedPump\<close> is to its id or to the same object in
  \<open>this.pumps\<close>), the queue button selected in the update form (\<open>.queue-btn.selected\<close>,
  its \<open>data-queue\<close> value), and the three \<open>localStorage\<close> entries the class writes or
  reads (as the values they encode).
  A handler returns the new state and an \<open>outcome\<close>: it ran to the end, it
  stopped early with a notification, it logged an error and returned, or it threw
  a \<open>TypeError\<close>. A throw does not undo the assignments made before it, and the
  browser keeps dispatching later events, so the state returned with \<open>TypeError\<close>
  is the state at the throw.
\<close>

datatype outcome = Ok | Warning string | ConsoleError | TypeError

record app =
  pumps :: "pump list"
  markers :: "string set"
  favorites :: "string list"
  userPoints :: int
  selectedPump :: "string option"
  selectedQueue :: "int option"
  stored_favorites :: "string list"
  stored_points :: int
  isPremium :: bool

text \<open>The constructor: favourites and points are read back from storage.\<close>

definition init_app :: "string list \<Rightarrow> int \<Rightarrow> bool \<Rightarrow> app" where
  "init_app favs pts premium =
     \<lparr>pumps = [], markers = {}, favorites = favs, userPoints = pts, selectedPump = None,
      selectedQueue = None, stored_favorites = favs, stored_points = pts, isPremium = premium\<rparr>"

text \<open>The write-back of \<open>calculateSmartQueueStatus\<close> into a station object, as done by
  \<open>getMarkerIcon\<close>, \<open>createPopupContent\<close> and \<open>showPumpDetails\<close>.\<close>

definition estimate_in_place :: "clock \<Rightarrow> pump \<Rightarrow> pump" where
  "estimate_in_place c p = snd (calculateSmartQueueStatus c p)"

text \<open>\<open>addPumpMarkers\<close> (lines 481--508): a marker per station; building its icon and its
  popup runs the estimator twice on the station.\<close>

definition addPumpMarkers :: "clock \<Rightarrow> app \<Rightarrow> app" where
  "addPumpMarkers c s =
     s\<lparr>pumps := map (\<lambda>p. estimate_in_place c (estimate_in_place c p)) (pumps s),
       markers := markers s \<union> set (map pump_id (pumps s))\<rparr>"

text \<open>Lines 978--983 of \<open>submitQueueUpdate\<close>: the reported length is stored in the
  station object.\<close>

definition record_reading :: "clock \<Rightarrow> int \<Rightarrow> pump \<Rightarrow> pump" where
  "record_reading c ql p =
     p\<lparr>queueLength := Some ql, lastUpdated := Some (now_ms c), queueStatus := queueStatusOf ql,
       trafficDensity := Some (calculateTrafficDensity (Some (of_int ql)))\<rparr>"

text \<open>\<open>submitQueueUpdate\<close> (lines 963--1006). The reopened popup of lines 990--992 runs
  the estimator once more on the same station, which changes nothing
  (\<open>estimate_in_place_twice\<close>).\<close>

definition submitQueueUpdate :: "clock \<Rightarrow> app \<Rightarrow> app \<times> outcome" where
  "submitQueueUpdate c s =
     (case selectedQueue s of
        None \<Rightarrow> (s, Warning ''Please select queue length'')
      | Some ql \<Rightarrow>
          (case selectedPump s of
             None \<Rightarrow> (s, TypeError)
           | Some i \<Rightarrow>
               (case find (\<lambda>p. pump_id p = i) (pumps s) of
                  None \<Rightarrow> (s, TypeError)
                | Some _ \<Rightarrow>
                    (let s1 = s\<lparr>pumps := update_first (\<lambda>p. pump_id p = i) (record_reading c ql) (pumps s)\<rparr>
                     in if i \<notin> markers s1 then (s1, TypeError)
                        else
                          (let s2 = s1\<lparr>pumps := update_first (\<lambda>p. pump_id p = i) (estimate_in_place c) (pumps s1)\<rparr>
                           in (s2\<lparr>userPoints := userPoints s2 + 10, stored_points := userPoints s2 + 10\<rparr>,
                               Ok))))))"

text \<open>\<open>showPumpDetails\<close> (lines 881--937), called with a station object or \<open>undefined\<close>
  (the result of a failed \<open>find\<close>).\<close>

definition showPumpDetails :: "clock \<Rightarrow> string option \<Rightarrow> app \<Rightarrow> app \<times> outcome" where
  "showPumpDetails c sel s =
     (case sel of
        None \<Rightarrow> (s, ConsoleError)
      | Some i \<Rightarrow>
          (s\<lparr>selectedPump := Some i,
             pumps := update_first (\<lambda>p. pump_id p = i) (estimate_in_place c) (pumps s)\<rparr>, Ok))"

text \<open>\<open>showUpdateModal\<close> (lines 951--961): the selection is assigned before
  \<open>pumpToUpdate.name\<close> is read, so an undefined station throws after it.\<close>

definition showUpdateModal :: "string option \<Rightarrow> app \<Rightarrow> app \<times> outcome" where
  "showUpdateModal sel s =
     (case sel of
        None \<Rightarrow> (s\<lparr>selectedPump := None\<rparr>, TypeError)
      | Some i \<Rightarrow> (s\<lparr>selectedPump := Some i, selectedQueue := None\<rparr>, Ok))"

text \<open>\<open>toggleFavorite\<close> (lines 1013--1029), called with \<open>this.selectedPump\<close>.\<close>

definition toggleFavorite :: "clock \<Rightarrow> app \<Rightarrow> app \<times> outcome" where
  "toggleFavorite c s =
     (case selectedPump s of
        None \<Rightarrow> (s, TypeError)
      | Some i \<Rightarrow>
          (if i \<in> set (favorites s) then
             showPumpDetails c (Some i)
               (s\<lparr>favorites := remove1 i (favorites s), stored_favorites := remove1 i (favorites s)\<rparr>)
           else if 3 \<le> length (favorites s) \<and> \<not> isPremium s then
             (s, Warning ''Upgrade to Premium for unlimited favorites'')
           else
             showPumpDetails c (Some i)
               (s\<lparr>favorites := favorites s @ [i], stored_favorites := favorites s @ [i]\<rparr>)))"

text \<open>\<open>showNearestPumpForUpdate\<close> (lines 1236--1239) sorts \<open>this.pumps\<close> in place by
  \<open>a.distance - b.distance\<close> (a null distance counts as 0; the sort is stable) and
  opens the form on the first station, \<open>undefined\<close> when there is none.\<close>

definition distance_key :: "pump \<Rightarrow> rat" where
  "distance_key p = (case distance p of None \<Rightarrow> 0 | Some d \<Rightarrow> d)"

definition showNearestPumpForUpdate :: "app \<Rightarrow> app \<times> outcome" where
  "showNearestPumpForUpdate s =
     (let ps = sort_key distance_key (pumps s)
      in showUpdateModal (case ps of [] \<Rightarrow> None | p # _ \<Rightarrow> Some (pump_id p)) (s\<lparr>pumps := ps\<rparr>))"

text \<open>\<open>loadKnownCNGStations\<close> (lines 174--219): the three curated stations replace the
  list, and since there are fewer than five of them \<open>loadSampleData\<close> replaces them in
  turn (the comment on line 219 says it appends). The \<open>else\<close> branch (lines 220--224)
  is unreachable, as \<open>knownStations\<close> has three entries; no marker is added on this
  path.\<close>

definition loadKnownCNGStations :: "clock \<Rightarrow> app \<Rightarrow> app" where
  "loadKnownCNGStations c s =
     (let s1 = s\<lparr>pumps := knownStations\<rparr>
      in if length (pumps s1) < 5 then s1\<lparr>pumps := loadSampleData (now_ms c)\<rparr> else s1)"

subsection \<open>Events\<close>

text \<open>The listeners of \<open>bindEvents\<close> (lines 683--787) that change this state, the
  card or popup clicks that open the details of a station, and the steps of the
  start-up paths of \<open>init\<close> (lines 15--50) that change it: loading the sample or
  the curated stations and adding markers.\<close>

datatype app_event =
    ClickQueueButton int
  | OpenDetails "string option"
  | ClickUpdateQueue
  | ClickSubmit
  | ClickFavorite
  | NavUpdate
  | LoadSample
  | LoadKnown
  | AddMarkers

fun app_step :: "clock \<Rightarrow> app \<Rightarrow> app_event \<Rightarrow> app \<times> outcome" where
  "app_step c s (ClickQueueButton q) = (s\<lparr>selectedQueue := Some q\<rparr>, Ok)"
| "app_step c s (OpenDetails sel) = showPumpDetails c sel s"
| "app_step c s ClickUpdateQueue = showUpdateModal (selectedPump s) s"
| "app_step c s ClickSubmit = submitQueueUpdate c s"
| "app_step c s ClickFavorite = toggleFavorite c s"
| "app_step c s NavUpdate = showNearestPumpForUpdate s"
| "app_step c s LoadSample = (s\<lparr>pumps := loadSampleData (now_ms c)\<rparr>, Ok)"
| "app_step c s LoadKnown = (loadKnownCNGStations c s, Ok)"
| "app_step c s AddMarkers = (addPumpMarkers c s, Ok)"

text \<open>A run: each event at its clock; a handler that threw leaves its state behind and
  the next event is dispatched. The log pairs each event with its outcome.\<close>

fun app_run :: "(clock \<times> app_event) list \<Rightarrow> app \<Rightarrow> app \<times> (app_event \<times> outcome) list" where
  "app_run [] s = (s, [])"
| "app_run ((c, e) # es) s =
     (case app_step c s e of
        (s', r) \<Rightarrow> (case app_run es s' of (s'', rs) \<Rightarrow> (s'', (e, r) # rs)))"

subsection \<open>The invariant\<close>

definition status_consistent :: "pump \<Rightarrow> bool" where
  "status_consistent p \<longleftrightarrow>
     queueStatus p = (case queueLength p of None \<Rightarrow> Gray | Some q \<Rightarrow> queueStatusOf q)"

definition app_inv :: "app \<Rightarrow> bool" where
  "app_inv s \<longleftrightarrow>
     distinct (favorites s) \<and> (\<not> isPremium s \<longrightarrow> length (favorites s) \<le> 3)
     \<and> stored_favorites s = favorites s \<and> stored_points s = userPoints s
     \<and> list_all status_consistent (pumps s)"


subsection \<open>Lemmas on the write-back and on single handlers\<close>

lemma estimate_in_place_fields [simp]:
  "pump_id (estimate_in_place c p) = pump_id p"
  "queueLength (estimate_in_place c p) = queueLength p"
  "queueStatus (estimate_in_place c p) = queueStatus p"
  "lastUpdated (estimate_in_place c p) = lastUpdated p"
  "historicalData (estimate_in_place c p) = historicalData p"
  "distance (estimate_in_place c p) = distance p"
  by (simp_all add: estimate_in_place_def calculateSmartQueueStatus_def Let_def split_beta)

lemma smart_estimate_in_place [simp]: "smart c (estimate_in_place c p) = smart c p"
  by (simp add: estimate_in_place_def calculateSmartQueueStatus_def historical_estimate_def
      minutes_since_def Let_def split_beta split: option.split)

lemma estimate_in_place_twice [simp]:
  "estimate_in_place c (estimate_in_place c p) = estimate_in_place c p"
  by (simp add: estimate_in_place_def calculateSmartQueueStatus_def historical_estimate_def
      minutes_since_def Let_def split_beta split: option.split)

lemma status_consistent_estimate [simp]:
  "status_consistent (estimate_in_place c p) = status_consistent p"
  by (simp add: status_consistent_def)

lemma status_consistent_record_reading [simp]: "status_consistent (record_reading c ql p)"
  by (simp add: status_consistent_def record_reading_def)

lemma find_pump_id: "find (\<lambda>p. pump_id p = i) ps = Some p \<Longrightarrow> pump_id p = i \<and> p \<in> set ps"
  by (auto simp: find_Some_iff)

lemmas app_inv_simps = app_inv_def status_consistent_def

text \<open>The two paths of \<open>submitQueueUpdate\<close> past the early returns: the station
  is found, and it has a marker or it has none.\<close>

lemma submit_no_marker:
  "selectedQueue s = Some ql \<Longrightarrow> selectedPump s = Some i \<Longrightarrow>
   find (\<lambda>p. pump_id p = i) (pumps s) = Some p \<Longrightarrow> i \<notin> markers s \<Longrightarrow>
   submitQueueUpdate c s =
     (s\<lparr>pumps := update_first (\<lambda>p. pump_id p = i) (record_reading c ql) (pumps s)\<rparr>, TypeError)"
  by (simp add: submitQueueUpdate_def Let_def)

lemma submit_ok:
  "selectedQueue s = Some ql \<Longrightarrow> selectedPump s = Some i \<Longrightarrow>
   find (\<lambda>p. pump_id p = i) (pumps s) = Some p \<Longrightarrow> i \<in> markers s \<Longrightarrow>
   submitQueueUpdate c s =
     (s\<lparr>pumps := update_first (\<lambda>p. pump_id p = i) (estimate_in_place c)
                   (update_first (\<lambda>p. pump_id p = i) (record_reading c ql) (pumps s)),
        userPoints := userPoints s + 10, stored_points := userPoints s + 10\<rparr>, Ok)"
  by (simp add: submitQueueUpdate_def Let_def)

lemma submit_inv: "app_inv s \<Longrightarrow> app_inv (fst (submitQueueUpdate c s))"
  by (simp add: submitQueueUpdate_def Let_def app_inv_def split: option.splits)

lemma showPumpDetails_inv: "app_inv s \<Longrightarrow> app_inv (fst (showPumpDetails c sel s))"
  by (simp add: showPumpDetails_def app_inv_def split: option.splits)

lemma showUpdateModal_inv: "app_inv s \<Longrightarrow> app_inv (fst (showUpdateModal sel s))"
  by (auto simp: showUpdateModal_def app_inv_def split: option.splits)

lemma showNearest_inv: "app_inv s \<Longrightarrow> app_inv (fst (showNearestPumpForUpdate s))"
proof -
  assume "app_inv s"
  then have "app_inv (s\<lparr>pumps := sort_key distance_key (pumps s)\<rparr>)"
    by (simp add: app_inv_def list_all_iff)
  then show ?thesis
    unfolding showNearestPumpForUpdate_def Let_def by (rule showUpdateModal_inv)
qed

lemma toggle_inv: "app_inv s \<Longrightarrow> app_inv (fst (toggleFavorite c s))"
proof -
  assume inv: "app_inv s"
  show ?thesis
  proof (cases "selectedPump s")
    case None
    with inv show ?thesis by (simp add: toggleFavorite_def)
  next
    case (Some i)
    have rm: "app_inv (s\<lparr>favorites := remove1 i (favorites s), stored_favorites := remove1 i (favorites s)\<rparr>)"
      using inv by (simp add: app_inv_def length_remove1 distinct_remove1) linarith
    have add: "i \<notin> set (favorites s) \<Longrightarrow> \<not> (3 \<le> length (favorites s) \<and> \<not> isPremium s) \<Longrightarrow>
        app_inv (s\<lparr>favorites := favorites s @ [i], stored_favorites := favorites s @ [i]\<rparr>)"
      using inv by (auto simp: app_inv_def)
    from Some inv rm add show ?thesis
      by (auto simp: toggleFavorite_def intro: showPumpDetails_inv)
  qed
qed

lemma loadSampleData_consistent: "list_all status_consistent (loadSampleData now)"
  by (simp add: loadSampleData_def sample_pump_def status_consistent_def queueStatusOf_def)

lemma addPumpMarkers_inv: "app_inv s \<Longrightarrow> app_inv (addPumpMarkers c s)"
  by (simp add: addPumpMarkers_def app_inv_def list_all_iff)

lemma loadSample_inv: "app_inv s \<Longrightarrow> app_inv (s\<lparr>pumps := loadSampleData now\<rparr>)"
  by (simp add: app_inv_def loadSampleData_consistent)

lemma loadKnown_inv: "app_inv s \<Longrightarrow> app_inv (loadKnownCNGStations c s)"
  by (simp add: loadSample_inv loadKnownCNGStations_def knownStations_def)

lemma app_step_inv: "app_inv s \<Longrightarrow> app_inv (fst (app_step c s e))"
  by (cases e)
     (simp_all add: submit_inv showPumpDetails_inv showUpdateModal_inv showNearest_inv toggle_inv
        addPumpMarkers_inv loadKnown_inv loadSample_inv, simp add: app_inv_def)

lemma app_step_points:
  "userPoints (fst (app_step c s e)) =
     userPoints s + (if e = ClickSubmit \<and> snd (app_step c s e) = Ok then 10 else 0)"
  by (cases e)
     (auto simp: submitQueueUpdate_def showPumpDetails_def showUpdateModal_def toggleFavorite_def
        showNearestPumpForUpdate_def addPumpMarkers_def loadKnownCNGStations_def Let_def
        split: option.splits)

text \<open>A freshly recorded reading, seen by the estimator at the same instant.\<close>

lemma smart_record_reading:
  assumes "profile_ok p"
  shows "sd_predictedQueue (smart c (record_reading c ql p)) = Some (of_int ql)
       \<and> sd_confidence (smart c (record_reading c ql p)) = 100
       \<and> \<not> sd_isPrediction (smart c (record_reading c ql p))"
proof -
  have t: "minutes_since c (record_reading c ql p) = 0"
    by (simp add: minutes_since_def record_reading_def)
  have "historical_estimate (getHours c) 0 (record_reading c ql p) = (100, Some (of_int ql))"
    using assms
    by (cases "historicalData p")
       (simp_all add: historical_estimate_def Let_def record_reading_def profile_ok_def weight_of_def blend_def)
  then show ?thesis by (simp add: smart_fields t)
qed

lemma find_submitted:
  assumes "find (\<lambda>p. pump_id p = i) ps = Some p"
  shows "find (\<lambda>p. pump_id p = i)
           (update_first (\<lambda>p. pump_id p = i) (estimate_in_place c)
              (update_first (\<lambda>p. pump_id p = i) (record_reading c ql) ps))
         = Some (estimate_in_place c (record_reading c ql p))"
proof -
  from assms have "pump_id p = i" by (auto simp: find_Some_iff)
  with assms have "find (\<lambda>p. pump_id p = i) (update_first (\<lambda>p. pump_id p = i) (record_reading c ql) ps)
      = Some (record_reading c ql p)"
    by (simp add: find_update_first record_reading_def)
  with \<open>pump_id p = i\<close> show ?thesis
    by (simp add: find_update_first record_reading_def)
qed


lemma app_run_Cons_eq:
  "app_run ((c, e) # es) s =
     (fst (app_run es (fst (app_step c s e))),
      (e, snd (app_step c s e)) # snd (app_run es (fst (app_step c s e))))"
  by (simp split: prod.split)

subsection \<open>Properties of the handlers\<close>

text \<open>C10. A submitted queue length is recorded in the selected station with the
  current time and its colour, the user gains 10 points (also in storage), and the
  estimator, run on the updated station at that instant, trusts it fully: the
  prediction is the reported length with confidence 100 and the same colour.\<close>

theorem submit_records_fresh_reading:
  assumes "selectedQueue s = Some ql" and "selectedPump s = Some i"
    and "find (\<lambda>p. pump_id p = i) (pumps s) = Some p" and "i \<in> markers s"
    and "profile_ok p"
  shows "snd (submitQueueUpdate c s) = Ok
       \<and> userPoints (fst (submitQueueUpdate c s)) = userPoints s + 10
       \<and> stored_points (fst (submitQueueUpdate c s)) = userPoints s + 10
       \<and> (\<exists>p'. find (\<lambda>p. pump_id p = i) (pumps (fst (submitQueueUpdate c s))) = Some p'
              \<and> queueLength p' = Some ql \<and> lastUpdated p' = Some (now_ms c)
              \<and> queueStatus p' = queueStatusOf ql
              \<and> sd_status (smart c p') = queueStatusOf ql
              \<and> sd_predictedQueue (smart c p') = Some (of_int ql)
              \<and> sd_confidence (smart c p') = 100 \<and> \<not> sd_isPrediction (smart c p'))"
proof -
  let ?p' = "estimate_in_place c (record_reading c ql p)"
  have sub: "submitQueueUpdate c s =
           (s\<lparr>pumps := update_first (\<lambda>p. pump_id p = i) (estimate_in_place c)
                         (update_first (\<lambda>p. pump_id p = i) (record_reading c ql) (pumps s)),
              userPoints := userPoints s + 10, stored_points := userPoints s + 10\<rparr>, Ok)"
    using assms(1-4) by (rule submit_ok)
  have found: "find (\<lambda>p. pump_id p = i) (pumps (fst (submitQueueUpdate c s))) = Some ?p'"
    using find_submitted [OF assms(3)] by (simp add: sub)
  have est: "sd_predictedQueue (smart c ?p') = Some (of_int ql)
      \<and> sd_confidence (smart c ?p') = 100 \<and> \<not> sd_isPrediction (smart c ?p')"
    using smart_record_reading [OF assms(5)] by simp
  then have "sd_status (smart c ?p') = queueStatusOf ql"
    by (simp add: smart_fields(3) del: smart_estimate_in_place)
  with sub found est show ?thesis
    by (simp add: record_reading_def)
qed

text \<open>C11. A submission that does not complete awards nothing: points, stored points,
  favourites and the chosen queue button are as before.\<close>

theorem submit_failure_awards_nothing:
  assumes "snd (submitQueueUpdate c s) \<noteq> Ok"
  shows "userPoints (fst (submitQueueUpdate c s)) = userPoints s
       \<and> stored_points (fst (submitQueueUpdate c s)) = stored_points s
       \<and> favorites (fst (submitQueueUpdate c s)) = favorites s
       \<and> selectedQueue (fst (submitQueueUpdate c s)) = selectedQueue s"
  using assms
  by (auto simp: submitQueueUpdate_def Let_def split: option.splits if_splits)

text \<open>C12. A submission for a station that has no map marker throws a
  \<open>TypeError\<close> at \<open>marker.setIcon\<close>, after the station object has already been
  overwritten with the new reading: the data changes but no points are awarded.\<close>

theorem submit_without_marker_partial:
  assumes "selectedQueue s = Some ql" and "selectedPump s = Some i"
    and "find (\<lambda>p. pump_id p = i) (pumps s) = Some p" and "i \<notin> markers s"
  shows "snd (submitQueueUpdate c s) = TypeError
       \<and> userPoints (fst (submitQueueUpdate c s)) = userPoints s
       \<and> find (\<lambda>p. pump_id p = i) (pumps (fst (submitQueueUpdate c s))) = Some (record_reading c ql p)"
proof -
  from assms(3) have "pump_id p = i" by (auto simp: find_Some_iff)
  with assms show ?thesis
    by (simp add: submit_no_marker find_update_first record_reading_def)
qed

text \<open>C13. \<open>toggleFavorite\<close> removes a favourite station, refuses a fourth favourite to a
  user without premium, and adds the station otherwise; storage follows the list.\<close>

theorem toggleFavorite_sets:
  assumes "app_inv s" and "selectedPump s = Some i"
  shows "set (favorites (fst (toggleFavorite c s))) =
           (if i \<in> set (favorites s) then set (favorites s) - {i}
            else if 3 \<le> length (favorites s) \<and> \<not> isPremium s then set (favorites s)
            else insert i (set (favorites s)))
       \<and> stored_favorites (fst (toggleFavorite c s)) = favorites (fst (toggleFavorite c s))"
  using assms
  by (auto simp: toggleFavorite_def showPumpDetails_def app_inv_def)

text \<open>C14. The invariant of the app state holds along every run of events, errors
  included: favourites are distinct, at most three without premium, storage agrees
  with memory, and each station's colour agrees with its reported length.\<close>

theorem app_run_preserves_inv:
  assumes "app_inv s"
  shows "app_inv (fst (app_run evs s))"
  using assms
proof (induction evs arbitrary: s)
  case Nil
  then show ?case by simp
next
  case (Cons ce evs)
  obtain c e where ce: "ce = (c, e)" by (cases ce)
  have "app_inv (fst (app_step c s e))" using Cons.prems by (rule app_step_inv)
  then have "app_inv (fst (app_run evs (fst (app_step c s e))))" by (rule Cons.IH)
  then show ?case by (simp add: ce app_run_Cons_eq del: app_run.simps)
qed

text \<open>C15. Points: after any run the user has exactly 10 points more per submission
  that completed, and no others.\<close>

theorem app_run_points:
  "userPoints (fst (app_run evs s)) =
     userPoints s + 10 * int (length (filter (\<lambda>(e, r). e = ClickSubmit \<and> r = Ok) (snd (app_run evs s))))"
proof (induction evs arbitrary: s)
  case Nil
  then show ?case by simp
next
  case (Cons ce evs)
  obtain c e where ce: "ce = (c, e)" by (cases ce)
  show ?case
    using Cons.IH [of "fst (app_step c s e)"] app_step_points [of c s e]
    by (auto simp: ce app_run_Cons_eq simp del: app_run.simps)
qed

end
