(* ===== verification/ListView.thy ===== *)
theory ListView
  imports Store "HOL-Library.Multiset"
begin

text \<open>
  The list view of \<open>src/public/app.js\<close>: which stations are listed, and in which
  order. \<open>updatePumpsList\<close> (lines 807--843) filters by the status select and sorts by
  the sort select with a comparator of the form \<open>key(a) - key(b)\<close>; JavaScript's
  \<open>Array.prototype.sort\<close> is stable, so it is the stable sort by that key
  (\<open>sort_key\<close>). \<open>handleSearch\<close> (1158--1183) lists the stations whose name, address
  or brand contains the lower-cased query; \<open>showFavorites\<close> (1210--1234) lists the
  favourite stations. \<open>extractBrand\<close> (231--241) and \<open>formatAddress\<close> (164--172) are
  the text helpers of the Overpass loader. The rendered HTML of each card is not
  modelled: a view is the list of stations it shows.
\<close>

text \<open>The values of the \<open>sort-by\<close> and \<open>filter-status\<close> selects.\<close>

datatype sort_by = SortDistance | SortQueue | SortUpdated | SortDefault

datatype status_filter = FilterAll | FilterStatus queue_status

text \<open>\<open>(a.queueLength || 999)\<close>: a null length and a length of 0 both read as 999.\<close>

definition queue_sort_key :: "pump \<Rightarrow> int" where
  "queue_sort_key p = (case queueLength p of None \<Rightarrow> 999 | Some q \<Rightarrow> if q = 0 then 999 else q)"

text \<open>\<open>b.lastUpdated - a.lastUpdated\<close>: newest first; a null date reads as 0.\<close>

definition updated_key :: "pump \<Rightarrow> int" where
  "updated_key p = - (case lastUpdated p of None \<Rightarrow> 0 | Some t \<Rightarrow> t)"

definition sort_pumps :: "sort_by \<Rightarrow> pump list \<Rightarrow> pump list" where
  "sort_pumps sb ps =
     (case sb of
        SortDistance \<Rightarrow> sort_key distance_key ps
      | SortQueue \<Rightarrow> sort_key queue_sort_key ps
      | SortUpdated \<Rightarrow> sort_key updated_key ps
      | SortDefault \<Rightarrow> ps)"

definition filter_pumps :: "status_filter \<Rightarrow> pump list \<Rightarrow> pump list" where
  "filter_pumps f ps =
     (case f of FilterAll \<Rightarrow> ps | FilterStatus st \<Rightarrow> filter (\<lambda>p. queueStatus p = st) ps)"

definition updatePumpsList :: "sort_by \<Rightarrow> status_filter \<Rightarrow> pump list \<Rightarrow> pump list" where
  "updatePumpsList sb f ps = sort_pumps sb (filter_pumps f ps)"

text \<open>\<open>handleSearch\<close>: a query shorter than two characters shows the ordinary list.\<close>

definition search_match :: "string \<Rightarrow> pump \<Rightarrow> bool" where
  "search_match q p \<longleftrightarrow>
     js_includes (js_toLowerCase (name p)) q \<or> js_includes (js_toLowerCase (address p)) q
     \<or> js_includes (js_toLowerCase (brand p)) q"

definition handleSearch :: "sort_by \<Rightarrow> status_filter \<Rightarrow> string \<Rightarrow> pump list \<Rightarrow> pump list" where
  "handleSearch sb f query ps =
     (let q = js_toLowerCase query
      in if length q < 2 then updatePumpsList sb f ps else filter (search_match q) ps)"

text \<open>\<open>showFavorites\<close>: \<open>None\<close> when no favourite station is loaded (a notification, the
  list is left as it was), otherwise the favourite stations in list order.\<close>

definition showFavorites :: "app \<Rightarrow> pump list option" where
  "showFavorites s =
     (let favoritePumps = filter (\<lambda>p. pump_id p \<in> set (favorites s)) (pumps s)
      in if favoritePumps = [] then None else Some favoritePumps)"

definition brands :: "string list" where
  "brands = [''Indian Oil'', ''Bharat Petroleum'', ''HP'', ''Shell'', ''IGL'', ''Mahanagar Gas'']"

definition extractBrand :: "string \<Rightarrow> string" where
  "extractBrand n =
     (case find (\<lambda>b. js_includes (js_toLowerCase n) (js_toLowerCase b)) brands of
        Some b \<Rightarrow> b
      | None \<Rightarrow> ''Independent'')"

text \<open>\<open>formatAddress\<close> over the OpenStreetMap tags (an absent tag object reads as no
  tags); an empty string is falsy and is skipped.\<close>

definition address_keys :: "string list" where
  "address_keys = [''addr:housenumber'', ''addr:street'', ''addr:city'', ''addr:postcode'']"

definition formatAddress :: "(string \<rightharpoonup> string) \<Rightarrow> string" where
  "formatAddress tags =
     (let parts = concat (map (\<lambda>k. case tags k of Some v \<Rightarrow> if v \<noteq> [] then [v] else [] | None \<Rightarrow> [])
                               address_keys)
      in if parts \<noteq> [] then js_join '', '' parts
         else (case tags ''addr:full'' of
                 Some v \<Rightarrow> if v \<noteq> [] then v else ''Address not available''
               | None \<Rightarrow> ''Address not available''))"

subsection \<open>Lemmas\<close>

lemma mset_sort_pumps [simp]: "mset (sort_pumps sb ps) = mset ps"
  by (simp add: sort_pumps_def split: sort_by.split)

lemma set_sort_pumps [simp]: "set (sort_pumps sb ps) = set ps"
  by (simp add: sort_pumps_def split: sort_by.split)

lemma set_filter_pumps: "set (filter_pumps f ps) = {p \<in> set ps. f = FilterAll \<or> f = FilterStatus (queueStatus p)}"
  by (auto simp: filter_pumps_def split: status_filter.splits)

lemma js_join_nonempty: "x \<in> set xs \<Longrightarrow> x \<noteq> [] \<Longrightarrow> js_join sep xs \<noteq> []"
  by (induction sep xs rule: js_join.induct) auto

lemma concat_singletons_nonempty:
  "x \<in> set (concat (map (\<lambda>k. case tags k of Some v \<Rightarrow> if v \<noteq> [] then [v] else [] | None \<Rightarrow> []) ks))
   \<Longrightarrow> x \<noteq> []"
  by (auto split: option.splits if_splits)


subsection \<open>Properties of the list view\<close>


text \<open>C22. A search of at least two characters lists, in station order, exactly the
  stations whose lower-cased name, address or brand contains the lower-cased query.\<close>

theorem handleSearch_matches:
  assumes "2 \<le> length (js_toLowerCase query)"
  shows "handleSearch sb f query ps = filter (search_match (js_toLowerCase query)) ps
       \<and> (p \<in> set (handleSearch sb f query ps) \<longleftrightarrow>
            p \<in> set ps \<and>
            ((\<exists>xs ys. js_toLowerCase (name p) = xs @ js_toLowerCase query @ ys)
             \<or> (\<exists>xs ys. js_toLowerCase (address p) = xs @ js_toLowerCase query @ ys)
             \<or> (\<exists>xs ys. js_toLowerCase (brand p) = xs @ js_toLowerCase query @ ys)))"
  using assms by (auto simp: handleSearch_def search_match_def js_includes_substring Let_def)


text \<open>\<open>extractBrand\<close> (never called by the app) returns one of the six known brands, whose lower-cased name
  occurs in the lower-cased station name, or \<open>Independent\<close>.\<close>

theorem extractBrand_range:
  "extractBrand n = ''Independent''
   \<or> (extractBrand n \<in> set brands
      \<and> (\<exists>xs ys. js_toLowerCase n = xs @ js_toLowerCase (extractBrand n) @ ys))"
  by (auto simp: extractBrand_def find_Some_iff js_includes_substring split: option.split)

text \<open>\<open>formatAddress\<close> never returns the empty string.\<close>

theorem formatAddress_nonempty: "formatAddress tags \<noteq> []"
proof (cases "concat (map (\<lambda>k. case tags k of Some v \<Rightarrow> if v \<noteq> [] then [v] else [] | None \<Rightarrow> [])
                          address_keys)")
  case Nil
  then show ?thesis by (simp add: formatAddress_def split: option.split)
next
  case (Cons x xs)
  then have "x \<noteq> []" by (metis concat_singletons_nonempty list.set_intros(1))
  with Cons show ?thesis
    using js_join_nonempty [of x "x # xs" "'', ''"]
    by (simp add: formatAddress_def Let_def del: js_join.simps)
qed

end
