(* ===== verification/Encoding.thy ===== *)
theory Encoding
  imports Prelude
begin

text \<open>
  The text encodings through which \<open>src/public/app.js\<close> keeps its state in
  \<open>localStorage\<close> and renders numbers: \<open>String(n)\<close> of an integer (\<open>js_int_string\<close>),
  \<open>parseInt\<close> without a radix (\<open>js_parseInt\<close>), \<open>JSON.stringify\<close> of an array of
  strings (\<open>json_stringify\<close>) and \<open>JSON.parse\<close> read back as an array of strings
  (\<open>json_parse\<close>). Strings are byte lists: \<open>JSON.parse\<close> of a unicode escape above
  \<open>00FF\<close>, and any JSON text that is not an array of strings, is \<open>None\<close> (a
  \<open>SyntaxError\<close>, or a value the app would not use as its favourites list).
  The parser is a one-pass automaton over the input (\<open>json_run\<close>), so it is
  structural and total.
\<close>

fun nat_digits :: "nat \<Rightarrow> string" where
  "nat_digits n =
     (if n < 10 then [char_of (48 + n)] else nat_digits (n div 10) @ [char_of (48 + n mod 10)])"

definition js_int_string :: "int \<Rightarrow> string" where
  "js_int_string i = (if i < 0 then CHR ''-'' # nat_digits (nat (- i)) else nat_digits (nat i))"

definition js_is_space :: "char \<Rightarrow> bool" where
  "js_is_space c \<longleftrightarrow> (of_char c :: nat) \<in> {9, 10, 11, 12, 13, 32}"

definition digit_value :: "char \<Rightarrow> nat option" where
  "digit_value c =
     (let n = (of_char c :: nat) in
      if 48 \<le> n \<and> n \<le> 57 then Some (n - 48)
      else if 97 \<le> n \<and> n \<le> 122 then Some (n - 87)
      else if 65 \<le> n \<and> n \<le> 90 then Some (n - 55)
      else None)"

definition radix_digit :: "nat \<Rightarrow> char \<Rightarrow> bool" where
  "radix_digit r c \<longleftrightarrow> (case digit_value c of Some d \<Rightarrow> d < r | None \<Rightarrow> False)"

definition digits_value :: "nat \<Rightarrow> string \<Rightarrow> nat" where
  "digits_value r ds = foldl (\<lambda>acc c. acc * r + the (digit_value c)) 0 ds"

text \<open>\<open>parseInt(s)\<close> without a radix: leading white space, a sign, a \<open>0x\<close> prefix
  selecting radix 16, then the longest run of digits of the radix; \<open>NaN\<close> (\<open>None\<close>)
  when there is none.\<close>

definition parse_sign :: "string \<Rightarrow> int \<times> string" where
  "parse_sign s =
     (case s of c # cs \<Rightarrow> if c = CHR ''-'' then (-1, cs) else if c = CHR ''+'' then (1, cs) else (1, s)
              | [] \<Rightarrow> (1, s))"

definition parse_radix :: "string \<Rightarrow> nat \<times> string" where
  "parse_radix s =
     (case s of c # d # cs \<Rightarrow> if c = CHR ''0'' \<and> (d = CHR ''x'' \<or> d = CHR ''X'') then (16, cs) else (10, s)
              | _ \<Rightarrow> (10, s))"

definition js_parseInt :: "string \<Rightarrow> int option" where
  "js_parseInt str =
     (case parse_sign (dropWhile js_is_space str) of
        (sign, s) \<Rightarrow>
          (case parse_radix s of
             (r, s') \<Rightarrow>
               (let z = takeWhile (radix_digit r) s'
                in if z = [] then None else Some (sign * int (digits_value r z)))))"

definition number_end :: "string \<Rightarrow> bool" where
  "number_end rest \<longleftrightarrow> (case rest of [] \<Rightarrow> True | c # _ \<Rightarrow> \<not> radix_digit 36 c)"

abbreviation dquote :: char where "dquote \<equiv> CHR 0x22"

abbreviation bslash :: char where "bslash \<equiv> CHR 0x5C"

definition hex_char :: "nat \<Rightarrow> char" where
  "hex_char d = (if d < 10 then char_of (48 + d) else char_of (87 + d))"

definition json_escape_char :: "char \<Rightarrow> string" where
  "json_escape_char c =
     (let n = (of_char c :: nat) in
      if c = dquote then [bslash, dquote]
      else if c = bslash then [bslash, bslash]
      else if n = 8 then [bslash, CHR ''b'']
      else if n = 12 then [bslash, CHR ''f'']
      else if n = 10 then [bslash, CHR ''n'']
      else if n = 13 then [bslash, CHR ''r'']
      else if n = 9 then [bslash, CHR ''t'']
      else if n < 32 then [bslash, CHR ''u'', CHR ''0'', CHR ''0'', hex_char (n div 16), hex_char (n mod 16)]
      else [c])"

definition json_quote :: "string \<Rightarrow> string" where
  "json_quote s = dquote # concat (map json_escape_char s) @ [dquote]"

definition json_stringify :: "string list \<Rightarrow> string" where
  "json_stringify xs = CHR ''['' # js_join '','' (map json_quote xs) @ [CHR '']'']"

datatype json_state = JStart | JOpen | JStr | JEsc | JUni "char list" | JValue | JComma | JEnd

definition json_ws :: "char \<Rightarrow> bool" where
  "json_ws c \<longleftrightarrow> (of_char c :: nat) \<in> {9, 10, 13, 32}"

definition simple_escape :: "char \<Rightarrow> char option" where
  "simple_escape c =
     (if c = dquote then Some c else if c = bslash then Some c else if c = CHR ''/'' then Some c
      else if c = CHR ''b'' then Some (CHR 0x08) else if c = CHR ''f'' then Some (CHR 0x0C)
      else if c = CHR ''n'' then Some (CHR 0x0A) else if c = CHR ''r'' then Some (CHR 0x0D)
      else if c = CHR ''t'' then Some (CHR 0x09) else None)"

fun json_run :: "json_state \<Rightarrow> string list \<Rightarrow> string \<Rightarrow> string \<Rightarrow> string list option" where
  "json_run JEnd done cur [] = Some (rev done)"
| "json_run st done cur [] = None"
| "json_run JStart done cur (c # cs) =
     (if json_ws c then json_run JStart done cur cs
      else if c = CHR ''['' then json_run JOpen done cur cs else None)"
| "json_run JOpen done cur (c # cs) =
     (if json_ws c then json_run JOpen done cur cs
      else if c = CHR '']'' then json_run JEnd done cur cs
      else if c = dquote then json_run JStr done [] cs else None)"
| "json_run JStr done cur (c # cs) =
     (if c = dquote then json_run JValue (rev cur # done) [] cs
      else if c = bslash then json_run JEsc done cur cs
      else if (of_char c :: nat) < 32 then None
      else json_run JStr done (c # cur) cs)"
| "json_run JEsc done cur (c # cs) =
     (if c = CHR ''u'' then json_run (JUni []) done cur cs
      else case simple_escape c of Some e \<Rightarrow> json_run JStr done (e # cur) cs | None \<Rightarrow> None)"
| "json_run (JUni ds) done cur (c # cs) =
     (if radix_digit 16 c then
        (if length ds = 3 then
           (let v = digits_value 16 (ds @ [c]) in
            if v < 256 then json_run JStr done (char_of v # cur) cs else None)
         else json_run (JUni (ds @ [c])) done cur cs)
      else None)"
| "json_run JValue done cur (c # cs) =
     (if json_ws c then json_run JValue done cur cs
      else if c = CHR '','' then json_run JComma done cur cs
      else if c = CHR '']'' then json_run JEnd done cur cs else None)"
| "json_run JComma done cur (c # cs) =
     (if json_ws c then json_run JComma done cur cs
      else if c = dquote then json_run JStr done [] cs else None)"
| "json_run JEnd done cur (c # cs) = (if json_ws c then json_run JEnd done cur cs else None)"

definition json_parse :: "string \<Rightarrow> string list option" where
  "json_parse s = json_run JStart [] [] s"

subsection \<open>Lemmas\<close>

declare nat_digits.simps [simp del]

lemma nat_digits_small [simp]: "n < 10 \<Longrightarrow> nat_digits n = [char_of (48 + n)]"
  by (simp add: nat_digits.simps)

lemma nat_digits_big: "\<not> n < 10 \<Longrightarrow> nat_digits n = nat_digits (n div 10) @ [char_of (48 + n mod 10)]"
  by (simp add: nat_digits.simps)

lemma digit_value_char [simp]: "d < 10 \<Longrightarrow> digit_value (char_of (48 + d)) = Some d"
  by (simp add: digit_value_def of_char_of Let_def)

lemma radix_digit_char: "(d::nat) < 10 \<Longrightarrow> radix_digit 10 (char_of (48 + d))"
  by (simp add: radix_digit_def)

lemma radix_digit_nat_digits: "c \<in> set (nat_digits n) \<Longrightarrow> radix_digit 10 c"
proof (induction n rule: nat_digits.induct)
  case (1 n)
  then show ?case
    by (cases "n < 10") (auto simp: nat_digits_big intro: radix_digit_char)
qed

lemma digits_value_snoc: "digits_value r (xs @ [c]) = digits_value r xs * r + the (digit_value c)"
  by (simp add: digits_value_def)

lemma digits_value_nat_digits [simp]: "digits_value 10 (nat_digits n) = n"
proof (induction n rule: nat_digits.induct)
  case (1 n)
  show ?case
  proof (cases "n < 10")
    case True
    then show ?thesis by (simp add: digits_value_def)
  next
    case False
    then have "nat_digits n = nat_digits (n div 10) @ [char_of (48 + n mod 10)]" by (rule nat_digits_big)
    with 1 False show ?thesis by (simp add: digits_value_snoc)
  qed
qed

lemma digit_char_zero: "char_of (48 + (n::nat)) = CHR ''0'' \<Longrightarrow> n < 10 \<Longrightarrow> n = 0"
proof -
  assume h: "char_of (48 + n) = CHR ''0''" and n: "n < 10"
  have "(of_char (char_of (48 + n)) :: nat) = of_char CHR ''0''" using h by simp
  with n show "n = 0" by (simp add: of_char_of)
qed

lemma nat_digits_Cons: "\<exists>c cs. nat_digits n = c # cs \<and> (c = CHR ''0'' \<longrightarrow> n = 0 \<and> cs = [])"
proof (induction n rule: nat_digits.induct)
  case (1 n)
  show ?case
  proof (cases "n < 10")
    case True
    then show ?thesis using digit_char_zero [of n] by auto
  next
    case False
    then have "n div 10 \<noteq> 0" by simp
    with 1 False show ?thesis by (auto simp: nat_digits_big)
  qed
qed

lemma radix_digit_10_char: "radix_digit 10 c \<Longrightarrow> 48 \<le> (of_char c :: nat) \<and> (of_char c :: nat) \<le> 57"
  by (auto simp: radix_digit_def digit_value_def Let_def split: if_splits)

lemma radix_digit_mono: "radix_digit r c \<Longrightarrow> r \<le> r' \<Longrightarrow> radix_digit r' c"
  by (auto simp: radix_digit_def split: option.splits)

lemma digit_not_space: "radix_digit 10 c \<Longrightarrow> \<not> js_is_space c"
  using radix_digit_10_char [of c] by (auto simp: js_is_space_def)

lemma digit_not_sign: "radix_digit 10 c \<Longrightarrow> c \<noteq> CHR ''-'' \<and> c \<noteq> CHR ''+''"
  using radix_digit_10_char [of c] by auto

lemma parse_sign_digit: "radix_digit 10 c \<Longrightarrow> parse_sign (c # s) = (1, c # s)"
  using digit_not_sign [of c] by (simp add: parse_sign_def)

lemma takeWhile_nat_digits:
  "number_end rest \<Longrightarrow> takeWhile (radix_digit 10) (nat_digits m @ rest) = nat_digits m"
  using radix_digit_mono [of 10 _ 36]
  by (auto simp: takeWhile_append2 radix_digit_nat_digits number_end_def split: list.splits)

lemma parse_radix_nat_digits:
  "number_end rest \<Longrightarrow> parse_radix (nat_digits m @ rest) = (10, nat_digits m @ rest)"
proof -
  assume e: "number_end rest"
  obtain c cs where m: "nat_digits m = c # cs" and z: "c = CHR ''0'' \<longrightarrow> m = 0 \<and> cs = []"
    using nat_digits_Cons [of m] by blast
  have "radix_digit 36 (CHR ''x'')" "radix_digit 36 (CHR ''X'')"
    by (simp_all add: radix_digit_def digit_value_def)
  with e m z show ?thesis
    by (auto simp: parse_radix_def number_end_def split: list.splits)
qed

lemma parse_digits_tail:
  "number_end rest \<Longrightarrow>
   (case parse_radix (nat_digits m @ rest) of
      (r, s') \<Rightarrow> (let z = takeWhile (radix_digit r) s'
                   in if z = [] then None else Some (sign * int (digits_value r z))))
   = Some (sign * int m)"
proof -
  assume e: "number_end rest"
  have "nat_digits m \<noteq> []" using nat_digits_Cons [of m] by auto
  then show ?thesis by (simp add: parse_radix_nat_digits [OF e] takeWhile_nat_digits [OF e])
qed

lemma parse_sign_nat_digits: "parse_sign (nat_digits m @ rest) = (1, nat_digits m @ rest)"
  and dropWhile_nat_digits: "dropWhile js_is_space (nat_digits m @ rest) = nat_digits m @ rest"
proof -
  obtain c cs where m: "nat_digits m = c # cs"
    using nat_digits_Cons [of m] by blast
  then have c: "radix_digit 10 c" using radix_digit_nat_digits [of c m] by simp
  show "parse_sign (nat_digits m @ rest) = (1, nat_digits m @ rest)"
    using m c by (simp add: parse_sign_digit)
  show "dropWhile js_is_space (nat_digits m @ rest) = nat_digits m @ rest"
    using m c by (simp add: digit_not_space)
qed

lemma js_parseInt_int_string:
  "number_end rest \<Longrightarrow> js_parseInt (js_int_string i @ rest) = Some i"
proof -
  assume e: "number_end rest"
  show ?thesis
  proof (cases "i < 0")
    case False
    then show ?thesis
      using parse_digits_tail [OF e, where m = "nat i" and sign = 1]
      by (simp add: js_int_string_def js_parseInt_def parse_sign_nat_digits dropWhile_nat_digits)
  next
    case True
    have sp: "\<not> js_is_space CHR ''-''" by (simp add: js_is_space_def)
    show ?thesis
      using True sp parse_digits_tail [OF e, where m = "nat (- i)" and sign = "-1"]
      by (simp add: js_int_string_def js_parseInt_def parse_sign_def)
  qed
qed

lemma js_int_string_inj: "js_int_string i = js_int_string j \<longleftrightarrow> i = j"
proof
  assume "js_int_string i = js_int_string j"
  then have "js_parseInt (js_int_string i @ []) = js_parseInt (js_int_string j @ [])"
    by (simp only:)
  then show "i = j"
    by (simp only: js_parseInt_int_string number_end_def list.case option.inject)
qed simp

lemma js_int_string_1 [simp]: "js_int_string 1 = ''1''"
  by code_simp

lemma hex_char_digit: "(d::nat) < 16 \<Longrightarrow> digit_value (hex_char d) = Some d"
  by (auto simp: hex_char_def digit_value_def of_char_of Let_def)

lemma hex_char_radix: "(d::nat) < 16 \<Longrightarrow> radix_digit 16 (hex_char d)"
  by (simp add: radix_digit_def hex_char_digit)

lemma json_ws_simps [simp]:
  "\<not> json_ws CHR '',''" "\<not> json_ws CHR '']''" "\<not> json_ws CHR ''[''" "\<not> json_ws dquote"
  by (simp_all add: json_ws_def)

lemma json_run_unicode:
  assumes "n < 32"
  shows "json_run JStr d cur ([bslash, CHR ''u'', CHR ''0'', CHR ''0'', hex_char (n div 16), hex_char (n mod 16)] @ r)
         = json_run JStr d (char_of n # cur) r"
proof -
  have h: "n div 16 < 16" "n mod 16 < 16" using assms by simp_all
  have z: "digit_value CHR ''0'' = Some 0" by (simp add: digit_value_def)
  have z16: "radix_digit 16 CHR ''0''" by (simp add: radix_digit_def z)
  have v: "digits_value 16 [CHR ''0'', CHR ''0'', hex_char (n div 16), hex_char (n mod 16)] = n"
    using h by (simp add: digits_value_def hex_char_digit z)
  show ?thesis
    using h v assms by (simp add: z16 hex_char_radix)
qed

lemma char_of_small [simp]:
  "char_of (8::nat) = CHR 0x08" "char_of (9::nat) = CHR 0x09" "char_of (10::nat) = CHR 0x0A"
  "char_of (12::nat) = CHR 0x0C" "char_of (13::nat) = CHR 0x0D"
  by code_simp+

lemma json_escape_run:
  "json_run JStr d cur (json_escape_char c @ r) = json_run JStr d (c # cur) r"
proof -
  define n where "n = (of_char c :: nat)"
  have cn: "c = char_of n" by (simp add: n_def)
  consider "c = dquote" | "c = bslash" | "c \<noteq> dquote" "c \<noteq> bslash" "n \<in> {8, 9, 10, 12, 13}"
    | "c \<noteq> dquote" "c \<noteq> bslash" "n \<notin> {8, 9, 10, 12, 13}" "n < 32"
    | "c \<noteq> dquote" "c \<noteq> bslash" "\<not> n < 32"
    by blast
  then show ?thesis
  proof cases
    case 1
    then show ?thesis by (simp add: json_escape_char_def simple_escape_def)
  next
    case 2
    then show ?thesis by (simp add: json_escape_char_def simple_escape_def)
  next
    case 3
    then show ?thesis
      by (auto simp: json_escape_char_def simple_escape_def Let_def n_def [symmetric] cn)
  next
    case 4
    then have "json_escape_char c =
        [bslash, CHR ''u'', CHR ''0'', CHR ''0'', hex_char (n div 16), hex_char (n mod 16)]"
      by (simp add: json_escape_char_def Let_def n_def [symmetric])
    then show ?thesis using json_run_unicode [OF 4(4), of d cur r] by (simp add: cn)
  next
    case 5
    then show ?thesis by (simp add: json_escape_char_def Let_def n_def [symmetric])
  qed
qed

lemma json_body_run:
  "json_run JStr d cur (concat (map json_escape_char s) @ r) = json_run JStr d (rev s @ cur) r"
  by (induction s arbitrary: cur) (simp_all add: json_escape_run [of _ _ _ "_ @ r", simplified])

lemma json_quote_run:
  "json_run JStr d [] (concat (map json_escape_char s) @ dquote # r) = json_run JValue (s # d) [] r"
  by (simp add: json_body_run)

lemma js_join_Cons: "js_join sep (x # xs) = x @ concat (map (\<lambda>y. sep @ y) xs)"
  by (induction sep xs arbitrary: x rule: js_join.induct) simp_all

lemma json_tail_run:
  "json_run JValue d [] (concat (map (\<lambda>y. CHR '','' # json_quote y) xs) @ [CHR '']'']) = Some (rev d @ xs)"
  by (induction xs arbitrary: d) (simp_all add: json_quote_def json_quote_run)

lemma json_parse_stringify: "json_parse (json_stringify xs) = Some xs"
proof (cases xs)
  case Nil
  then show ?thesis by (simp add: json_parse_def json_stringify_def)
next
  case (Cons x ys)
  then show ?thesis
    using json_tail_run [of "[x]" ys]
    by (simp add: json_parse_def json_stringify_def js_join_Cons json_quote_def json_quote_run o_def)
qed

end
