(* ===== verification/Storage.thy ===== *)
theory Storage
  imports Store Encoding
begin

text \<open>
  \<open>localStorage\<close> as the app uses it (\<open>src/public/app.js\<close>): a map from keys to
  strings. The constructor (lines 9--10) reads \<open>favorites\<close> with
  \<open>JSON.parse(localStorage.getItem('favorites') || '[]')\<close> and \<open>userPoints\<close> with
  \<open>parseInt(localStorage.getItem('userPoints') || '0')\<close>; \<open>isPremium\<close> (lines
  1031--1033) compares the stored string with \<open>'true'\<close>. \<open>toggleFavorite\<close> writes
  \<open>JSON.stringify(this.favorites)\<close> (line 1027) and \<open>submitQueueUpdate\<close> writes the
  number \<open>this.userPoints\<close>, stored as \<open>String(n)\<close> (line 996). The fields
  \<open>stored_favorites\<close> and \<open>stored_points\<close> of \<open>Store.app\<close> are the decoded contents
  of these two keys; \<open>storage_agrees\<close> is that abstraction and the run of
  \<open>storage_run\<close> writes the strings the code writes.
\<close>

type_synonym local_storage = "string \<rightharpoonup> string"

text \<open>\<open>getItem(k) || d\<close>: a missing key and the empty string both give \<open>d\<close>.\<close>

definition storage_item :: "local_storage \<Rightarrow> string \<Rightarrow> string \<Rightarrow> string" where
  "storage_item st k d = (case st k of None \<Rightarrow> d | Some v \<Rightarrow> if v = [] then d else v)"

definition load_favorites :: "local_storage \<Rightarrow> string list option" where
  "load_favorites st = json_parse (storage_item st ''favorites'' ''[]'')"

definition load_points :: "local_storage \<Rightarrow> int option" where
  "load_points st = js_parseInt (storage_item st ''userPoints'' ''0'')"

definition load_premium :: "local_storage \<Rightarrow> bool" where
  "load_premium st \<longleftrightarrow> st ''isPremium'' = Some ''true''"

text \<open>The constructor: \<open>None\<close> when \<open>JSON.parse\<close> throws (or yields something other
  than a list of strings) or \<open>parseInt\<close> yields \<open>NaN\<close>.\<close>

definition CNGFlowApp_init :: "local_storage \<Rightarrow> app option" where
  "CNGFlowApp_init st =
     (case (load_favorites st, load_points st) of
        (Some favs, Some pts) \<Rightarrow> Some (init_app favs pts (load_premium st))
      | _ \<Rightarrow> None)"

text \<open>The \<open>setItem\<close> calls an event makes, given the state after it and its outcome:
  \<open>toggleFavorite\<close> writes the list whenever it changed it (outcome \<open>Ok\<close>), and
  \<open>submitQueueUpdate\<close> writes the points when it completes.\<close>

definition storage_effect :: "app_event \<Rightarrow> app \<Rightarrow> outcome \<Rightarrow> local_storage \<Rightarrow> local_storage" where
  "storage_effect e s' r st =
     (if e = ClickFavorite \<and> r = Ok then st(''favorites'' \<mapsto> json_stringify (favorites s'))
      else if e = ClickSubmit \<and> r = Ok then st(''userPoints'' \<mapsto> js_int_string (userPoints s'))
      else st)"

fun storage_run :: "(clock \<times> app_event) list \<Rightarrow> app \<Rightarrow> local_storage \<Rightarrow> local_storage" where
  "storage_run [] s st = st"
| "storage_run ((c, e) # es) s st =
     (case app_step c s e of (s', r) \<Rightarrow> storage_run es s' (storage_effect e s' r st))"

definition storage_agrees :: "local_storage \<Rightarrow> app \<Rightarrow> bool" where
  "storage_agrees st s \<longleftrightarrow>
     load_favorites st = Some (stored_favorites s) \<and> load_points st = Some (stored_points s)
     \<and> load_premium st = isPremium s"

subsection \<open>Lemmas\<close>

lemma json_stringify_nonempty [simp]: "json_stringify xs \<noteq> []"
  by (simp add: json_stringify_def)

lemma js_int_string_nonempty [simp]: "js_int_string i \<noteq> []"
  using nat_digits_Cons [of "nat i"] by (auto simp: js_int_string_def)

lemma number_end_Nil [simp]: "number_end []"
  by (simp add: number_end_def)

lemma load_favorites_write [simp]:
  "load_favorites (st(''favorites'' \<mapsto> json_stringify xs)) = Some xs"
  by (simp add: load_favorites_def storage_item_def json_parse_stringify)

lemma load_points_write [simp]:
  "load_points (st(''userPoints'' \<mapsto> js_int_string n)) = Some n"
  using js_parseInt_int_string [of "[]" n] by (simp add: load_points_def storage_item_def)

lemma load_other_keys [simp]:
  "load_favorites (st(''userPoints'' \<mapsto> v)) = load_favorites st"
  "load_points (st(''favorites'' \<mapsto> v)) = load_points st"
  "load_premium (st(''favorites'' \<mapsto> v)) = load_premium st"
  "load_premium (st(''userPoints'' \<mapsto> v)) = load_premium st"
  by (simp_all add: load_favorites_def load_points_def load_premium_def storage_item_def)

text \<open>Which events change the stored values: only a completed toggle changes the
  stored list, only a completed submission the stored points, and nothing changes
  the premium flag.\<close>

lemma app_step_stored:
  assumes "app_step c s e = (s', r)"
  shows "\<not> (e = ClickFavorite \<and> r = Ok) \<Longrightarrow> stored_favorites s' = stored_favorites s"
    and "\<not> (e = ClickSubmit \<and> r = Ok) \<Longrightarrow> stored_points s' = stored_points s"
    and "isPremium s' = isPremium s"
  using assms
  by (cases e; auto simp: submitQueueUpdate_def showPumpDetails_def showUpdateModal_def
      toggleFavorite_def showNearestPumpForUpdate_def addPumpMarkers_def loadKnownCNGStations_def
      Let_def split: option.splits if_splits)+

lemma storage_effect_agrees:
  assumes "storage_agrees st s" and "app_inv s'" and "app_step c s e = (s', r)"
  shows "storage_agrees (storage_effect e s' r st) s'"
  using assms app_step_stored [OF assms(3)]
  by (auto simp: storage_agrees_def storage_effect_def app_inv_def)

lemma storage_run_agrees:
  "storage_agrees st s \<Longrightarrow> app_inv s \<Longrightarrow>
   storage_agrees (storage_run evs s st) (fst (app_run evs s)) \<and> app_inv (fst (app_run evs s))"
proof (induction evs arbitrary: s st)
  case Nil
  then show ?case by simp
next
  case (Cons ce evs)
  obtain c e where ce: "ce = (c, e)" by (cases ce)
  obtain s' r where step: "app_step c s e = (s', r)" by (cases "app_step c s e")
  have inv': "app_inv s'" using app_step_inv [OF Cons.prems(2), of c e] step by simp
  have "storage_agrees (storage_effect e s' r st) s'"
    using storage_effect_agrees [OF Cons.prems(1) inv' step] .
  from Cons.IH [OF this inv'] show ?case
    by (simp add: ce step app_run_Cons_eq del: app_run.simps)
qed

subsection \<open>Properties of the storage\<close>

text \<open>C27. Reloading the page after any run of events restores the favourites and the
  points held in memory at the end of the run, when the storage agreed with the
  state at its start: the \<open>setItem\<close> calls keep \<open>localStorage\<close> in step with the
  state, and the constructor decodes it exactly.\<close>

theorem reload_restores:
  assumes "storage_agrees st s" and "app_inv s"
  shows "CNGFlowApp_init (storage_run evs s st) =
           Some (init_app (favorites (fst (app_run evs s))) (userPoints (fst (app_run evs s)))
                   (isPremium (fst (app_run evs s))))"
  using storage_run_agrees [OF assms, of evs]
  by (simp add: CNGFlowApp_init_def storage_agrees_def app_inv_def)

end
