(* ===== verification/Presentation.thy ===== *)
theory Presentation
  imports Store Encoding
begin

text \<open>
  The presentation decisions of \<open>src/public/app.js\<close>: the queue text of cards, popups
  and details (\<open>getQueueText\<close>, lines 589--596), the age of a reading
  (\<open>getTimeAgo\<close>, lines 662--669) and what a map pin shows (\<open>getMarkerIcon\<close>, lines
  510--558): the colour (the smart status or the stored one), the number on the
  pin, the prediction badge, the distance label and the traffic dot. The HTML
  around these values is not modelled; a pin is the record \<open>marker_icon\<close> of the
  values interpolated into its template.
\<close>

definition getQueueText :: "int option \<Rightarrow> string" where
  "getQueueText ql =
     (case ql of
        None \<Rightarrow> ''No data''
      | Some q \<Rightarrow>
          if q = 0 then ''Empty''
          else if q \<le> 5 then js_int_string q @ '' in queue''
          else if q \<le> 15 then js_int_string q @ '' in queue''
          else js_int_string q @ ''+ in queue'')"

text \<open>\<open>Math.floor((new Date() - date) / 60000)\<close>; a null date reads as 0.\<close>

definition getTimeAgo :: "clock \<Rightarrow> millis option \<Rightarrow> string" where
  "getTimeAgo c date =
     (let minutes = (now_ms c - (case date of None \<Rightarrow> 0 | Some t \<Rightarrow> t)) div 60000 in
      if minutes < 1 then ''just now''
      else if minutes < 60 then js_int_string minutes @ '' min ago''
      else
        (let hours = minutes div 60 in
         if hours < 24 then js_int_string hours @ '' hour'' @ (if hours > 1 then ''s'' else '''') @ '' ago''
         else js_int_string (hours div 24) @ '' day'' @ (if hours > 24 then ''s'' else '''') @ '' ago''))"

definition status_color :: "queue_status \<Rightarrow> string" where
  "status_color st =
     (case st of Green \<Rightarrow> ''#10B981'' | Yellow \<Rightarrow> ''#F59E0B'' | Red \<Rightarrow> ''#EF4444'' | Gray \<Rightarrow> ''#9CA3AF'')"

text \<open>The number on the pin: \<open>~predictedQueue\<close> for a prediction, else the stored
  length, or \<open>?\<close> when it is null.\<close>

datatype marker_label = PredictedLabel js_num | ReportedLabel int | UnknownLabel

record marker_icon =
  mk_status :: queue_status
  mk_color :: string
  mk_label :: marker_label
  mk_prediction :: bool
  mk_distance :: "rat option"
  mk_traffic :: traffic_density

text \<open>\<open>getMarkerIcon(status, pump)\<close>: it runs the estimator (which writes back into the
  station, returned as the second component) and uses its status when the confidence
  is above 70 or the result is a prediction; \<open>pump.distance ? ... : ''\<close> hides a null
  or zero distance.\<close>

definition getMarkerIcon :: "clock \<Rightarrow> queue_status \<Rightarrow> pump \<Rightarrow> marker_icon \<times> pump" where
  "getMarkerIcon c status p =
     (case calculateSmartQueueStatus c p of
        (smartData, p') \<Rightarrow>
          (let useSmartStatus = sd_confidence smartData > 70 \<or> sd_isPrediction smartData;
               finalStatus = (if useSmartStatus then sd_status smartData else status)
           in (\<lparr>mk_status = finalStatus, mk_color = status_color finalStatus,
                mk_label = (if sd_isPrediction smartData then PredictedLabel (sd_predictedQueue smartData)
                            else case queueLength p of Some q \<Rightarrow> ReportedLabel q | None \<Rightarrow> UnknownLabel),
                mk_prediction = sd_isPrediction smartData,
                mk_distance = (case distance p of Some d \<Rightarrow> if d = 0 then None else Some d | None \<Rightarrow> None),
                mk_traffic = sd_trafficDensity smartData\<rparr>, p')))"

subsection \<open>Lemmas\<close>

lemma getMarkerIcon_write_back: "snd (getMarkerIcon c st p) = estimate_in_place c p"
  by (simp add: getMarkerIcon_def estimate_in_place_def Let_def split: prod.split)

lemma getMarkerIcon_fields:
  "mk_status (fst (getMarkerIcon c st p)) =
     (if 70 < sd_confidence (smart c p) \<or> sd_isPrediction (smart c p) then sd_status (smart c p) else st)"
  "mk_label (fst (getMarkerIcon c st p)) =
     (if sd_isPrediction (smart c p) then PredictedLabel (sd_predictedQueue (smart c p))
      else case queueLength p of Some q \<Rightarrow> ReportedLabel q | None \<Rightarrow> UnknownLabel)"
  "mk_prediction (fst (getMarkerIcon c st p)) = sd_isPrediction (smart c p)"
  by (simp_all add: getMarkerIcon_def Let_def split: prod.split)

lemma number_end_space [simp]: "number_end (CHR '' '' # s)"
  and number_end_plus [simp]: "number_end (CHR ''+'' # s)"
  by (simp_all add: number_end_def radix_digit_def digit_value_def)

subsection \<open>Properties of the presentation\<close>

text \<open>C24. The colour of a pin is the smart status, except for a station with an
  hourly profile whose reading is exactly 30 minutes old: there the confidence is 70,
  not above it, and the result is not a prediction, so the stored colour passed in is
  shown. The \<open>status\<close> argument of \<open>getMarkerIcon\<close> matters only at that instant.\<close>

theorem marker_status_choice:
  "mk_status (fst (getMarkerIcon c st p)) =
     (if historicalData p \<noteq> None \<and> minutes_since c p = 30 then st else sd_status (smart c p))"
proof (cases "historicalData p")
  case None
  then show ?thesis by (simp add: getMarkerIcon_fields smart_fields historical_estimate_None)
next
  case (Some avg)
  consider "minutes_since c p < 30" | "minutes_since c p = 30" | "30 < minutes_since c p"
    by linarith
  then show ?thesis
  proof cases
    case 1
    with Some show ?thesis
      by (simp add: getMarkerIcon_fields smart_fields historical_estimate_fresh)
  next
    case 2
    with Some show ?thesis
      by (simp add: getMarkerIcon_fields smart_fields historical_estimate_fresh)
  next
    case 3
    with Some show ?thesis by (simp add: getMarkerIcon_fields smart_fields)
  qed
qed

text \<open>C25. Finding: a station with no reading, no date and no profile (the curated
  stations, the OpenStreetMap stations) is drawn as a green pin showing a predicted
  \<open>~0\<close> with confidence 100, and its popup says it was updated as many days ago as
  have passed since 1 January 1970, instead of a gray pin with \<open>?\<close>.\<close>

theorem finding_no_data_marker:
  assumes "queueLength p = None" and "lastUpdated p = None" and "historicalData p = None"
    and "172800000 \<le> now_ms c" and "tz_offset c = 0"
  shows "mk_status (fst (getMarkerIcon c st p)) = Green
       \<and> mk_label (fst (getMarkerIcon c st p)) = PredictedLabel (Some 0)
       \<and> sd_confidence (smart c p) = 100
       \<and> getTimeAgo c (lastUpdated p) = js_int_string (now_ms c div 60000 div 60 div 24) @ '' days ago''"
proof -
  have t: "30 < minutes_since c p" using assms(2,4) by (simp add: minutes_since_def)
  have pq: "sd_predictedQueue (smart c p) = Some 0"
    using assms(1,3) by (simp add: smart_fields historical_estimate_None peak_adjust_def js_round_def)
  have "172800000 div 60000 \<le> now_ms c div 60000"
    using assms(4) by (rule zdiv_mono1) simp
  then have "2880 div 60 \<le> now_ms c div 60000 div 60" by (intro zdiv_mono1) simp_all
  then have h: "25 \<le> now_ms c div 60000 div 60" by simp
  show ?thesis
    using assms t pq h
    by (simp add: getMarkerIcon_fields smart_fields historical_estimate_None smart_status_def
        getTimeAgo_def Let_def)
qed

text \<open>Finding: a reading between 25 and 47 hours old is shown as \<open>1 days ago\<close>;
  the plural test compares the hours with 24 instead of the days with 1.\<close>

theorem finding_time_ago_one_days:
  assumes "1500 \<le> (now_ms c - t) div 60000" and "(now_ms c - t) div 60000 < 2880"
  shows "getTimeAgo c (Some t) = ''1 days ago''"
proof -
  define m where "m = (now_ms c - t) div 60000"
  have h: "25 \<le> m div 60" "m div 60 < 48" using assms by (simp_all add: m_def)
  then have "m div 60 div 24 = 1" by linarith
  with h show ?thesis using assms
    by (simp add: getTimeAgo_def Let_def m_def [symmetric])
qed


end
