(* ===== verification/ApiService.thy ===== *)
theory ApiService
  imports Prelude
begin

text \<open>
  \<open>ApiService\<close> (\<open>src/src/services/api.js\<close>): the REST and WebSocket client of the
  simple variant. The HTTP calls are I/O; what the client keeps is its state: the
  auth token (\<open>this.token\<close>, mirrored in \<open>localStorage.authToken\<close>), the current
  socket (\<open>this.socket\<close>) and the Socket.IO script tags whose \<open>onload\<close> has not run
  yet. Sockets are objects: \<open>io(...)\<close> creates one, and \<open>this.socket\<close> refers to it, so
  they live in a store (\<open>sockets\<close>) and \<open>socket\<close> is an index into it. The browser runs
  a pending \<open>onload\<close> at any later moment, so the client is a step relation
  (\<open>api_step\<close>) in which the script load is an event of its own, interleaved with the
  calls of the app.
\<close>

record io_socket =
  sock_auth :: "string option"
  sock_open :: bool

record api_client =
  token :: "string option"
  stored_token :: "string option"
  socket :: "nat option"
  sockets :: "io_socket list"
  pending_scripts :: nat

text \<open>The constructor (lines 6--9).\<close>

definition api_init :: "string option \<Rightarrow> api_client" where
  "api_init stored =
     \<lparr>token = stored, stored_token = stored, socket = None, sockets = [], pending_scripts = 0\<rparr>"

text \<open>\<open>if (this.token)\<close> in \<open>request\<close> (lines 24--26): an empty token is falsy.\<close>

definition auth_header :: "api_client \<Rightarrow> string option" where
  "auth_header s =
     (case token s of Some t \<Rightarrow> if t = [] then None else Some (''Bearer '' @ t) | None \<Rightarrow> None)"

definition setAuthToken :: "string \<Rightarrow> api_client \<Rightarrow> api_client" where
  "setAuthToken t s = s\<lparr>token := Some t, stored_token := Some t\<rparr>"

definition clearAuthToken :: "api_client \<Rightarrow> api_client" where
  "clearAuthToken s = s\<lparr>token := None, stored_token := None\<rparr>"

text \<open>\<open>register\<close> and \<open>login\<close> (lines 56--80) after the request resolved with
  \<open>response.data.token\<close>: a truthy token is stored.\<close>

definition login_done :: "string option \<Rightarrow> api_client \<Rightarrow> api_client" where
  "login_done r s = (case r of Some t \<Rightarrow> if t = [] then s else setAuthToken t s | None \<Rightarrow> s)"

text \<open>\<open>connectWebSocket\<close> (lines 158--186): nothing when a socket is set, otherwise a
  script tag is appended; its \<open>onload\<close> creates a socket authenticated with the token
  of that moment and makes it the current one.\<close>

definition connectWebSocket :: "api_client \<Rightarrow> api_client" where
  "connectWebSocket s = (if socket s \<noteq> None then s else s\<lparr>pending_scripts := pending_scripts s + 1\<rparr>)"

definition script_onload :: "api_client \<Rightarrow> api_client" where
  "script_onload s =
     s\<lparr>sockets := sockets s @ [\<lparr>sock_auth = token s, sock_open = True\<rparr>],
       socket := Some (length (sockets s)), pending_scripts := pending_scripts s - 1\<rparr>"

text \<open>\<open>disconnectWebSocket\<close> (lines 188--193).\<close>

definition disconnectWebSocket :: "api_client \<Rightarrow> api_client" where
  "disconnectWebSocket s =
     (case socket s of
        None \<Rightarrow> s
      | Some i \<Rightarrow> s\<lparr>sockets := (sockets s)[i := (sockets s ! i)\<lparr>sock_open := False\<rparr>], socket := None\<rparr>)"

datatype api_event =
    SetToken string | ClearToken | Login "string option" | LogoutOk | LogoutFailed
  | Connect | ScriptLoaded | Disconnect

text \<open>\<open>logout\<close> (lines 82--85) clears the token only after its request succeeded: a
  rejected request throws before \<open>clearAuthToken\<close>.\<close>

inductive api_step :: "api_client \<Rightarrow> api_event \<Rightarrow> api_client \<Rightarrow> bool" where
  set_token: "api_step s (SetToken t) (setAuthToken t s)"
| clear_token: "api_step s ClearToken (clearAuthToken s)"
| login: "api_step s (Login r) (login_done r s)"
| logout_ok: "api_step s LogoutOk (clearAuthToken s)"
| logout_failed: "api_step s LogoutFailed s"
| connect: "api_step s Connect (connectWebSocket s)"
| loaded: "0 < pending_scripts s \<Longrightarrow> api_step s ScriptLoaded (script_onload s)"
| disconnect: "api_step s Disconnect (disconnectWebSocket s)"

inductive api_run :: "api_client \<Rightarrow> api_event list \<Rightarrow> api_client \<Rightarrow> bool" where
  run_nil: "api_run s [] s"
| run_cons: "api_step s e s' \<Longrightarrow> api_run s' es s'' \<Longrightarrow> api_run s (e # es) s''"

text \<open>A caller that waits for the script before connecting or disconnecting again.\<close>

definition waits :: "api_client \<Rightarrow> api_event \<Rightarrow> bool" where
  "waits s e \<longleftrightarrow> (e = Connect \<or> e = Disconnect \<longrightarrow> pending_scripts s = 0)"

inductive waiting_run :: "api_client \<Rightarrow> api_event list \<Rightarrow> api_client \<Rightarrow> bool" where
  wrun_nil: "waiting_run s [] s"
| wrun_cons: "waits s e \<Longrightarrow> api_step s e s' \<Longrightarrow> waiting_run s' es s'' \<Longrightarrow> waiting_run s (e # es) s''"

definition open_sockets :: "api_client \<Rightarrow> nat" where
  "open_sockets s = length (filter sock_open (sockets s))"

definition socket_inv :: "api_client \<Rightarrow> bool" where
  "socket_inv s \<longleftrightarrow>
     pending_scripts s \<le> 1 \<and> (pending_scripts s = 1 \<longrightarrow> socket s = None)
     \<and> open_sockets s = (if socket s = None then 0 else 1)
     \<and> (\<forall>i. socket s = Some i \<longrightarrow> i < length (sockets s) \<and> sock_open (sockets s ! i))
     \<and> token s = stored_token s"

inductive_simps api_run_simps: "api_run s [] s'" "api_run s (e # es) s'"
inductive_simps api_step_simps:
  "api_step s (SetToken t) s'" "api_step s ClearToken s'" "api_step s (Login r) s'"
  "api_step s LogoutOk s'" "api_step s LogoutFailed s'" "api_step s Connect s'"
  "api_step s ScriptLoaded s'" "api_step s Disconnect s'"

inductive_simps waiting_run_simps: "waiting_run s [] s'" "waiting_run s (e # es) s'"

code_pred api_step .
code_pred api_run .

subsection \<open>Lemmas\<close>

lemma open_sockets_close:
  "i < length (sockets s) \<Longrightarrow> sock_open (sockets s ! i) \<Longrightarrow>
   open_sockets (s\<lparr>sockets := (sockets s)[i := (sockets s ! i)\<lparr>sock_open := False\<rparr>], socket := None\<rparr>)
     = open_sockets s - 1"
  by (simp add: open_sockets_def length_filter_update_off)

lemma socket_inv_step:
  "api_step s e s' \<Longrightarrow> waits s e \<Longrightarrow> socket_inv s \<Longrightarrow> socket_inv s'"
proof (induction rule: api_step.induct)
  case (loaded s)
  then show ?case
    by (auto simp: socket_inv_def script_onload_def open_sockets_def nth_append)
next
  case (disconnect s)
  then show ?case
    by (auto simp: socket_inv_def disconnectWebSocket_def open_sockets_close split: option.splits)
qed (auto simp: socket_inv_def setAuthToken_def clearAuthToken_def login_done_def
       connectWebSocket_def waits_def open_sockets_def split: option.splits)

lemma script_onload_funpow:
  "pending_scripts ((script_onload ^^ n) s) = pending_scripts s - n
   \<and> token ((script_onload ^^ n) s) = token s
   \<and> length (sockets ((script_onload ^^ n) s)) = length (sockets s) + n
   \<and> socket ((script_onload ^^ n) s) = (if n = 0 then socket s else Some (length (sockets s) + n - 1))"
  by (induction n) (simp_all add: script_onload_def)

lemma run_loads:
  "n \<le> pending_scripts s \<Longrightarrow> api_run s (replicate n ScriptLoaded) ((script_onload ^^ n) s)"
proof (induction n arbitrary: s)
  case 0
  then show ?case by (simp add: api_run_simps)
next
  case (Suc n)
  then have "n \<le> pending_scripts (script_onload s)" by (simp add: script_onload_def)
  with Suc show ?case
    by (auto simp: api_run_simps api_step_simps funpow_Suc_right simp del: funpow.simps)
qed

subsection \<open>Properties of the client\<close>

text \<open>C28. For a caller that waits for the script before connecting or disconnecting
  again, the client is well behaved along every run: at most one script is pending,
  and none while a socket is set; exactly one socket is open while \<open>this.socket\<close>
  is set and none otherwise (no socket leaks), the current socket is open, and the
  token in memory is the one in \<open>localStorage\<close>.\<close>

theorem waiting_run_socket_inv:
  "waiting_run s es s' \<Longrightarrow> socket_inv s \<Longrightarrow> socket_inv s'"
  by (induction rule: waiting_run.induct) (auto intro: socket_inv_step)



end
