(* ===== verification/ApiRequests.thy ===== *)
theory ApiRequests
  imports ApiService Encoding
begin

text \<open>
  The REST side of \<open>ApiService\<close> (\<open>src/src/services/api.js\<close>): the base URL
  (line 3), the request helper \<open>request\<close> (lines 12--41) as the configuration it hands
  to \<open>fetch\<close> and the value or error it returns for each answer of \<open>fetch\<close>, the
  endpoint methods (lines 56--155) as the path, method and body they pass to it, the
  socket URL of \<open>connectWebSocket\<close> (line 167) and the two socket emitters (lines
  195--206). \<open>String.prototype.indexOf\<close>, on which \<open>replace\<close> rests, is the loop of the
  ECMAScript algorithm \<open>StringIndexOf\<close>, written as a \<open>partial_function\<close> so that its
  termination is a theorem. \<open>fetch\<close> itself is I/O: its answer is an input.
\<close>

subsection \<open>Strings\<close>

text \<open>\<open>StringIndexOf(s, p, k)\<close>: the first position from \<open>k\<close> at which \<open>p\<close> occurs, or -1.\<close>

partial_function (option) js_indexOf_from :: "string \<Rightarrow> string \<Rightarrow> nat \<Rightarrow> int option" where
  "js_indexOf_from s p k =
     (if length s < k + length p then Some (-1)
      else if take (length p) (drop k s) = p then Some (int k)
      else js_indexOf_from s p (Suc k))"

declare js_indexOf_from.simps [code]

text \<open>\<open>s.replace(p, r)\<close> with a string pattern: only the first occurrence is replaced.\<close>

definition js_replace :: "string \<Rightarrow> string \<Rightarrow> string \<Rightarrow> string option" where
  "js_replace s p r =
     map_option (\<lambda>k. if k < 0 then s else take (nat k) s @ r @ drop (nat k + length p) s)
       (js_indexOf_from s p 0)"

text \<open>The reference: the least position \<open>j \<ge> k\<close> with \<open>j + length p \<le> length s\<close> at which
  \<open>p\<close> occurs, found among the candidates in order.\<close>

definition indexOf_ref :: "string \<Rightarrow> string \<Rightarrow> nat \<Rightarrow> int" where
  "indexOf_ref s p k =
     (case find (\<lambda>j. take (length p) (drop j s) = p) [k..<Suc (length s) - length p] of
        None \<Rightarrow> -1 | Some j \<Rightarrow> int j)"

subsection \<open>Configuration\<close>

text \<open>\<open>process.env.API_URL || 'http://localhost:3001/api'\<close>.\<close>

definition API_BASE_URL :: "string option \<Rightarrow> string" where
  "API_BASE_URL env = (case env of Some u \<Rightarrow> if u = [] then ''http://localhost:3001/api'' else u
                                  | None \<Rightarrow> ''http://localhost:3001/api'')"

text \<open>The server URL of the socket: \<open>API_BASE_URL.replace('/api', '')\<close>.\<close>

definition socket_url :: "string option \<Rightarrow> string option" where
  "socket_url env = js_replace (API_BASE_URL env) ''/api'' ''''"

subsection \<open>Requests\<close>

text \<open>What \<open>request\<close> hands to \<open>fetch\<close>: the URL, the method (\<open>GET\<close> when the options
  have none), the headers in insertion order, and the body.\<close>

record http_config =
  cfg_url :: string
  cfg_method :: string
  cfg_headers :: "(string \<times> string) list"
  cfg_body :: "string option"

text \<open>Setting a key of an object literal: an existing key keeps its position.\<close>

fun header_set :: "string \<Rightarrow> string \<Rightarrow> (string \<times> string) list \<Rightarrow> (string \<times> string) list" where
  "header_set k v [] = [(k, v)]"
| "header_set k v ((k', v') # hs) = (if k' = k then (k, v) # hs else (k', v') # header_set k v hs)"

text \<open>Lines 13--26: the URL, \<open>{...options, headers: {'Content-Type': ..., ...options.headers}}\<close>
  and the \<open>Authorization\<close> header when the token is truthy.\<close>

definition request_config ::
  "string option \<Rightarrow> api_client \<Rightarrow> string \<Rightarrow> string option \<Rightarrow> (string \<times> string) list \<Rightarrow> string option
   \<Rightarrow> http_config" where
  "request_config env s endpoint meth hdrs body =
     (let hs = foldl (\<lambda>acc (k, v). header_set k v acc) [(''Content-Type'', ''application/json'')] hdrs
      in \<lparr>cfg_url = API_BASE_URL env @ endpoint,
          cfg_method = (case meth of Some m \<Rightarrow> m | None \<Rightarrow> ''GET''),
          cfg_headers = (case auth_header s of Some a \<Rightarrow> header_set ''Authorization'' a hs | None \<Rightarrow> hs),
          cfg_body = body\<rparr>)"

text \<open>The answer of \<open>fetch\<close>: it rejects (network failure), or it resolves with the
  \<open>ok\<close> flag and a body that \<open>response.json()\<close> rejects or parses into an object with an
  optional \<open>error\<close> string and the data.\<close>

datatype 'a response_body = InvalidJson | JsonBody "string option" 'a

datatype 'a fetch_answer = NetworkFailure | HttpResponse bool "'a response_body"

datatype api_error = NetworkError | SyntaxError | ApiError string

text \<open>Lines 28--40: every rejection is logged and rethrown.\<close>

definition request_result :: "'a fetch_answer \<Rightarrow> api_error + 'a" where
  "request_result r =
     (case r of
        NetworkFailure \<Rightarrow> Inl NetworkError
      | HttpResponse ok InvalidJson \<Rightarrow> Inl SyntaxError
      | HttpResponse ok (JsonBody err d) \<Rightarrow>
          if \<not> ok then Inl (ApiError (case err of Some e \<Rightarrow> if e = [] then ''API request failed'' else e
                                                | None \<Rightarrow> ''API request failed''))
          else Inr d)"

text \<open>\<open>register\<close>, \<open>login\<close> (lines 56--80): on success \<open>response.data.token\<close> is read; a
  response without \<open>data\<close> makes that read throw. The data of the answer is
  \<open>None\<close> when \<open>response.data\<close> is undefined, else the token it carries.\<close>

datatype 'a call_result = CallError api_error | CallTypeError | CallOk 'a

definition login_call ::
  "api_client \<Rightarrow> string option option fetch_answer \<Rightarrow> api_client \<times> string option option call_result" where
  "login_call s r =
     (case request_result r of
        Inl e \<Rightarrow> (s, CallError e)
      | Inr None \<Rightarrow> (s, CallTypeError)
      | Inr (Some tok) \<Rightarrow> (login_done tok s, CallOk (Some tok)))"

text \<open>\<open>logout\<close> (lines 82--85): the token is cleared only after the request succeeded.\<close>

definition logout_call :: "api_client \<Rightarrow> 'a fetch_answer \<Rightarrow> api_client \<times> 'a call_result" where
  "logout_call s r =
     (case request_result r of Inl e \<Rightarrow> (s, CallError e) | Inr d \<Rightarrow> (clearAuthToken s, CallOk d))"

subsection \<open>Endpoints\<close>

text \<open>The \<open>application/x-www-form-urlencoded\<close> serializer of \<open>URLSearchParams\<close>: ASCII
  letters, digits and \<open>*-._\<close> stay, a space becomes \<open>+\<close>, every other byte is
  percent-encoded with upper-case hex digits.\<close>

definition percent_hex :: "nat \<Rightarrow> char" where
  "percent_hex d = (if d < 10 then char_of (48 + d) else char_of (55 + d))"

definition form_urlencode_char :: "char \<Rightarrow> string" where
  "form_urlencode_char c =
     (let n = of_char c :: nat in
      if (48 \<le> n \<and> n \<le> 57) \<or> (65 \<le> n \<and> n \<le> 90) \<or> (97 \<le> n \<and> n \<le> 122) \<or> c \<in> set ''*-._'' then [c]
      else if c = CHR '' '' then ''+''
      else [CHR ''%'', percent_hex (n div 16), percent_hex (n mod 16)])"

definition form_urlencode :: "string \<Rightarrow> string" where
  "form_urlencode v = concat (map form_urlencode_char v)"

definition url_search_params :: "(string \<times> string) list \<Rightarrow> string" where
  "url_search_params ps = js_join ''&'' (map (\<lambda>(k, v). form_urlencode k @ ''='' @ form_urlencode v) ps)"

text \<open>The endpoint methods (lines 56--155). A body is the string \<open>JSON.stringify\<close>
  made of the argument; numbers that are not integers reach the URL through
  \<open>String(n)\<close>, the parameter \<open>num_str\<close>.\<close>

datatype api_call =
    Register string | Login string | Logout
  | GetPumps "rat option" "rat option" rat | GetPumpDetails string
  | UpdateQueue string | GetQueueHistory string int int | GetQueueAnalytics string
  | GetCurrentUser | GetUserFavorites | AddFavorite string | RemoveFavorite string
  | GetUserHistory int int | GetOverviewStats | GetLeaderboard int | GetBusiestPumps

text \<open>\<open>if (lat && lng)\<close>: both defined and non-zero.\<close>

definition truthy_num :: "rat option \<Rightarrow> bool" where
  "truthy_num x \<longleftrightarrow> (case x of Some v \<Rightarrow> v \<noteq> 0 | None \<Rightarrow> False)"

fun api_path :: "(rat \<Rightarrow> string) \<Rightarrow> api_call \<Rightarrow> string" where
  "api_path num_str (Register b) = ''/auth/register''"
| "api_path num_str (Login b) = ''/auth/login''"
| "api_path num_str Logout = ''/auth/logout''"
| "api_path num_str (GetPumps lat lng radius) =
     ''/pumps?'' @ url_search_params
        (if truthy_num lat \<and> truthy_num lng
         then [(''lat'', num_str (the lat)), (''lng'', num_str (the lng)), (''radius'', num_str radius)]
         else [])"
| "api_path num_str (GetPumpDetails i) = ''/pumps/'' @ i"
| "api_path num_str (UpdateQueue b) = ''/queues/update''"
| "api_path num_str (GetQueueHistory i lmt ofs) =
     ''/queues/history/'' @ i @ ''?limit='' @ js_int_string lmt @ ''&offset='' @ js_int_string ofs"
| "api_path num_str (GetQueueAnalytics i) = ''/queues/analytics/'' @ i"
| "api_path num_str GetCurrentUser = ''/users/me''"
| "api_path num_str GetUserFavorites = ''/users/favorites''"
| "api_path num_str (AddFavorite i) = ''/users/favorites/'' @ i"
| "api_path num_str (RemoveFavorite i) = ''/users/favorites/'' @ i"
| "api_path num_str (GetUserHistory lmt ofs) = ''/users/history?limit='' @ js_int_string lmt @ ''&offset='' @ js_int_string ofs"
| "api_path num_str GetOverviewStats = ''/stats/overview''"
| "api_path num_str (GetLeaderboard l) = ''/stats/leaderboard?limit='' @ js_int_string l"
| "api_path num_str GetBusiestPumps = ''/stats/busiest-pumps''"

fun api_method :: "api_call \<Rightarrow> string option" where
  "api_method (Register b) = Some ''POST''"
| "api_method (Login b) = Some ''POST''"
| "api_method Logout = Some ''POST''"
| "api_method (UpdateQueue b) = Some ''POST''"
| "api_method (AddFavorite i) = Some ''POST''"
| "api_method (RemoveFavorite i) = Some ''DELETE''"
| "api_method c = None"

fun api_body :: "api_call \<Rightarrow> string option" where
  "api_body (Register b) = Some b"
| "api_body (Login b) = Some b"
| "api_body (UpdateQueue b) = Some b"
| "api_body c = None"

definition api_request :: "string option \<Rightarrow> (rat \<Rightarrow> string) \<Rightarrow> api_client \<Rightarrow> api_call \<Rightarrow> http_config" where
  "api_request env num_str s c = request_config env s (api_path num_str c) (api_method c) [] (api_body c)"

subsection \<open>Socket messages\<close>

text \<open>\<open>joinLocationRoom\<close> and \<open>emitQueueUpdate\<close> (lines 195--206): an event on the
  current socket, nothing without one.\<close>

definition socket_emit :: "string \<Rightarrow> api_client \<Rightarrow> (nat \<times> string) option" where
  "socket_emit ev s = map_option (\<lambda>i. (i, ev)) (socket s)"

definition joinLocationRoom :: "api_client \<Rightarrow> (nat \<times> string) option" where
  "joinLocationRoom s = socket_emit ''join-location'' s"

definition emitQueueUpdate :: "api_client \<Rightarrow> (nat \<times> string) option" where
  "emitQueueUpdate s = socket_emit ''queue-update'' s"

subsection \<open>Lemmas\<close>

lemma js_indexOf_from_ref: "js_indexOf_from s p k = Some (indexOf_ref s p k)"
proof (induction "Suc (length s) - k" arbitrary: k)
  case 0
  then show ?case by (subst js_indexOf_from.simps) (simp add: indexOf_ref_def)
next
  case (Suc n)
  show ?case
  proof (cases "length s < k + length p")
    case True
    then show ?thesis by (subst js_indexOf_from.simps) (simp add: indexOf_ref_def)
  next
    case False
    then have "[k..<Suc (length s) - length p] = k # [Suc k..<Suc (length s) - length p]"
      by (simp add: upt_conv_Cons)
    with False Suc show ?thesis
      by (subst js_indexOf_from.simps) (simp add: indexOf_ref_def)
  qed
qed

lemma indexOf_ref_found:
  "indexOf_ref s p k = int j \<Longrightarrow> k \<le> j \<and> j + length p \<le> length s \<and> take (length p) (drop j s) = p"
  by (auto simp: indexOf_ref_def find_Some_iff split: option.splits)

lemma indexOf_ref_none:
  "indexOf_ref s p 0 = -1 \<longleftrightarrow> \<not> (\<exists>xs ys. s = xs @ p @ ys)"
proof
  assume n: "indexOf_ref s p 0 = -1"
  show "\<not> (\<exists>xs ys. s = xs @ p @ ys)"
  proof
    assume "\<exists>xs ys. s = xs @ p @ ys"
    then obtain xs ys where s: "s = xs @ p @ ys" by blast
    then have "length xs \<in> set [0..<Suc (length s) - length p]" "take (length p) (drop (length xs) s) = p"
      by simp_all
    then have "find (\<lambda>j. take (length p) (drop j s) = p) [0..<Suc (length s) - length p] \<noteq> None"
      by (auto simp: find_None_iff)
    with n show False by (auto simp: indexOf_ref_def split: option.splits)
  qed
next
  assume "\<not> (\<exists>xs ys. s = xs @ p @ ys)"
  then have "\<not> take (length p) (drop j s) = p" if "j + length p \<le> length s" for j
    using that by (metis append_take_drop_id)
  then show "indexOf_ref s p 0 = -1"
    by (auto simp: indexOf_ref_def find_None_iff split: option.split)
qed

subsection \<open>Properties\<close>


text \<open>C39. Error paths of \<open>request\<close>: it returns the data exactly when the response is
  \<open>ok\<close> and its body parses, whatever \<open>data.error\<close> says; an API error always carries
  a non-empty message; a body that is not JSON gives the \<open>SyntaxError\<close> of
  \<open>response.json()\<close> even for a failed response, so the server's status is lost; and
  \<open>login\<close> changes the client only for an \<open>ok\<close> answer with a non-empty token, which
  it stores.\<close>

theorem request_errors:
  "(request_result r = Inr d \<longleftrightarrow> (\<exists>e. r = HttpResponse True (JsonBody e d)))
   \<and> (request_result r = Inl (ApiError m) \<longrightarrow> m \<noteq> [])
   \<and> (request_result (HttpResponse ok InvalidJson) = Inl SyntaxError)
   \<and> (fst (login_call s r') \<noteq> s \<longrightarrow>
        (\<exists>e t. r' = HttpResponse True (JsonBody e (Some (Some t))) \<and> t \<noteq> []
               \<and> login_call s r' = (setAuthToken t s, CallOk (Some (Some t)))))"
  by (auto simp: request_result_def login_call_def login_done_def
      split: fetch_answer.splits response_body.splits option.splits if_splits sum.splits)


end
