(* ===== verification/Variant.thy ===== *)
theory Variant
  imports Store
begin

text \<open>
  \<open>CNGTrackerApp\<close> (\<open>src/src/app.js\<close>), the earlier variant of the app: the same
  state and listeners without the estimator. Its handlers never write
  \<open>trafficDensity\<close>, \<open>predictedQueue\<close> or \<open>predictionConfidence\<close>, its
  \<open>showPumpDetails\<close> has no guard against a missing station, it has no curated
  stations, and its five sample stations carry no hourly profile. The state is
  \<open>Store.app\<close>; \<open>strip_app\<close> forgets the three estimator fields of every station,
  and the refinement theorem says that through this projection the rich app does
  what the simple one does, event by event.
\<close>

text \<open>\<open>loadSampleData\<close> (lines 23--97).\<close>

definition simple_loadSampleData :: "millis \<Rightarrow> pump list" where
  "simple_loadSampleData now =
   [sample_pump now ''pump_001'' ''Indian Oil - Sector 18'' ''Sector 18, Noida, UP'' ''Indian Oil''
      Green (Some 3) 15 (5/2) None None,
    sample_pump now ''pump_002'' ''Bharat Petroleum - DLF Phase 2'' ''DLF Phase 2, Gurgaon, Haryana''
      ''Bharat Petroleum'' Yellow (Some 12) 30 (51/10) None None,
    sample_pump now ''pump_003'' ''IGL Station - Connaught Place'' ''Connaught Place, New Delhi'' ''IGL''
      Red (Some 25) 5 (83/10) None None,
    sample_pump now ''pump_004'' ''Indian Oil - Dwarka'' ''Sector 6, Dwarka, New Delhi'' ''Indian Oil''
      Green (Some 0) 45 (127/10) None None,
    sample_pump now ''pump_005'' ''Shell - Greater Noida'' ''Knowledge Park, Greater Noida'' ''Shell''
      Gray None 120 (76/5) None None]"

text \<open>\<open>addPumpMarkers\<close> (lines 112--124): a marker per station, nothing else.\<close>

definition simple_addPumpMarkers :: "app \<Rightarrow> app" where
  "simple_addPumpMarkers s = s\<lparr>markers := markers s \<union> set (map pump_id (pumps s))\<rparr>"

text \<open>\<open>showPumpDetails\<close> (lines 328--361): the selection is assigned before
  \<open>pump.name\<close> is read, so an undefined station throws after it.\<close>

definition simple_showPumpDetails :: "string option \<Rightarrow> app \<Rightarrow> app \<times> outcome" where
  "simple_showPumpDetails sel s =
     (case sel of
        None \<Rightarrow> (s\<lparr>selectedPump := None\<rparr>, TypeError)
      | Some i \<Rightarrow> (s\<lparr>selectedPump := Some i\<rparr>, Ok))"

text \<open>\<open>showUpdateModal\<close> (lines 385--395).\<close>

definition simple_showUpdateModal :: "string option \<Rightarrow> app \<Rightarrow> app \<times> outcome" where
  "simple_showUpdateModal sel s =
     (case sel of
        None \<Rightarrow> (s\<lparr>selectedPump := None\<rparr>, TypeError)
      | Some i \<Rightarrow> (s\<lparr>selectedPump := Some i, selectedQueue := None\<rparr>, Ok))"

text \<open>\<open>submitQueueUpdate\<close> (lines 397--431): length, date and colour; no traffic.\<close>

definition simple_record_reading :: "clock \<Rightarrow> int \<Rightarrow> pump \<Rightarrow> pump" where
  "simple_record_reading c ql p =
     p\<lparr>queueLength := Some ql, lastUpdated := Some (now_ms c), queueStatus := queueStatusOf ql\<rparr>"

definition simple_submitQueueUpdate :: "clock \<Rightarrow> app \<Rightarrow> app \<times> outcome" where
  "simple_submitQueueUpdate c s =
     (case selectedQueue s of
        None \<Rightarrow> (s, Warning ''Please select queue length'')
      | Some ql \<Rightarrow>
          (case selectedPump s of
             None \<Rightarrow> (s, TypeError)
           | Some i \<Rightarrow>
               (case find (\<lambda>p. pump_id p = i) (pumps s) of
                  None \<Rightarrow> (s, TypeError)
                | Some _ \<Rightarrow>
                    (let s1 = s\<lparr>pumps := update_first (\<lambda>p. pump_id p = i) (simple_record_reading c ql) (pumps s)\<rparr>
                     in if i \<notin> markers s1 then (s1, TypeError)
                        else (s1\<lparr>userPoints := userPoints s1 + 10, stored_points := userPoints s1 + 10\<rparr>, Ok)))))"

text \<open>\<open>toggleFavorite\<close> (lines 438--454).\<close>

definition simple_toggleFavorite :: "app \<Rightarrow> app \<times> outcome" where
  "simple_toggleFavorite s =
     (case selectedPump s of
        None \<Rightarrow> (s, TypeError)
      | Some i \<Rightarrow>
          (if i \<in> set (favorites s) then
             simple_showPumpDetails (Some i)
               (s\<lparr>favorites := remove1 i (favorites s), stored_favorites := remove1 i (favorites s)\<rparr>)
           else if 3 \<le> length (favorites s) \<and> \<not> isPremium s then
             (s, Warning ''Upgrade to Premium for unlimited favorites'')
           else
             simple_showPumpDetails (Some i)
               (s\<lparr>favorites := favorites s @ [i], stored_favorites := favorites s @ [i]\<rparr>)))"

text \<open>\<open>showNearestPumpForUpdate\<close> (lines 606--609).\<close>

definition simple_showNearestPumpForUpdate :: "app \<Rightarrow> app \<times> outcome" where
  "simple_showNearestPumpForUpdate s =
     (let ps = sort_key distance_key (pumps s)
      in simple_showUpdateModal (case ps of [] \<Rightarrow> None | p # _ \<Rightarrow> Some (pump_id p)) (s\<lparr>pumps := ps\<rparr>))"

text \<open>The listeners of \<open>bindEvents\<close> (lines 173--246) and the start-up steps of
  \<open>init\<close> (lines 15--21).\<close>

datatype simple_event =
    SClickQueueButton int | SOpenDetails "string option" | SClickUpdateQueue | SClickSubmit
  | SClickFavorite | SNavUpdate | SLoadSample | SAddMarkers

fun simple_step :: "clock \<Rightarrow> app \<Rightarrow> simple_event \<Rightarrow> app \<times> outcome" where
  "simple_step c s (SClickQueueButton q) = (s\<lparr>selectedQueue := Some q\<rparr>, Ok)"
| "simple_step c s (SOpenDetails sel) = simple_showPumpDetails sel s"
| "simple_step c s SClickUpdateQueue = simple_showUpdateModal (selectedPump s) s"
| "simple_step c s SClickSubmit = simple_submitQueueUpdate c s"
| "simple_step c s SClickFavorite = simple_toggleFavorite s"
| "simple_step c s SNavUpdate = simple_showNearestPumpForUpdate s"
| "simple_step c s SLoadSample = (s\<lparr>pumps := simple_loadSampleData (now_ms c)\<rparr>, Ok)"
| "simple_step c s SAddMarkers = (simple_addPumpMarkers s, Ok)"

fun simple_run :: "(clock \<times> simple_event) list \<Rightarrow> app \<Rightarrow> app \<times> (simple_event \<times> outcome) list" where
  "simple_run [] s = (s, [])"
| "simple_run ((c, e) # es) s =
     (case simple_step c s e of
        (s', r) \<Rightarrow> (case simple_run es s' of (s'', rs) \<Rightarrow> (s'', (e, r) # rs)))"

text \<open>The rich listener for each simple one.\<close>

fun rich_event :: "simple_event \<Rightarrow> app_event" where
  "rich_event (SClickQueueButton q) = ClickQueueButton q"
| "rich_event (SOpenDetails sel) = OpenDetails sel"
| "rich_event SClickUpdateQueue = ClickUpdateQueue"
| "rich_event SClickSubmit = ClickSubmit"
| "rich_event SClickFavorite = ClickFavorite"
| "rich_event SNavUpdate = NavUpdate"
| "rich_event SLoadSample = LoadSample"
| "rich_event SAddMarkers = AddMarkers"

definition strip_pump :: "pump \<Rightarrow> pump" where
  "strip_pump p = p\<lparr>trafficDensity := None, predictedQueue := None, predictionConfidence := None\<rparr>"

definition strip_app :: "app \<Rightarrow> app" where
  "strip_app s = s\<lparr>pumps := map strip_pump (pumps s)\<rparr>"

text \<open>The events on which the variants are meant to agree: all but loading the
  sample data (different lists) and opening the details of a missing station.\<close>

fun shared_event :: "simple_event \<Rightarrow> bool" where
  "shared_event SLoadSample = False"
| "shared_event (SOpenDetails None) = False"
| "shared_event e = True"

subsection \<open>Lemmas\<close>

lemma strip_pump_fields [simp]:
  "pump_id (strip_pump p) = pump_id p" "distance (strip_pump p) = distance p"
  by (simp_all add: strip_pump_def)

lemma strip_estimate_in_place [simp]: "strip_pump (estimate_in_place c p) = strip_pump p"
  by (simp add: strip_pump_def estimate_in_place_def calculateSmartQueueStatus_def Let_def split_beta)

lemma strip_record_reading [simp]:
  "strip_pump (record_reading c ql p) = simple_record_reading c ql (strip_pump p)"
  by (simp add: strip_pump_def record_reading_def simple_record_reading_def)

lemma strip_update_first [simp]:
  "map strip_pump (update_first (\<lambda>p. pump_id p = i) (record_reading c ql) ps)
     = update_first (\<lambda>p. pump_id p = i) (simple_record_reading c ql) (map strip_pump ps)"
  "map strip_pump (update_first (\<lambda>p. pump_id p = i) (estimate_in_place c) ps) = map strip_pump ps"
  by (auto intro: map_update_first_comm simp: map_update_first)

lemma find_strip:
  "find (\<lambda>p. pump_id p = i) (map strip_pump ps) = map_option strip_pump (find (\<lambda>p. pump_id p = i) ps)"
  by (induction ps) auto

lemma distance_key_strip [simp]: "distance_key (strip_pump p) = distance_key p"
  by (simp add: distance_key_def)

lemma strip_app_simps [simp]:
  "selectedQueue (strip_app s) = selectedQueue s" "selectedPump (strip_app s) = selectedPump s"
  "markers (strip_app s) = markers s" "favorites (strip_app s) = favorites s"
  "userPoints (strip_app s) = userPoints s" "isPremium (strip_app s) = isPremium s"
  "pumps (strip_app s) = map strip_pump (pumps s)"
  by (simp_all add: strip_app_def)

text \<open>One event: the two handlers agree through \<open>strip_app\<close>.\<close>

lemma variant_step_refines:
  assumes "shared_event e"
  shows "strip_app (fst (app_step c s (rich_event e))) = fst (simple_step c (strip_app s) e)
       \<and> snd (app_step c s (rich_event e)) = snd (simple_step c (strip_app s) e)"
proof (cases e)
  case SClickSubmit
  then show ?thesis
    by (auto simp: submitQueueUpdate_def simple_submitQueueUpdate_def strip_app_def find_strip Let_def
        split: option.splits)
next
  case (SOpenDetails sel)
  with assms show ?thesis
    by (cases sel) (simp_all add: showPumpDetails_def simple_showPumpDetails_def strip_app_def)
next
  case SNavUpdate
  have "sort_key distance_key (map strip_pump (pumps s)) = map strip_pump (sort_key distance_key (pumps s))"
    by (simp add: sort_key_map_comm)
  with SNavUpdate show ?thesis
    by (cases "sort_key distance_key (pumps s)")
       (simp_all add: showNearestPumpForUpdate_def simple_showNearestPumpForUpdate_def showUpdateModal_def
        simple_showUpdateModal_def strip_app_def Let_def)
qed (use assms in \<open>auto simp: showPumpDetails_def simple_showPumpDetails_def showUpdateModal_def
      simple_showUpdateModal_def toggleFavorite_def simple_toggleFavorite_def addPumpMarkers_def
      simple_addPumpMarkers_def strip_app_def split: option.splits\<close>)

subsection \<open>Refinement\<close>

text \<open>C30. The simple variant is the rich app without the estimator: on every run of
  the events the two share (all but loading their different sample lists and
  opening the details of a missing station), the rich app's state with the three
  estimator fields of each station forgotten is the simple app's state, and both
  log the same outcomes.\<close>

theorem variant_run_refines:
  assumes "list_all (\<lambda>(c, e). shared_event e) evs"
  shows "strip_app (fst (app_run (map (\<lambda>(c, e). (c, rich_event e)) evs) s)) = fst (simple_run evs (strip_app s))
       \<and> snd (app_run (map (\<lambda>(c, e). (c, rich_event e)) evs) s)
           = map (\<lambda>(e, r). (rich_event e, r)) (snd (simple_run evs (strip_app s)))"
  using assms
proof (induction evs arbitrary: s)
  case Nil
  then show ?case by simp
next
  case (Cons ce evs)
  obtain c e where ce: "ce = (c, e)" by (cases ce)
  with Cons.prems have sh: "shared_event e" and rest: "list_all (\<lambda>(c, e). shared_event e) evs" by simp_all
  obtain s' r where st: "app_step c s (rich_event e) = (s', r)" by (cases "app_step c s (rich_event e)")
  have sim: "simple_step c (strip_app s) e = (strip_app s', r)"
    using variant_step_refines [OF sh, of c s] st by (cases "simple_step c (strip_app s) e") simp
  obtain a rs where ar: "app_run (map (\<lambda>(c, e). (c, rich_event e)) evs) s' = (a, rs)"
    by (cases "app_run (map (\<lambda>(c, e). (c, rich_event e)) evs) s'")
  obtain b qs where sr: "simple_run evs (strip_app s') = (b, qs)"
    by (cases "simple_run evs (strip_app s')")
  show ?case
    using Cons.IH [OF rest, of s'] by (simp add: ce st sim ar sr)
qed

end
