(* ===== verification/Views.thy ===== *)
theory Views
  imports Variant ListView Storage Presentation
begin

text \<open>
  The views behind the navigation bar and the list of both apps, and the simple
  variant's constructor. \<open>handleNavigation\<close> of \<open>CNGFlowApp\<close> (\<open>src/public/app.js\<close>,
  lines 1185--1209, with \<open>showHistory\<close> and \<open>showProfile\<close>, lines 1241--1247) dispatches
  on the page name of the pressed button; what it shows is a \<open>nav_view\<close>. The simple
  variant \<open>CNGTrackerApp\<close> (\<open>src/src/app.js\<close>) has its own copies of the list view
  (\<open>updatePumpsList\<close>, \<open>handleSearch\<close>, \<open>showFavorites\<close>), of the texts of a card
  (\<open>getQueueText\<close>, \<open>getTimeAgo\<close>), of the marker colour and of the constructor; they
  are modelled from its lines and compared with the rich ones. Strings are byte
  lists, so an emoji is its UTF-8 bytes.
\<close>

datatype nav_view = HomeView | FavoritesView "pump list option" | UpdateForm | Notification string | NoView

definition showProfile_text :: "int \<Rightarrow> string" where
  "showProfile_text pts = ''You have '' @ js_int_string pts @ '' points!''"

definition handleNavigation :: "string \<Rightarrow> app \<Rightarrow> app \<times> outcome \<times> nav_view" where
  "handleNavigation page s =
     (if page = ''home'' then (s, Ok, HomeView)
      else if page = ''favorites'' then (s, Ok, FavoritesView (showFavorites s))
      else if page = ''update'' then (case showNearestPumpForUpdate s of (s', r) \<Rightarrow> (s', r, UpdateForm))
      else if page = ''history'' then (s, Ok, Notification ''History feature coming soon!'')
      else if page = ''profile'' then (s, Ok, Notification (showProfile_text (userPoints s)))
      else (s, Ok, NoView))"

subsection \<open>The simple variant's views\<close>

text \<open>\<open>updatePumpsList\<close> (\<open>src/src/app.js\<close>, lines 268--299): a copy of the filter and of
  the comparator switch.\<close>

definition simple_updatePumpsList :: "sort_by \<Rightarrow> status_filter \<Rightarrow> pump list \<Rightarrow> pump list" where
  "simple_updatePumpsList sortBy filterStatus ps =
     (let filteredPumps = (case filterStatus of
                             FilterAll \<Rightarrow> ps
                           | FilterStatus st \<Rightarrow> filter (\<lambda>p. queueStatus p = st) ps)
      in case sortBy of
           SortDistance \<Rightarrow> sort_key distance_key filteredPumps
         | SortQueue \<Rightarrow> sort_key queue_sort_key filteredPumps
         | SortUpdated \<Rightarrow> sort_key updated_key filteredPumps
         | SortDefault \<Rightarrow> filteredPumps)"

text \<open>\<open>handleSearch\<close> (lines 528--552).\<close>

definition simple_handleSearch :: "sort_by \<Rightarrow> status_filter \<Rightarrow> string \<Rightarrow> pump list \<Rightarrow> pump list" where
  "simple_handleSearch sb f query ps =
     (let q = js_toLowerCase query
      in if length q < 2 then simple_updatePumpsList sb f ps
         else filter (\<lambda>p. js_includes (js_toLowerCase (name p)) q \<or> js_includes (js_toLowerCase (address p)) q
                          \<or> js_includes (js_toLowerCase (brand p)) q) ps)"

text \<open>\<open>showFavorites\<close> (lines 578--601).\<close>

definition simple_showFavorites :: "app \<Rightarrow> pump list option" where
  "simple_showFavorites s =
     (let favoritePumps = filter (\<lambda>p. pump_id p \<in> set (favorites s)) (pumps s)
      in if length favoritePumps = 0 then None else Some favoritePumps)"

text \<open>\<open>getTimeAgo\<close> (lines 151--158).\<close>

definition simple_getTimeAgo :: "clock \<Rightarrow> millis option \<Rightarrow> string" where
  "simple_getTimeAgo c date =
     (let minutes = (now_ms c - (case date of None \<Rightarrow> 0 | Some t \<Rightarrow> t)) div 60000 in
      if minutes < 1 then ''just now''
      else if minutes < 60 then js_int_string minutes @ '' min ago''
      else
        (let hours = minutes div 60 in
         if hours < 24 then js_int_string hours @ '' hour'' @ (if hours > 1 then ''s'' else '''') @ '' ago''
         else js_int_string (hours div 24) @ '' day'' @ (if hours > 24 then ''s'' else '''') @ '' ago''))"

text \<open>\<open>getQueueText\<close> (lines 142--149), with its emoji as UTF-8 bytes.\<close>

definition emoji_check :: string where "emoji_check = [CHR 0xE2, CHR 0x9C, CHR 0x85]"
definition emoji_green :: string where "emoji_green = [CHR 0xF0, CHR 0x9F, CHR 0x9F, CHR 0xA2]"
definition emoji_yellow :: string where "emoji_yellow = [CHR 0xF0, CHR 0x9F, CHR 0x9F, CHR 0xA1]"
definition emoji_red :: string where "emoji_red = [CHR 0xF0, CHR 0x9F, CHR 0x94, CHR 0xB4]"

definition simple_getQueueText :: "int option \<Rightarrow> string" where
  "simple_getQueueText ql =
     (case ql of
        None \<Rightarrow> ''No recent update''
      | Some q \<Rightarrow>
          if q = 0 then emoji_check @ '' No queue!''
          else if q \<le> 5 then emoji_green @ '' '' @ js_int_string q @ '' vehicles''
          else if q \<le> 15 then emoji_yellow @ '' '' @ js_int_string q @ '' vehicles''
          else emoji_red @ '' '' @ js_int_string q @ ''+ vehicles'')"

text \<open>\<open>getMarkerIcon(status)\<close> (lines 126--138): only the colour depends on the station.\<close>

definition simple_marker_color :: "queue_status \<Rightarrow> string" where
  "simple_marker_color st =
     (case st of Green \<Rightarrow> ''#00C853'' | Yellow \<Rightarrow> ''#FFC107'' | Red \<Rightarrow> ''#F44336'' | Gray \<Rightarrow> ''#9E9E9E'')"

text \<open>The constructor and \<open>init\<close> (lines 3--21): favourites and points read back as in
  the rich app, the sample stations loaded and their markers added by \<open>initMap\<close>;
  \<open>isPremium()\<close> reads the storage on each call (lines 455--457).\<close>

definition CNGTrackerApp_init :: "local_storage \<Rightarrow> millis \<Rightarrow> app option" where
  "CNGTrackerApp_init st now =
     (case (load_favorites st, load_points st) of
        (Some favs, Some pts) \<Rightarrow>
          Some (simple_addPumpMarkers ((init_app favs pts (load_premium st))\<lparr>pumps := simple_loadSampleData now\<rparr>))
      | _ \<Rightarrow> None)"

subsection \<open>Lemmas\<close>

lemma simple_list_views_agree:
  "simple_updatePumpsList sb f ps = updatePumpsList sb f ps"
  "simple_handleSearch sb f q ps = handleSearch sb f q ps"
  "simple_showFavorites s = showFavorites s"
  "simple_getTimeAgo c d = getTimeAgo c d"
  by (simp_all add: simple_updatePumpsList_def updatePumpsList_def sort_pumps_def filter_pumps_def
      simple_handleSearch_def handleSearch_def search_match_def [abs_def] simple_showFavorites_def
      showFavorites_def simple_getTimeAgo_def getTimeAgo_def Let_def
      split: sort_by.split status_filter.split)

lemma CNGTrackerApp_init_CNGFlowApp_init:
  "CNGTrackerApp_init st now =
     map_option (\<lambda>s. simple_addPumpMarkers (s\<lparr>pumps := simple_loadSampleData now\<rparr>)) (CNGFlowApp_init st)"
  by (simp add: CNGTrackerApp_init_def CNGFlowApp_init_def split: option.split)

lemma handleNavigation_update:
  "fst (handleNavigation ''update'' s) = fst (app_step c s NavUpdate)
   \<and> fst (snd (handleNavigation ''update'' s)) = snd (app_step c s NavUpdate)"
  by (simp add: handleNavigation_def split: prod.split)

end
