(* ===== verification/Refresh.thy ===== *)
theory Refresh
  imports Store
begin

text \<open>
  \<open>refreshData\<close> (\<open>src/public/app.js\<close>, lines 1332--1361), the callback of its
  one-second timer: each station, with probability 0.3, gets a random length
  \<open>Math.floor(Math.random() * 25)\<close>, its colour, the current date and its traffic
  bucket, and a station with a marker has its icon redrawn (which runs the estimator
  and writes its fields back). The draws are an input: \<open>draw k\<close> is \<open>None\<close> when
  station \<open>k\<close> is skipped and \<open>Some q\<close> when it gets length \<open>q\<close>; \<open>refresh_step\<close>
  allows every draw the two \<open>Math.random()\<close> calls can produce.
\<close>

definition refresh_pump :: "clock \<Rightarrow> string set \<Rightarrow> int option \<Rightarrow> pump \<Rightarrow> pump" where
  "refresh_pump c ms choice p =
     (case choice of
        None \<Rightarrow> p
      | Some q \<Rightarrow>
          (let p' = record_reading c q p
           in if pump_id p \<in> ms then estimate_in_place c p' else p'))"

definition refreshData :: "clock \<Rightarrow> (nat \<Rightarrow> int option) \<Rightarrow> app \<Rightarrow> app" where
  "refreshData c draw s =
     s\<lparr>pumps := map (\<lambda>(k, p). refresh_pump c (markers s) (draw k) p) (enumerate 0 (pumps s))\<rparr>"

definition valid_draw :: "(nat \<Rightarrow> int option) \<Rightarrow> bool" where
  "valid_draw draw \<longleftrightarrow> (\<forall>k q. draw k = Some q \<longrightarrow> 0 \<le> q \<and> q < 25)"

inductive refresh_step :: "clock \<Rightarrow> app \<Rightarrow> app \<Rightarrow> bool" where
  refresh: "valid_draw draw \<Longrightarrow> refresh_step c s (refreshData c draw s)"

subsection \<open>Lemmas\<close>

lemma refresh_pump_cases:
  "refresh_pump c ms choice p = p
   \<or> (\<exists>q. choice = Some q \<and> queueLength (refresh_pump c ms choice p) = Some q
          \<and> lastUpdated (refresh_pump c ms choice p) = Some (now_ms c))"
  by (cases choice) (auto simp: refresh_pump_def Let_def record_reading_def)

lemma refresh_pump_id [simp]: "pump_id (refresh_pump c ms choice p) = pump_id p"
  by (cases choice) (simp_all add: refresh_pump_def Let_def record_reading_def)

lemma refresh_pump_consistent:
  "status_consistent p \<Longrightarrow> status_consistent (refresh_pump c ms choice p)"
  by (cases choice) (simp_all add: refresh_pump_def Let_def)

lemma set_refresh_pumps:
  "p' \<in> set (pumps (refreshData c draw s)) \<Longrightarrow>
   \<exists>k p. k < length (pumps s) \<and> p = pumps s ! k \<and> p' = refresh_pump c (markers s) (draw k) p"
  unfolding refreshData_def by (force simp: in_set_conv_nth nth_enumerate_eq)

lemma refresh_ids: "map pump_id (pumps (refreshData c draw s)) = map pump_id (pumps s)"
  by (rule nth_equalityI) (simp_all add: refreshData_def nth_enumerate_eq)

lemma refreshData_inv: "app_inv s \<Longrightarrow> app_inv (refreshData c draw s)"
proof -
  assume i: "app_inv s"
  have "status_consistent p'" if mem: "p' \<in> set (pumps (refreshData c draw s))" for p'
  proof -
    obtain k p where "k < length (pumps s)" "p = pumps s ! k" "p' = refresh_pump c (markers s) (draw k) p"
      using set_refresh_pumps [OF mem] by blast
    with i show ?thesis by (auto simp: app_inv_def list_all_iff intro: refresh_pump_consistent)
  qed
  then have "list_all status_consistent (pumps (refreshData c draw s))" by (simp add: list_all_iff)
  with i show ?thesis by (simp add: app_inv_def refreshData_def)
qed

text \<open>C31. A data refresh, whatever the two \<open>Math.random()\<close> draws per station, keeps the
  app invariant (colours agree with lengths), keeps the stations and their order,
  awards no points, leaves the favourites alone, and every station it changes has a
  reading between 0 and 24 dated at the refresh.\<close>

theorem refresh_keeps_inv:
  assumes "refresh_step c s s'" and "app_inv s"
  shows "app_inv s' \<and> map pump_id (pumps s') = map pump_id (pumps s)
       \<and> userPoints s' = userPoints s \<and> favorites s' = favorites s
       \<and> (\<forall>p' \<in> set (pumps s'). p' \<in> set (pumps s)
            \<or> (lastUpdated p' = Some (now_ms c) \<and> (\<exists>q. queueLength p' = Some q \<and> 0 \<le> q \<and> q \<le> 24)))"
proof -
  from assms(1) obtain draw where v: "valid_draw draw" and s': "s' = refreshData c draw s"
    by (cases rule: refresh_step.cases)
  have each: "p' \<in> set (pumps s) \<or> (lastUpdated p' = Some (now_ms c) \<and> (\<exists>q. queueLength p' = Some q \<and> 0 \<le> q \<and> q \<le> 24))"
    if mem: "p' \<in> set (pumps s')" for p'
  proof -
    obtain k p where k: "k < length (pumps s)" "p = pumps s ! k" "p' = refresh_pump c (markers s) (draw k) p"
      using set_refresh_pumps [of p' c draw s] mem s' by blast
    have b: "0 \<le> q \<and> q \<le> 24" if "draw k = Some q" for q
      using v that unfolding valid_draw_def by fastforce
    show ?thesis
      using refresh_pump_cases [of c "markers s" "draw k" p] b k by auto
  qed
  have "app_inv s'" using refreshData_inv [OF assms(2)] s' by simp
  with s' show ?thesis
    using each refresh_ids [of c draw s] by (simp add: refreshData_def)
qed

end
