(* ===== verification/PullToRefresh.thy ===== *)
theory PullToRefresh
  imports Prelude
begin

text \<open>
  \<open>initPullToRefresh\<close> (\<open>src/public/app.js\<close>, lines 1264--1330): three touch
  listeners on the map view sharing the closure variables \<open>startY\<close>, \<open>currentY\<close>
  and \<open>pulling\<close>, and the classes, text and transform of the indicator element.
  A release more than 80 pixels below the start schedules a \<open>setTimeout\<close> of 1.5 s
  that calls \<open>refreshData\<close> and resets the indicator; \<open>refresh_timers\<close> counts the
  scheduled calls. There is no \<open>touchcancel\<close> listener. Coordinates are rationals
  (\<open>clientY\<close> may be fractional).
\<close>

record ptr_state =
  startY :: rat
  currentY :: rat
  pulling :: bool
  pt_visible :: bool
  pt_ready :: bool
  pt_refreshing :: bool
  pull_text :: string
  pull_shift :: "rat option"
  refresh_timers :: nat

definition ptr_init :: ptr_state where
  "ptr_init =
     \<lparr>startY = 0, currentY = 0, pulling = False, pt_visible = False, pt_ready = False,
      pt_refreshing = False, pull_text = ''Pull to refresh'', pull_shift = None, refresh_timers = 0\<rparr>"

definition pull_threshold :: rat where
  "pull_threshold = 80"

definition touchStart :: "rat \<Rightarrow> rat \<Rightarrow> ptr_state \<Rightarrow> ptr_state" where
  "touchStart scrollY y s = (if scrollY = 0 then s\<lparr>startY := y, pulling := True\<rparr> else s)"

definition touchMove :: "rat \<Rightarrow> ptr_state \<Rightarrow> ptr_state" where
  "touchMove y s =
     (if \<not> pulling s then s
      else
        (let s1 = s\<lparr>currentY := y\<rparr>; diff = y - startY s in
         if 0 < diff \<and> diff < 150 then
           s1\<lparr>pull_shift := Some (min (diff - 80) 20), pt_ready := pull_threshold < diff,
              pull_text := (if pull_threshold < diff then ''Release to refresh'' else ''Pull to refresh''),
              pt_visible := True\<rparr>
         else s1))"

definition touchEnd :: "ptr_state \<Rightarrow> ptr_state" where
  "touchEnd s =
     (if \<not> pulling s then s
      else
        (let diff = currentY s - startY s;
             s1 = (if pull_threshold < diff
                   then s\<lparr>pt_refreshing := True, pull_text := ''Refreshing...'',
                          refresh_timers := refresh_timers s + 1\<rparr>
                   else s\<lparr>pt_visible := False, pt_ready := False, pull_shift := None\<rparr>)
         in s1\<lparr>pulling := False, startY := 0, currentY := 0\<rparr>))"

text \<open>The timer callback, after \<open>refreshData()\<close> was called.\<close>

definition refresh_timer_fires :: "ptr_state \<Rightarrow> ptr_state" where
  "refresh_timer_fires s =
     s\<lparr>pt_visible := False, pt_ready := False, pt_refreshing := False, pull_shift := None,
       pull_text := ''Pull to refresh'', refresh_timers := refresh_timers s - 1\<rparr>"

datatype touch_event = TouchStart rat rat | TouchMove rat | TouchEnd | TimerFires

fun ptr_step :: "ptr_state \<Rightarrow> touch_event \<Rightarrow> ptr_state" where
  "ptr_step s (TouchStart scrollY y) = touchStart scrollY y s"
| "ptr_step s (TouchMove y) = touchMove y s"
| "ptr_step s TouchEnd = touchEnd s"
| "ptr_step s TimerFires = (if 0 < refresh_timers s then refresh_timer_fires s else s)"

definition ptr_run :: "ptr_state \<Rightarrow> touch_event list \<Rightarrow> ptr_state" where
  "ptr_run s es = foldl ptr_step s es"

definition ptr_rest :: "ptr_state \<Rightarrow> bool" where
  "ptr_rest s \<longleftrightarrow> \<not> pulling s \<and> startY s = 0 \<and> currentY s = 0"

subsection \<open>Lemmas\<close>

lemma ptr_run_append [simp]: "ptr_run s (xs @ ys) = ptr_run (ptr_run s xs) ys"
  and ptr_run_Cons [simp]: "ptr_run s (e # es) = ptr_run (ptr_step s e) es"
  and ptr_run_Nil [simp]: "ptr_run s [] = s"
  by (simp_all add: ptr_run_def)

lemma moves_while_pulling:
  "pulling s \<Longrightarrow>
   pulling (ptr_run s (map TouchMove ys)) \<and> startY (ptr_run s (map TouchMove ys)) = startY s
   \<and> refresh_timers (ptr_run s (map TouchMove ys)) = refresh_timers s
   \<and> currentY (ptr_run s (map TouchMove ys)) = (if ys = [] then currentY s else last ys)"
  by (induction ys arbitrary: s) (auto simp: touchMove_def Let_def)

subsection \<open>Properties of the gesture\<close>

text \<open>C32. From rest, a gesture that starts at the top of the page at height \<open>y0\<close> and
  ends after the moves \<open>ys\<close> schedules one refresh exactly when the last move is
  more than 80 pixels below the start, and returns to rest. Finding: there is no
  \<open>touchcancel\<close> listener, so a gesture cut off after a long move leaves its
  \<open>currentY\<close>; a later tap at the same height then schedules a refresh.\<close>

theorem pull_gesture_triggers:
  assumes "ptr_rest s" and "0 \<le> y0"
  shows "refresh_timers (ptr_run s ([TouchStart 0 y0] @ map TouchMove ys @ [TouchEnd]))
           = refresh_timers s + (if ys \<noteq> [] \<and> 80 < last ys - y0 then 1 else 0)
       \<and> ptr_rest (ptr_run s ([TouchStart 0 y0] @ map TouchMove ys @ [TouchEnd]))
       \<and> refresh_timers (ptr_run ptr_init [TouchStart 0 100, TouchMove 250, TouchStart 0 100, TouchEnd]) = 1"
proof -
  let ?s1 = "touchStart 0 y0 s"
  have p: "pulling ?s1" "startY ?s1 = y0" "currentY ?s1 = 0" "refresh_timers ?s1 = refresh_timers s"
    using assms(1) by (simp_all add: touchStart_def ptr_rest_def)
  have m: "pulling (ptr_run ?s1 (map TouchMove ys)) \<and> startY (ptr_run ?s1 (map TouchMove ys)) = y0
       \<and> refresh_timers (ptr_run ?s1 (map TouchMove ys)) = refresh_timers s
       \<and> currentY (ptr_run ?s1 (map TouchMove ys)) = (if ys = [] then 0 else last ys)"
    using moves_while_pulling [OF p(1), of ys] p by simp
  have f: "refresh_timers (ptr_run ptr_init [TouchStart 0 100, TouchMove 250, TouchStart 0 100, TouchEnd]) = 1"
    by (simp add: ptr_init_def touchStart_def touchMove_def touchEnd_def pull_threshold_def Let_def)
  show ?thesis
    using m assms(2) f by (auto simp: touchEnd_def pull_threshold_def Let_def ptr_rest_def)
qed

end
