(* ===== verification/Theme.thy ===== *)
theory Theme
  imports Prelude
begin

text \<open>
  The colour theme of \<open>src/public/app.js\<close>: \<open>initTheme\<close> (lines 52--74), the
  \<open>theme-toggle\<close> listener of \<open>bindEvents\<close> (lines 685--696) and \<open>updateThemeIcon\<close>
  (lines 76--81). The state is the stored \<open>theme\<close> key, the \<open>data-theme\<close> attribute
  of the document element and the glyph of the theme icon (a sun in the dark theme,
  a moon otherwise). \<open>!localStorage.getItem('theme')\<close> is true for a missing key
  and for the empty string; the listener on the system preference changes the theme
  only in that case.
\<close>

datatype theme_icon = Sun | Moon

record theme_state =
  stored_theme :: "string option"
  data_theme :: "string option"
  icon :: "theme_icon option"

definition theme_set :: "string option \<Rightarrow> bool" where
  "theme_set v \<longleftrightarrow> (case v of None \<Rightarrow> False | Some t \<Rightarrow> t \<noteq> [])"

definition icon_for :: "string \<Rightarrow> theme_icon" where
  "icon_for theme = (if theme = ''dark'' then Sun else Moon)"

definition updateThemeIcon :: "string \<Rightarrow> theme_state \<Rightarrow> theme_state" where
  "updateThemeIcon theme s = s\<lparr>icon := Some (icon_for theme)\<rparr>"

definition initTheme :: "string option \<Rightarrow> bool \<Rightarrow> theme_state" where
  "initTheme stored prefersDark =
     (let s = \<lparr>stored_theme = stored, data_theme = None, icon = None\<rparr>;
          savedTheme = (if theme_set stored then the stored else ''light'')
      in if \<not> theme_set stored then
           (let t = (if prefersDark then ''dark'' else ''light'') in updateThemeIcon t (s\<lparr>data_theme := Some t\<rparr>))
         else updateThemeIcon savedTheme (s\<lparr>data_theme := Some savedTheme\<rparr>))"

definition toggleTheme :: "theme_state \<Rightarrow> theme_state" where
  "toggleTheme s =
     (let newTheme = (if data_theme s = Some ''dark'' then ''light'' else ''dark'')
      in updateThemeIcon newTheme (s\<lparr>data_theme := Some newTheme, stored_theme := Some newTheme\<rparr>))"

definition systemThemeChange :: "bool \<Rightarrow> theme_state \<Rightarrow> theme_state" where
  "systemThemeChange matches s =
     (if \<not> theme_set (stored_theme s) then
        (let t = (if matches then ''dark'' else ''light'') in updateThemeIcon t (s\<lparr>data_theme := Some t\<rparr>))
      else s)"

datatype theme_event = ToggleClick | SystemChange bool

fun theme_step :: "theme_state \<Rightarrow> theme_event \<Rightarrow> theme_state" where
  "theme_step s ToggleClick = toggleTheme s"
| "theme_step s (SystemChange m) = systemThemeChange m s"

definition theme_inv :: "theme_state \<Rightarrow> bool" where
  "theme_inv s \<longleftrightarrow>
     (case data_theme s of None \<Rightarrow> False | Some t \<Rightarrow> t \<noteq> [] \<and> icon s = Some (icon_for t))
     \<and> (theme_set (stored_theme s) \<longrightarrow> data_theme s = stored_theme s)"

subsection \<open>Lemmas\<close>

lemma theme_set_None [simp]: "\<not> theme_set None"
  and theme_set_the [simp]: "theme_set v \<Longrightarrow> Some (the v) = v"
  by (simp add: theme_set_def) (cases v; simp add: theme_set_def)

lemma theme_inv_init: "theme_inv (initTheme stored prefersDark)"
  by (cases stored) (simp_all add: theme_inv_def initTheme_def updateThemeIcon_def theme_set_def Let_def)

lemma theme_inv_step: "theme_inv s \<Longrightarrow> theme_inv (theme_step s e)"
proof (cases e)
  case (SystemChange m)
  assume "theme_inv s"
  with SystemChange show ?thesis
    by (cases "theme_set (stored_theme s)")
       (auto simp: theme_inv_def systemThemeChange_def updateThemeIcon_def Let_def)
qed (simp add: theme_inv_def toggleTheme_def updateThemeIcon_def Let_def)

lemma theme_inv_run: "theme_inv s \<Longrightarrow> theme_inv (foldl theme_step s es)"
  by (induction es arbitrary: s) (simp_all add: theme_inv_step)

lemma theme_stored_after_toggle:
  "theme_inv s \<Longrightarrow> ToggleClick \<in> set es \<Longrightarrow>
   stored_theme (foldl theme_step s es) = data_theme (foldl theme_step s es)"
proof (induction es rule: rev_induct)
  case Nil
  then show ?case by simp
next
  case (snoc e es)
  show ?case
  proof (cases e)
    case ToggleClick
    then show ?thesis by (simp add: toggleTheme_def updateThemeIcon_def Let_def)
  next
    case (SystemChange m)
    with snoc have eq: "stored_theme (foldl theme_step s es) = data_theme (foldl theme_step s es)"
      by simp
    have "theme_inv (foldl theme_step s es)" using theme_inv_run [OF snoc.prems(1)] .
    with eq have "theme_set (stored_theme (foldl theme_step s es))"
      by (auto simp: theme_inv_def theme_set_def split: option.splits)
    with eq SystemChange show ?thesis by (simp add: systemThemeChange_def)
  qed
qed

subsection \<open>Properties of the theme\<close>

text \<open>C33. Along every run of toggles and system-preference changes after
  \<open>initTheme\<close>, a theme is set, the icon matches it (sun exactly in the dark theme),
  a stored theme is the one shown, and after any toggle the stored theme is the
  one shown.\<close>

theorem theme_run_inv:
  "theme_inv (foldl theme_step (initTheme stored prefersDark) evs)
   \<and> (ToggleClick \<in> set evs \<longrightarrow>
        stored_theme (foldl theme_step (initTheme stored prefersDark) evs)
          = data_theme (foldl theme_step (initTheme stored prefersDark) evs))"
  using theme_inv_run [OF theme_inv_init] theme_stored_after_toggle [OF theme_inv_init] by blast

end
