(* ===== verification/Locations.thy ===== *)
theory Locations
  imports ListView Encoding Variant
begin

text \<open>
  Where the stations come from and how far away they are (\<open>src/public/app.js\<close>):
  the start-up paths of \<open>init\<close> (lines 15--50), the response handling of
  \<open>loadRealCNGStations\<close> (lines 83--162), \<open>requestUserLocation\<close> (lines 1035--1087)
  and \<open>updateDistances\<close> (lines 1121--1145), with the simple variant's
  \<open>requestUserLocation\<close> and \<open>updateDistances\<close> (\<open>src/src/app.js\<close>, lines 460--515).
  The browser's answers are inputs: the outcome of \<open>getCurrentPosition\<close>
  (\<open>geo_outcome\<close>) and of the Overpass request (\<open>overpass_result\<close>: the
  \<open>data.elements\<close> of the JSON response, or a thrown error). The haversine
  \<open>calculateDistance\<close> is floating-point trigonometry and is a parameter: \<open>dist_to i\<close> is
  the distance it returns from the user to station \<open>i\<close>. The user's location is
  kept beside the app state.
\<close>

type_synonym location = "rat \<times> rat"

text \<open>An element of an Overpass response: its id, coordinates and tags.\<close>

record osm_element =
  osm_id :: int
  osm_lat :: "rat option"
  osm_lon :: "rat option"
  osm_tags :: "(string \<rightharpoonup> string) option"

text \<open>\<open>el.lat && el.lon\<close>: both present and non-zero.\<close>

definition has_coords :: "osm_element \<Rightarrow> bool" where
  "has_coords el \<longleftrightarrow>
     (case (osm_lat el, osm_lon el) of (Some a, Some b) \<Rightarrow> a \<noteq> 0 \<and> b \<noteq> 0 | _ \<Rightarrow> False)"

text \<open>\<open>el.tags?.k1 || el.tags?.k2 || d\<close>: the first present, non-empty tag.\<close>

fun tag_or :: "(string \<rightharpoonup> string) option \<Rightarrow> string list \<Rightarrow> string \<Rightarrow> string" where
  "tag_or tags [] d = d"
| "tag_or tags (k # ks) d =
     (case tags of
        Some t \<Rightarrow> (case t k of Some v \<Rightarrow> if v \<noteq> [] then v else tag_or tags ks d | None \<Rightarrow> tag_or tags ks d)
      | None \<Rightarrow> tag_or tags ks d)"

text \<open>The \<open>map((el, index) => ...)\<close> callback (lines 126--143).\<close>

definition osm_to_pump :: "nat \<Rightarrow> osm_element \<Rightarrow> pump" where
  "osm_to_pump index el =
     \<lparr>pump_id = ''osm_'' @ js_int_string (osm_id el),
      name = tag_or (osm_tags el) [''name'', ''operator''] (''CNG Station '' @ js_int_string (int index + 1)),
      address = formatAddress (case osm_tags el of Some t \<Rightarrow> t | None \<Rightarrow> Map.empty),
      brand = tag_or (osm_tags el) [''brand'', ''operator''] ''Independent'',
      queueStatus = Gray, queueLength = None, lastUpdated = None, distance = None,
      trafficDensity = None, historicalData = None, predictedQueue = None, predictionConfidence = None\<rparr>"

definition osm_stations :: "osm_element list \<Rightarrow> pump list" where
  "osm_stations els = map (\<lambda>(k, el). osm_to_pump k el) (enumerate 0 (filter has_coords els))"

datatype overpass_result = OverpassOk "osm_element list option" | OverpassError

datatype geo_outcome = GeoUnsupported | GeoDenied | GeoPosition location

text \<open>\<open>updateDistances\<close> (lines 1121--1145): nothing without a location; otherwise each
  station gets its distance, a station with a marker has its icon redrawn (the
  estimator's write-back), and the list is sorted in place by distance.\<close>

definition updateDistances :: "clock \<Rightarrow> location option \<Rightarrow> (string \<Rightarrow> rat) \<Rightarrow> app \<Rightarrow> app" where
  "updateDistances c loc dist_to s =
     (case loc of
        None \<Rightarrow> s
      | Some _ \<Rightarrow>
          s\<lparr>pumps := sort_key distance_key
                      (map (\<lambda>p. let p' = p\<lparr>distance := Some (dist_to (pump_id p))\<rparr>
                                in if pump_id p \<in> markers s then estimate_in_place c p' else p')
                           (pumps s))\<rparr>)"

text \<open>The simple variant's \<open>updateDistances\<close> (\<open>src/src/app.js\<close>, lines 500--515):
  distances only, no redraw, no sort.\<close>

definition simple_updateDistances :: "location option \<Rightarrow> (string \<Rightarrow> rat) \<Rightarrow> app \<Rightarrow> app" where
  "simple_updateDistances loc dist_to s =
     (case loc of
        None \<Rightarrow> s
      | Some _ \<Rightarrow> s\<lparr>pumps := map (\<lambda>p. p\<lparr>distance := Some (dist_to (pump_id p))\<rparr>) (pumps s)\<rparr>)"

text \<open>\<open>loadRealCNGStations\<close> after the request: the OpenStreetMap stations replace the
  list when the response has elements; an empty or missing element list leaves the
  list as it was (a warning); a thrown error falls back to
  \<open>loadKnownCNGStations\<close>, and so does a missing location.\<close>

definition loadRealCNGStations ::
  "clock \<Rightarrow> location option \<Rightarrow> (string \<Rightarrow> rat) \<Rightarrow> overpass_result \<Rightarrow> app \<Rightarrow> app" where
  "loadRealCNGStations c loc dist_to r s =
     (case loc of
        None \<Rightarrow> loadKnownCNGStations c s
      | Some u \<Rightarrow>
          (case r of
             OverpassError \<Rightarrow> loadKnownCNGStations c s
           | OverpassOk None \<Rightarrow> s
           | OverpassOk (Some els) \<Rightarrow>
               if els = [] then s
               else addPumpMarkers c (updateDistances c loc dist_to (s\<lparr>pumps := osm_stations els\<rparr>))))"

text \<open>\<open>init\<close> (lines 15--50) after the constructor: with a position, load the real
  stations; on a refusal or without geolocation, load the sample stations and add
  their markers. The location is returned beside the state.\<close>

definition CNGFlowApp_start ::
  "clock \<Rightarrow> geo_outcome \<Rightarrow> (string \<Rightarrow> rat) \<Rightarrow> overpass_result \<Rightarrow> app \<Rightarrow> location option \<times> app" where
  "CNGFlowApp_start c g dist_to r s =
     (case g of
        GeoPosition u \<Rightarrow> (Some u, loadRealCNGStations c (Some u) dist_to r s)
      | _ \<Rightarrow> (None, addPumpMarkers c (s\<lparr>pumps := loadSampleData (now_ms c)\<rparr>)))"

text \<open>\<open>requestUserLocation\<close> (lines 1035--1087), its first answer: a position, or on a
  refusal the fixed location of Connaught Place; then the distances are updated.\<close>

definition default_location :: location where
  "default_location = (286315 / 10000, 772167 / 10000)"

definition requestUserLocation ::
  "clock \<Rightarrow> geo_outcome \<Rightarrow> (string \<Rightarrow> rat) \<Rightarrow> location option \<Rightarrow> app \<Rightarrow> location option \<times> app" where
  "requestUserLocation c g dist_to loc s =
     (case g of
        GeoUnsupported \<Rightarrow> (loc, s)
      | GeoDenied \<Rightarrow> (Some default_location, updateDistances c (Some default_location) dist_to s)
      | GeoPosition u \<Rightarrow> (Some u, updateDistances c (Some u) dist_to s))"

text \<open>The simple variant's \<open>requestUserLocation\<close> (lines 460--476): a refusal is only
  logged.\<close>

definition simple_requestUserLocation ::
  "geo_outcome \<Rightarrow> (string \<Rightarrow> rat) \<Rightarrow> location option \<Rightarrow> app \<Rightarrow> location option \<times> app" where
  "simple_requestUserLocation g dist_to loc s =
     (case g of
        GeoPosition u \<Rightarrow> (Some u, simple_updateDistances (Some u) dist_to s)
      | _ \<Rightarrow> (loc, s))"

text \<open>The \<open>watchPosition\<close> callback (lines 1066--1074): every new position updates
  the distances.\<close>

definition watchPosition_update ::
  "clock \<Rightarrow> location \<Rightarrow> (string \<Rightarrow> rat) \<Rightarrow> app \<Rightarrow> location option \<times> app" where
  "watchPosition_update c u dist_to s = (Some u, updateDistances c (Some u) dist_to s)"

text \<open>\<open>centerOnUserLocation\<close> (lines 1112--1119): with a location the map is only
  moved; without one the location is requested.\<close>

definition centerOnUserLocation ::
  "clock \<Rightarrow> geo_outcome \<Rightarrow> (string \<Rightarrow> rat) \<Rightarrow> location option \<Rightarrow> app \<Rightarrow> location option \<times> app" where
  "centerOnUserLocation c g dist_to loc s =
     (if loc \<noteq> None then (loc, s) else requestUserLocation c g dist_to loc s)"

text \<open>The simple variant's \<open>centerOnUserLocation\<close> (\<open>src/src/app.js\<close>, lines 491--498).\<close>

definition simple_centerOnUserLocation ::
  "geo_outcome \<Rightarrow> (string \<Rightarrow> rat) \<Rightarrow> location option \<Rightarrow> app \<Rightarrow> location option \<times> app" where
  "simple_centerOnUserLocation g dist_to loc s =
     (if loc \<noteq> None then (loc, s) else simple_requestUserLocation g dist_to loc s)"

text \<open>The rich update sorted by distance: the list order \<open>updateDistances\<close> leaves.\<close>

definition sort_by_distance :: "app \<Rightarrow> app" where
  "sort_by_distance s = s\<lparr>pumps := sort_key distance_key (pumps s)\<rparr>"

subsection \<open>Lemmas\<close>

lemma tag_or_nonempty: "d \<noteq> [] \<Longrightarrow> tag_or t ks d \<noteq> []"
  by (induction t ks d rule: tag_or.induct) (auto split: option.split)

lemma osm_to_pump_id [simp]: "pump_id (osm_to_pump k el) = ''osm_'' @ js_int_string (osm_id el)"
  by (simp add: osm_to_pump_def)

lemma osm_to_pump_fields [simp]:
  "status_consistent (osm_to_pump k el)" "profile_ok (osm_to_pump k el)"
  "name (osm_to_pump k el) \<noteq> []" "address (osm_to_pump k el) \<noteq> []" "brand (osm_to_pump k el) \<noteq> []"
  by (simp_all add: osm_to_pump_def status_consistent_def profile_ok_def tag_or_nonempty
      formatAddress_nonempty del: tag_or.simps)

lemma set_osm_stations: "p \<in> set (osm_stations els) \<Longrightarrow> \<exists>k el. p = osm_to_pump k el"
  by (auto simp: osm_stations_def)

lemma strip_distance [simp]: "strip_pump (p\<lparr>distance := x\<rparr>) = (strip_pump p)\<lparr>distance := x\<rparr>"
  by (simp add: strip_pump_def)

lemma strip_if_estimate [simp]:
  "strip_pump (if b then estimate_in_place c p else p) = strip_pump p"
  by simp

lemma map_strip_sort_distance:
  "map strip_pump (sort_key distance_key ps) = sort_key distance_key (map strip_pump ps)"
  by (simp add: sort_key_map_comm)

lemma status_consistent_distance [simp]:
  "status_consistent (p\<lparr>distance := x\<rparr>) = status_consistent p"
  by (simp add: status_consistent_def)

lemma updateDistances_inv: "app_inv s \<Longrightarrow> app_inv (updateDistances c loc d s)"
  by (auto simp: updateDistances_def app_inv_def list_all_iff Let_def split: option.split)

lemma loadReal_inv: "app_inv s \<Longrightarrow> app_inv (loadRealCNGStations c loc d r s)"
proof -
  assume i: "app_inv s"
  have "app_inv (s\<lparr>pumps := osm_stations els\<rparr>)" for els
    using i by (auto simp: app_inv_def list_all_iff dest!: set_osm_stations)
  with i show ?thesis
    by (simp add: loadRealCNGStations_def loadKnown_inv updateDistances_inv addPumpMarkers_inv
        split: option.split overpass_result.split)
qed

lemma start_inv: "app_inv s \<Longrightarrow> app_inv (snd (CNGFlowApp_start c g d r s))"
  by (simp add: CNGFlowApp_start_def loadReal_inv addPumpMarkers_inv loadSample_inv split: geo_outcome.split)

lemma requestUserLocation_inv: "app_inv s \<Longrightarrow> app_inv (snd (requestUserLocation c g d loc s))"
  by (simp add: requestUserLocation_def updateDistances_inv split: geo_outcome.split)

lemma centerOnUserLocation_inv: "app_inv s \<Longrightarrow> app_inv (snd (centerOnUserLocation c g d loc s))"
  by (simp add: centerOnUserLocation_def requestUserLocation_inv)

lemma watchPosition_inv: "app_inv s \<Longrightarrow> app_inv (snd (watchPosition_update c u d s))"
  by (simp add: watchPosition_update_def updateDistances_inv)

lemma updateDistances_sorted:
  "sorted (map distance_key (pumps (updateDistances c (Some u) d s)))
   \<and> list_all (\<lambda>p. distance p = Some (d (pump_id p))) (pumps (updateDistances c (Some u) d s))"
  by (auto simp: updateDistances_def list_all_iff Let_def)

lemma location_kept:
  "loc \<noteq> None \<Longrightarrow> fst (requestUserLocation c g d loc s) \<noteq> None"
  "loc \<noteq> None \<Longrightarrow> fst (centerOnUserLocation c g d loc s) \<noteq> None"
  by (simp_all add: requestUserLocation_def centerOnUserLocation_def split: geo_outcome.split)

subsection \<open>Properties\<close>


text \<open>C35. The two variants' distance updates agree: with the estimator's fields
  forgotten, the rich \<open>updateDistances\<close> is the simple one followed by the stable sort
  by distance (the icon redraw changes only the forgotten fields); without a
  location both do nothing.\<close>

theorem updateDistances_equiv:
  "strip_app (updateDistances c loc d s)
   = (case loc of None \<Rightarrow> strip_app s | Some _ \<Rightarrow> sort_by_distance (simple_updateDistances loc d (strip_app s)))"
  by (simp add: updateDistances_def simple_updateDistances_def sort_by_distance_def strip_app_def
      map_strip_sort_distance Let_def comp_def split: option.split)

end
