(* ===== verification/System.thy ===== *)
theory System
  imports Locations Refresh Storage
begin

text \<open>
  The components of \<open>CNGFlowApp\<close> (\<open>src/public/app.js\<close>) acting together. The browser
  dispatches, in any order, the listeners of \<open>bindEvents\<close> (\<open>Store.app_step\<close>, with the
  \<open>localStorage\<close> writes of \<open>Storage.storage_effect\<close>), the answers of the
  geolocation API to \<open>requestUserLocation\<close>, the \<open>watchPosition\<close> callback and
  \<open>centerOnUserLocation\<close> (\<open>Locations\<close>), and the timer of \<open>refreshData\<close>
  (\<open>Refresh\<close>, its draws an input). The state is the app, the user's location and
  the storage; one system event is one dispatched callback, run to its end.
\<close>

datatype sys_event =
    UIEvent app_event
  | LocationAnswer geo_outcome
  | PositionUpdate location
  | CenterMap geo_outcome
  | RefreshTimer "nat \<Rightarrow> int option"

record sys_state =
  sys_app :: app
  sys_loc :: "location option"
  sys_storage :: local_storage

definition sys_with :: "sys_state \<Rightarrow> location option \<times> app \<Rightarrow> sys_state" where
  "sys_with st r = st\<lparr>sys_loc := fst r, sys_app := snd r\<rparr>"

fun sys_step :: "(string \<Rightarrow> rat) \<Rightarrow> clock \<Rightarrow> sys_state \<Rightarrow> sys_event \<Rightarrow> sys_state" where
  "sys_step d c st (UIEvent e) =
     (case app_step c (sys_app st) e of
        (s', r) \<Rightarrow> st\<lparr>sys_app := s', sys_storage := storage_effect e s' r (sys_storage st)\<rparr>)"
| "sys_step d c st (LocationAnswer g) = sys_with st (requestUserLocation c g d (sys_loc st) (sys_app st))"
| "sys_step d c st (PositionUpdate u) = sys_with st (watchPosition_update c u d (sys_app st))"
| "sys_step d c st (CenterMap g) = sys_with st (centerOnUserLocation c g d (sys_loc st) (sys_app st))"
| "sys_step d c st (RefreshTimer draw) = st\<lparr>sys_app := refreshData c draw (sys_app st)\<rparr>"

definition sys_run :: "(string \<Rightarrow> rat) \<Rightarrow> (clock \<times> sys_event) list \<Rightarrow> sys_state \<Rightarrow> sys_state" where
  "sys_run d evs st = foldl (\<lambda>st (c, e). sys_step d c st e) st evs"

definition sys_inv :: "sys_state \<Rightarrow> bool" where
  "sys_inv st \<longleftrightarrow> app_inv (sys_app st) \<and> storage_agrees (sys_storage st) (sys_app st)"

subsection \<open>Lemmas\<close>

text \<open>The location and refresh callbacks change only the station list.\<close>

lemma storage_agrees_pumps [simp]: "storage_agrees st (s\<lparr>pumps := ps\<rparr>) = storage_agrees st s"
  by (simp add: storage_agrees_def)

lemma updateDistances_agrees [simp]:
  "storage_agrees st (updateDistances c loc d s) = storage_agrees st s"
  by (simp add: updateDistances_def split: option.split)

lemma location_callbacks_agrees [simp]:
  "storage_agrees st (snd (requestUserLocation c g d loc s)) = storage_agrees st s"
  "storage_agrees st (snd (watchPosition_update c u d s)) = storage_agrees st s"
  "storage_agrees st (snd (centerOnUserLocation c g d loc s)) = storage_agrees st s"
  by (simp_all add: requestUserLocation_def watchPosition_update_def centerOnUserLocation_def
      split: geo_outcome.split)

lemma refreshData_agrees [simp]: "storage_agrees st (refreshData c draw s) = storage_agrees st s"
  by (simp add: refreshData_def)

lemma sys_step_inv:
  assumes "sys_inv st"
  shows "sys_inv (sys_step d c st e)"
proof (cases e)
  case (UIEvent e')
  obtain s' r where step: "app_step c (sys_app st) e' = (s', r)" by (cases "app_step c (sys_app st) e'")
  have inv': "app_inv s'" using app_step_inv [of "sys_app st" c e'] assms step by (simp add: sys_inv_def)
  with storage_effect_agrees [OF _ inv' step, of "sys_storage st"] assms UIEvent step show ?thesis
    by (simp add: sys_inv_def)
qed (use assms in \<open>simp_all add: sys_inv_def sys_with_def requestUserLocation_inv watchPosition_inv
       centerOnUserLocation_inv refreshData_inv\<close>)

subsection \<open>Properties\<close>

text \<open>C37. Composition: along every interleaving of user events, geolocation answers,
  position updates, map centring and data refreshes, the app invariant holds (distinct
  favourites, at most three without premium, colours in step with lengths), the
  contents of \<open>localStorage\<close> decode to the favourites, points and premium flag of
  the state (so a reload restores them), and a location once known is never lost.\<close>

theorem system_run_inv:
  "sys_inv st \<Longrightarrow>
   sys_inv (sys_run d evs st) \<and> (sys_loc st \<noteq> None \<longrightarrow> sys_loc (sys_run d evs st) \<noteq> None)"
proof (induction evs arbitrary: st)
  case Nil
  then show ?case by (simp add: sys_run_def)
next
  case (Cons ce evs)
  obtain c e where ce: "ce = (c, e)" by (cases ce)
  have "sys_loc st \<noteq> None \<Longrightarrow> sys_loc (sys_step d c st e) \<noteq> None"
    by (cases e) (simp_all add: sys_with_def location_kept watchPosition_update_def split: prod.split)
  with Cons.IH [OF sys_step_inv [OF Cons.prems, of d c e]] show ?case
    by (simp add: sys_run_def ce)
qed

end
