(* ===== verification/Spec2Isabelle.thy ===== *)
theory Spec2Isabelle
  imports ListView Storage Presentation ApiService ApiRequests Variant Views Refresh PullToRefresh Theme
    Locations System
begin

text \<open>
  \<^bold>\<open>A verification library for the CNG station finder (fuel_station_tracker).\<close>

  \<^bold>\<open>The program.\<close> \<open>src/public/app.js\<close> is the application class \<open>CNGFlowApp\<close>:
  it keeps a list of stations in memory, renders them as map markers, popups and
  list cards, lets the user report a queue length, keeps favourites and points in
  \<open>localStorage\<close>, and predicts the queue of each station from its last reading,
  its hourly profile and the clock (\<open>calculateSmartQueueStatus\<close>). The prediction is
  called from every rendering path (\<open>getMarkerIcon\<close>, \<open>createPopupContent\<close>,
  \<open>showPumpDetails\<close>) and writes three fields back into the station object.
  \<open>src/src/app.js\<close> (\<open>CNGTrackerApp\<close>) is an earlier, simpler variant of the same
  class without prediction; \<open>src/src/services/api.js\<close> is a REST and WebSocket client
  (\<open>ApiService\<close>) that neither app calls.

  \<^bold>\<open>Theories.\<close>
  \<^item> \<open>Prelude\<close>: JavaScript numbers as \<open>rat\<close> (\<open>js_num\<close> = \<open>rat option\<close> where NaN or
    \<open>undefined\<close> can occur; comparisons with it are false), \<open>Math.round\<close> as
    \<open>js_round\<close>, \<open>Number(null) = 0\<close>, out-of-range array reads, the clock
    (\<open>getHours\<close>, \<open>getDay\<close> from epoch milliseconds and a time-zone offset), and
    \<open>update_first\<close> for mutating the object that \<open>Array.find\<close> returns.
  \<^item> \<open>Station\<close>: the station record, the colour and traffic datatypes,
    \<open>queueStatusOf\<close> (the colour ternary of \<open>submitQueueUpdate\<close>, line 980) and
    \<open>calculateTrafficDensity\<close> (lines 672--681), with an order on traffic buckets.
  \<^item> \<open>SampleData\<close>: the twelve stations of \<open>loadSampleData\<close> (lines 243--466) and the
    three of \<open>loadKnownCNGStations\<close>.
  \<^item> \<open>Estimator\<close>: \<open>calculateSmartQueueStatus\<close> (lines 598--660), step by step:
    \<open>minutes_since\<close>, \<open>weight_of\<close>, \<open>blend\<close>, \<open>historical_estimate\<close>, \<open>peak_adjust\<close>,
    \<open>smart_status\<close>; it returns the smart data and the updated station.
  \<^item> \<open>Store\<close>: the app state (\<open>app\<close>) and the handlers that change it:
    \<open>submitQueueUpdate\<close>, \<open>toggleFavorite\<close>, \<open>showPumpDetails\<close>, \<open>showUpdateModal\<close>,
    \<open>showNearestPumpForUpdate\<close>, \<open>addPumpMarkers\<close>, \<open>loadKnownCNGStations\<close>; an event
    datatype for the listeners of \<open>bindEvents\<close>, the step function \<open>app_step\<close> and
    runs \<open>app_run\<close>, in which a thrown \<open>TypeError\<close> keeps the assignments made before
    it and the next event is still dispatched.
  \<^item> \<open>ListView\<close>: \<open>updatePumpsList\<close> (filter and stable sort by a key, as
    \<open>Array.prototype.sort\<close> with a \<open>key(a) - key(b)\<close> comparator), \<open>handleSearch\<close>,
    \<open>showFavorites\<close>, \<open>extractBrand\<close> and \<open>formatAddress\<close>, over ASCII
    \<open>toLowerCase\<close>, \<open>includes\<close> and \<open>join\<close> from the prelude.
  \<^item> \<open>Encoding\<close>: \<open>String(n)\<close> of an integer, \<open>parseInt\<close> without a radix,
    \<open>JSON.stringify\<close> of a string array and \<open>JSON.parse\<close> read back as one (a one-pass
    automaton), with the round trips \<open>js_parseInt_int_string\<close> and
    \<open>json_parse_stringify\<close>.
  \<^item> \<open>Storage\<close>: \<open>localStorage\<close> as a string map, the constructor's reads
    (\<open>CNGFlowApp_init\<close>), the writes of \<open>toggleFavorite\<close> and \<open>submitQueueUpdate\<close>
    (\<open>storage_effect\<close>) along a run (\<open>storage_run\<close>), and the abstraction
    \<open>storage_agrees\<close> between the stored strings and the \<open>stored_*\<close> fields of \<open>app\<close>.
  \<^item> \<open>Presentation\<close>: \<open>getQueueText\<close>, \<open>getTimeAgo\<close> and the values a map pin shows
    (\<open>getMarkerIcon\<close>: colour, label, prediction badge, distance, traffic).
  \<^item> \<open>Refresh\<close>: \<open>refreshData\<close> with the \<open>Math.random()\<close> draws as an input and a step
    relation over all draws the code can produce.
  \<^item> \<open>PullToRefresh\<close>: the three touch listeners of \<open>initPullToRefresh\<close> and the timer
    as a step function on the closure state.
  \<^item> \<open>Theme\<close>: \<open>initTheme\<close>, the toggle listener, the system-preference listener and
    \<open>updateThemeIcon\<close>.
  \<^item> \<open>ApiService\<close> (\<open>src/src/services/api.js\<close>): token, current socket, a store of
    sockets and the pending script loads; an inductive step relation
    \<open>api_step\<close> (with \<open>code_pred\<close>) in which the asynchronous script load is an event.
  \<^item> \<open>Variant\<close> (\<open>src/src/app.js\<close>): the handlers of \<open>CNGTrackerApp\<close> on the same state
    \<open>app\<close>, its event datatype and runs, and the projection \<open>strip_app\<close> that forgets the
    estimator's fields.
  \<^item> \<open>Locations\<close>: where the stations come from and how far they are: the
    start-up paths of \<open>init\<close> (\<open>CNGFlowApp_start\<close>), the handling of the Overpass
    response in \<open>loadRealCNGStations\<close> (\<open>osm_stations\<close>, \<open>osm_to_pump\<close>, \<open>has_coords\<close>,
    \<open>tag_or\<close> for the \<open>||\<close> chains of tags), \<open>updateDistances\<close>,
    \<open>requestUserLocation\<close>, the \<open>watchPosition\<close> callback and
    \<open>centerOnUserLocation\<close>, with the simple variant's \<open>updateDistances\<close> and
    \<open>requestUserLocation\<close>. The browser's answers (position or refusal, the
    elements of the response or a thrown error) are inputs, and the haversine
    distance is a function \<open>string \<Rightarrow> rat\<close> from station id to kilometres.
  \<^item> \<open>ApiRequests\<close> (\<open>src/src/services/api.js\<close>): the base URL, \<open>request\<close> as the
    configuration it gives \<open>fetch\<close> and its result in \<open>api_error + 'a\<close> for each answer,
    \<open>login\<close> and \<open>logout\<close> on top of it, every endpoint method as path, method and
    body (\<open>URLSearchParams\<close> with its form encoding), the socket URL through
    \<open>String.prototype.replace\<close> and its \<open>indexOf\<close> loop, and the socket emitters.
  \<^item> \<open>Views\<close>: \<open>handleNavigation\<close>, and the simple variant's list view, card texts,
    marker colour and constructor, compared with the rich ones.
  \<^item> \<open>System\<close>: the components together: one step per dispatched callback (user
    events with their storage writes, geolocation answers, position updates, map
    centring, the refresh timer) on the app, the location and the storage.
  \<^item> this theory: concrete scenarios from the spec and from the sample data, the
    witnesses of the claims, and the findings stated as closed theorems.

  \<^bold>\<open>What is proved.\<close> Estimator (C1--C9): the value on each branch (fresh reading
  without profile, blend, stale reading with profile), the confidence bounds,
  monotonicity in the reported length, absence of NaN for 24-entry profiles, that
  the write-back is idempotent, traffic from the actual reading, the colour buckets.
  Handlers (C10--C15): a completed submission records the reading and is then fully
  trusted by the estimator; a failed one awards nothing; a station without a
  marker makes the submission throw after the data was changed; the favourites
  toggle; the app invariant (distinct favourites, at most three without premium,
  storage in step with memory, colours in step with lengths) along every run;
  points equal 10 per completed submission. Findings (C16--C19): where the code
  departs from the spec or from its own comments (confidence above 100, a short
  profile read out of range, the peak factor applied to a fresh reading, the
  known-stations path). List view (C20--C23): the list is a stable sorted
  permutation of the filtered stations, an empty queue sorts last, search lists
  exactly the stations containing the query, the favourites view. Presentation
  (C24--C26): the stored colour reaches a pin only for a profiled reading exactly
  30 minutes old; a station without data is a green \<open>~0\<close> pin dated from 1970; the
  queue text reads back with \<open>parseInt\<close>. Storage (C27): after any run, a reload
  restores favourites and points (a refinement of the \<open>stored_*\<close> fields by the
  strings in \<open>localStorage\<close>). Client (C28, C29): the socket invariant for a caller
  that waits for the script load, by rule induction; the connect race leaks sockets
  and survives a disconnect, and the socket keeps the token of its load. Variant
  (C30): the rich app refines the simple one through \<open>strip_app\<close> on every run of
  shared events. Refresh, gesture, theme (C31--C33): a refresh keeps the invariant
  for every random draw; a pull schedules a refresh exactly when released more than
  80 pixels down (and, without \<open>touchcancel\<close>, after a tap that follows a cut-off
  pull); the theme icon and storage stay consistent. Locations (C34, C35): the
  stations converted from OpenStreetMap are well formed (one per element with
  coordinates, in order, ids distinct exactly when the elements' ids are, through
  the injectivity of \<open>String(n)\<close> given by the \<open>parseInt\<close> round trip; a name, an
  address, a brand, a colour consistent with no reading); the rich
  \<open>updateDistances\<close> is the simple one followed by the stable sort by distance.
  Liveness (C36): from every client state all pending script loads can run, after
  which a socket is set. Composition (C37): along every interleaving of user
  events, geolocation answers, position updates and refreshes the app invariant
  holds, \<open>localStorage\<close> decodes to the state, and a known location is never lost.
  REST client (C38--C40): the \<open>indexOf\<close> loop behind \<open>replace\<close> terminates on every
  input and equals its reference; the error paths of \<open>request\<close> and \<open>login\<close>; the
  socket URL is malformed for a base on an \<open>api.\<close> host.
  Other lemmas: every start-up and location path keeps the app invariant
  (\<open>start_inv\<close>, \<open>requestUserLocation_inv\<close>, \<open>watchPosition_inv\<close>,
  \<open>centerOnUserLocation_inv\<close>, \<open>refreshData_inv\<close>); after a distance update the list is
  sorted by distance (\<open>updateDistances_sorted\<close>); the simple variant's list views and
  \<open>getTimeAgo\<close> coincide with the rich ones and its constructor reads the storage as
  the rich one does (\<open>simple_list_views_agree\<close>, \<open>CNGTrackerApp_init_CNGFlowApp_init\<close>).
  Findings stated as closed theorems here: an element at latitude or longitude 0 is
  dropped; an answer with no usable element leaves the app with no station; on a
  refusal only the rich variant falls back to a default location; a reading 25 to
  47 hours old reads \<open>1 days ago\<close>; brands are matched as substrings by
  \<open>extractBrand\<close>, which the app never calls; a station without data counts as a
  prediction.

  \<^bold>\<open>Bounds and termination.\<close> The recursive definitions are structural (\<open>fun\<close>
  over a list or over the digits of a number, whose termination Isabelle proves), so no
  fuel is needed, except the scan of \<open>indexOf\<close>, whose index grows towards the length
  of the string: it is a \<open>partial_function (option)\<close>, and \<open>js_indexOf_terminates\<close>
  proves by induction on the remaining length that it always returns. The other
  loops of the modelled code are \<open>find\<close>, \<open>map\<close>, \<open>sort\<close>, the JSON scan and the event
  runs, all over finite lists. \<open>getHours\<close> is below 24 and \<open>getDay\<close> below 7 for every
  clock (\<open>getHours_lt\<close>, \<open>getDay_lt\<close>), which is what keeps a 24-entry profile read
  in range. \<open>refreshData\<close>'s lengths are bounded by the draw, 0 to 24.

  \<^bold>\<open>Not modelled.\<close> DOM rendering and HTML templates beyond the values they show,
  Leaflet map and marker objects (a marker is the id in \<open>markers\<close>; \<open>initMap\<close>,
  \<open>addUserMarker\<close>, \<open>updateUserMarker\<close>, \<open>navigateToPump\<close> only call Leaflet or open a
  URL), notifications and their timers, \<open>switchView\<close> (it only toggles CSS classes
  and calls the modelled \<open>updatePumpsList\<close>); the geolocation API, \<open>fetch\<close> and the
  Socket.IO library themselves (their answers are inputs); the haversine
  \<open>calculateDistance\<close> (floating-point trigonometry: a parameter) and
  \<open>Number.prototype.toString\<close> of non-integers (a parameter \<open>num_str\<close>); the fields
  of a station the logic never reads (\<open>location\<close>, \<open>operatingHours\<close>, \<open>phone\<close>,
  \<open>website\<close>, \<open>osmTags\<close>); the service-worker registration. IEEE rounding is
  idealised by exact rationals, strings are byte lists with ASCII case mapping, and
  the time-zone offset is fixed.
\<close>

subsection \<open>Scenarios\<close>

text \<open>Tuesday 6 January 1970 at 9:00 and at 12:00 UTC (a weekday peak hour and a
  quiet hour).\<close>

definition tuesday_9am :: clock where
  "tuesday_9am = \<lparr>now_ms = 464400000, tz_offset = 0\<rparr>"

definition tuesday_noon :: clock where
  "tuesday_noon = \<lparr>now_ms = 475200000, tz_offset = 0\<rparr>"

definition sample_at :: "clock \<Rightarrow> nat \<Rightarrow> pump" where
  "sample_at c k = loadSampleData (now_ms c) ! k"

text \<open>A station with a given reading taken \<open>m\<close> minutes before the clock.\<close>

definition reading :: "clock \<Rightarrow> int option \<Rightarrow> int option \<Rightarrow> rat list option \<Rightarrow> pump" where
  "reading c ql m h =
     (sample_at c 0)\<lparr>queueLength := ql, lastUpdated := map_option (\<lambda>m. now_ms c - m * 60000) m,
                     historicalData := h\<rparr>"

text \<open>The app after the sample stations were loaded and marked, with \<open>pump_003\<close>
  selected and the button for 7 vehicles chosen.\<close>

definition demo_app :: app where
  "demo_app =
     (init_app [] 0 False)\<lparr>pumps := loadSampleData (now_ms tuesday_9am),
        markers := set (map pump_id (loadSampleData (now_ms tuesday_9am))),
        selectedPump := Some ''pump_003'', selectedQueue := Some 7\<rparr>"

text \<open>A session: load, mark, open \<open>pump_003\<close>, save it, report 7 vehicles.\<close>

definition demo_events :: "(clock \<times> app_event) list" where
  "demo_events =
     map (Pair tuesday_9am)
       [LoadSample, AddMarkers, OpenDetails (Some ''pump_003''), ClickFavorite, ClickUpdateQueue,
        ClickQueueButton 7, ClickSubmit]"

text \<open>An API client that connected, loaded its script and disconnected; a refresh that
  gives the third station 7 vehicles; a session of the simple variant.\<close>

definition api_demo :: api_client where
  "api_demo = disconnectWebSocket (script_onload (connectWebSocket (api_init None)))"

definition demo_draw :: "nat \<Rightarrow> int option" where
  "demo_draw k = (if k = 2 then Some 7 else None)"

definition simple_demo_events :: "(clock \<times> simple_event) list" where
  "simple_demo_events =
     map (Pair tuesday_9am) [SAddMarkers, SOpenDetails (Some ''pump_003''), SClickFavorite, SClickUpdateQueue,
                             SClickQueueButton 7, SClickSubmit, SNavUpdate]"

text \<open>Start-up with the position at Connaught Place and a failed Overpass request.\<close>

definition overpass_failed_app :: "(string \<Rightarrow> rat) \<Rightarrow> app" where
  "overpass_failed_app d =
     snd (CNGFlowApp_start tuesday_9am (GeoPosition default_location) d OverpassError (init_app [] 0 False))"

text \<open>Two Overpass elements: a tagged station, and one on the equator (latitude 0).\<close>

definition osm_demo :: "osm_element list" where
  "osm_demo =
     [\<lparr>osm_id = 101, osm_lat = Some 28, osm_lon = Some 77,
       osm_tags = Some [''operator'' \<mapsto> ''IGL'', ''addr:street'' \<mapsto> ''Ring Road'']\<rparr>,
      \<lparr>osm_id = 102, osm_lat = Some 0, osm_lon = Some 77, osm_tags = None\<rparr>]"

text \<open>The whole app from an empty storage at Connaught Place, and a run of its
  callbacks: the sample stations and their markers, a refused location, a refresh,
  the details of a station and a favourite.\<close>

definition sys_start :: sys_state where
  "sys_start = \<lparr>sys_app = init_app [] 0 False, sys_loc = Some default_location, sys_storage = Map.empty\<rparr>"

definition sys_demo_events :: "(clock \<times> sys_event) list" where
  "sys_demo_events =
     [(tuesday_9am, UIEvent LoadSample), (tuesday_9am, UIEvent AddMarkers),
      (tuesday_9am, LocationAnswer GeoDenied), (tuesday_9am, RefreshTimer demo_draw),
      (tuesday_9am, UIEvent (OpenDetails (Some ''pump_003''))), (tuesday_9am, UIEvent ClickFavorite)]"

lemmas scenario_simps =
  tuesday_9am_def tuesday_noon_def sample_at_def reading_def loadSampleData_def sample_pump_def
  minutes_since_def getHours_def getDay_def

subsection \<open>Witnesses of the estimator claims\<close>

theorem estimate_fresh_reading_witness:
  "historicalData (sample_at tuesday_9am 2) = None \<and> queueLength (sample_at tuesday_9am 2) = Some 25
   \<and> minutes_since tuesday_9am (sample_at tuesday_9am 2) \<le> 20
   \<and> sd_predictedQueue (smart tuesday_9am (sample_at tuesday_9am 2)) = Some 25
   \<and> sd_status (smart tuesday_9am (sample_at tuesday_9am 2)) = Red"
proof -
  have h: "historicalData (sample_at tuesday_9am 2) = None"
    "queueLength (sample_at tuesday_9am 2) = Some 25"
    "minutes_since tuesday_9am (sample_at tuesday_9am 2) \<le> 20"
    by (simp_all add: scenario_simps)
  from Estimator.estimate_fresh_reading [OF h] h show ?thesis
    by (simp add: queueStatusOf_def)
qed

text \<open>Scenario C of the spec: 5 vehicles reported 25 minutes ago, profile 15 at 9:00
  on a Tuesday: blend 9, peak-adjusted 12, confidence 75.\<close>

theorem estimate_blend_branch_witness:
  "historicalData (reading tuesday_9am (Some 5) (Some 25) (Some (replicate 24 15)))
     = Some (replicate 24 15)
   \<and> queueLength (reading tuesday_9am (Some 5) (Some 25) (Some (replicate 24 15))) = Some 5
   \<and> minutes_since tuesday_9am (reading tuesday_9am (Some 5) (Some 25) (Some (replicate 24 15))) = 25
   \<and> sd_predictedQueue (smart tuesday_9am (reading tuesday_9am (Some 5) (Some 25) (Some (replicate 24 15))))
       = Some 12
   \<and> sd_confidence (smart tuesday_9am (reading tuesday_9am (Some 5) (Some 25) (Some (replicate 24 15))))
       = 75"
proof -
  let ?p = "reading tuesday_9am (Some 5) (Some 25) (Some (replicate 24 15))"
  have h: "historicalData ?p = Some (replicate 24 15)" "length (replicate 24 (15::rat)) = 24"
    "queueLength ?p = Some 5" "0 \<le> minutes_since tuesday_9am ?p" "minutes_since tuesday_9am ?p \<le> 30"
    by (simp_all add: scenario_simps)
  have t: "minutes_since tuesday_9am ?p = 25" by (simp add: scenario_simps)
  have hd: "getHours tuesday_9am = 9" "getDay tuesday_9am = 2" by (simp_all add: scenario_simps)
  from Estimator.estimate_blend_branch [OF h] h t hd show ?thesis
    by (simp add: peak_adjust_def is_peak_hour_def is_weekend_def weight_of_def blend_def js_round_def)
qed


text \<open>Scenario B of the spec: 20 vehicles reported 45 minutes ago, profile 10, at noon:
  the profile value with confidence 60, flagged as a prediction.\<close>

theorem estimate_stale_profile_witness:
  "historicalData (reading tuesday_noon (Some 20) (Some 45) (Some (replicate 24 10)))
     = Some (replicate 24 10)
   \<and> 30 < minutes_since tuesday_noon (reading tuesday_noon (Some 20) (Some 45) (Some (replicate 24 10)))
   \<and> sd_predictedQueue (smart tuesday_noon (reading tuesday_noon (Some 20) (Some 45) (Some (replicate 24 10))))
       = Some 10
   \<and> sd_confidence (smart tuesday_noon (reading tuesday_noon (Some 20) (Some 45) (Some (replicate 24 10))))
       = 60
   \<and> sd_isPrediction (smart tuesday_noon (reading tuesday_noon (Some 20) (Some 45) (Some (replicate 24 10))))"
proof -
  let ?p = "reading tuesday_noon (Some 20) (Some 45) (Some (replicate 24 10))"
  have h: "historicalData ?p = Some (replicate 24 10)" "length (replicate 24 (10::rat)) = 24"
    "30 < minutes_since tuesday_noon ?p"
    by (simp_all add: scenario_simps)
  have hd: "getHours tuesday_noon = 12" "getDay tuesday_noon = 2" by (simp_all add: scenario_simps)
  from Estimator.estimate_stale_profile [OF h] h hd show ?thesis
    by (simp add: peak_adjust_def is_peak_hour_def)
qed

theorem estimate_confidence_bounds_witness:
  "0 \<le> minutes_since tuesday_9am (sample_at tuesday_9am 8)
   \<and> 60 \<le> sd_confidence (smart tuesday_9am (sample_at tuesday_9am 8))
   \<and> sd_confidence (smart tuesday_9am (sample_at tuesday_9am 8)) \<le> 100"
proof -
  have h: "0 \<le> minutes_since tuesday_9am (sample_at tuesday_9am 8)" by (simp add: scenario_simps)
  from Estimator.estimate_confidence_bounds [OF h] h show ?thesis by simp
qed

theorem estimate_monotone_in_reading_witness:
  "(3::int) \<le> 20
   \<and> status_rank (sd_status (smart tuesday_9am ((sample_at tuesday_9am 0)\<lparr>queueLength := Some 3\<rparr>)))
       \<le> status_rank (sd_status (smart tuesday_9am ((sample_at tuesday_9am 0)\<lparr>queueLength := Some 20\<rparr>)))
   \<and> sd_trafficDensity (smart tuesday_9am ((sample_at tuesday_9am 0)\<lparr>queueLength := Some 3\<rparr>))
       \<le> sd_trafficDensity (smart tuesday_9am ((sample_at tuesday_9am 0)\<lparr>queueLength := Some 20\<rparr>))"
  using Estimator.estimate_monotone_in_reading [of 3 20 tuesday_9am "sample_at tuesday_9am 0"] by simp

theorem estimate_prediction_defined_witness:
  "profile_ok (sample_at tuesday_9am 0)
   \<and> (\<exists>x. sd_predictedQueue (smart tuesday_9am (sample_at tuesday_9am 0)) = Some x)"
proof -
  have h: "profile_ok (sample_at tuesday_9am 0)" by (simp add: scenario_simps profile_ok_def)
  from Estimator.estimate_prediction_defined [OF h] h show ?thesis by simp
qed

theorem estimate_traffic_from_reading_witness:
  "queueLength (reading tuesday_noon (Some 20) (Some 45) (Some (replicate 24 10))) = Some 20
   \<and> sd_trafficDensity (smart tuesday_noon (reading tuesday_noon (Some 20) (Some 45) (Some (replicate 24 10))))
       = High"
proof -
  have h: "queueLength (reading tuesday_noon (Some 20) (Some 45) (Some (replicate 24 10))) = Some 20"
    by (simp add: scenario_simps)
  from Estimator.estimate_traffic_from_reading [OF h] h show ?thesis by simp
qed

theorem estimate_status_buckets_witness:
  "sd_predictedQueue (smart tuesday_9am (reading tuesday_9am (Some 5) (Some 25) (Some (replicate 24 15))))
     = Some 12
   \<and> sd_status (smart tuesday_9am (reading tuesday_9am (Some 5) (Some 25) (Some (replicate 24 15))))
     = Yellow"
proof -
  let ?p = "reading tuesday_9am (Some 5) (Some 25) (Some (replicate 24 15))"
  have h: "sd_predictedQueue (smart tuesday_9am ?p) = Some 12"
    by (simp add: scenario_simps smart_fields historical_estimate_def Let_def peak_adjust_def
        is_peak_hour_def is_weekend_def weight_of_def blend_def js_round_def)
  from Estimator.estimate_status_buckets [OF h] h show ?thesis by simp
qed

subsection \<open>Witnesses of the handler claims\<close>

lemma demo_app_fields:
  "selectedQueue demo_app = Some 7" "selectedPump demo_app = Some ''pump_003''"
  "find (\<lambda>p. pump_id p = ''pump_003'') (pumps demo_app) = Some (sample_at tuesday_9am 2)"
  "''pump_003'' \<in> markers demo_app" "profile_ok (sample_at tuesday_9am 2)"
  by (simp_all add: demo_app_def init_app_def scenario_simps profile_ok_def)

theorem submit_records_fresh_reading_witness:
  "selectedQueue demo_app = Some 7 \<and> selectedPump demo_app = Some ''pump_003''
   \<and> find (\<lambda>p. pump_id p = ''pump_003'') (pumps demo_app) = Some (sample_at tuesday_9am 2)
   \<and> ''pump_003'' \<in> markers demo_app \<and> profile_ok (sample_at tuesday_9am 2)
   \<and> snd (submitQueueUpdate tuesday_9am demo_app) = Ok
   \<and> userPoints (fst (submitQueueUpdate tuesday_9am demo_app)) = 10"
  using Store.submit_records_fresh_reading [OF demo_app_fields, of tuesday_9am] demo_app_fields
  by (simp add: demo_app_def init_app_def)

theorem submit_failure_awards_nothing_witness:
  "snd (submitQueueUpdate tuesday_9am (demo_app\<lparr>selectedQueue := None\<rparr>)) \<noteq> Ok
   \<and> userPoints (fst (submitQueueUpdate tuesday_9am (demo_app\<lparr>selectedQueue := None\<rparr>))) = 0"
proof -
  have h: "snd (submitQueueUpdate tuesday_9am (demo_app\<lparr>selectedQueue := None\<rparr>)) \<noteq> Ok"
    by (simp add: submitQueueUpdate_def)
  from Store.submit_failure_awards_nothing [OF h] h show ?thesis
    by (simp add: demo_app_def init_app_def)
qed

theorem submit_without_marker_partial_witness:
  "selectedQueue (demo_app\<lparr>markers := {}\<rparr>) = Some 7
   \<and> selectedPump (demo_app\<lparr>markers := {}\<rparr>) = Some ''pump_003''
   \<and> find (\<lambda>p. pump_id p = ''pump_003'') (pumps (demo_app\<lparr>markers := {}\<rparr>)) = Some (sample_at tuesday_9am 2)
   \<and> ''pump_003'' \<notin> markers (demo_app\<lparr>markers := {}\<rparr>)
   \<and> snd (submitQueueUpdate tuesday_9am (demo_app\<lparr>markers := {}\<rparr>)) = TypeError
   \<and> userPoints (fst (submitQueueUpdate tuesday_9am (demo_app\<lparr>markers := {}\<rparr>))) = 0"
proof -
  have h: "selectedQueue (demo_app\<lparr>markers := {}\<rparr>) = Some 7"
    "selectedPump (demo_app\<lparr>markers := {}\<rparr>) = Some ''pump_003''"
    "find (\<lambda>p. pump_id p = ''pump_003'') (pumps (demo_app\<lparr>markers := {}\<rparr>)) = Some (sample_at tuesday_9am 2)"
    "''pump_003'' \<notin> markers (demo_app\<lparr>markers := {}\<rparr>)"
    using demo_app_fields by simp_all
  from Store.submit_without_marker_partial [OF h, of tuesday_9am] h show ?thesis
    by (simp add: demo_app_def init_app_def)
qed

lemma demo_app_inv: "app_inv demo_app"
  by (simp add: demo_app_def init_app_def app_inv_def loadSampleData_consistent)

theorem toggleFavorite_sets_witness:
  "app_inv demo_app \<and> selectedPump demo_app = Some ''pump_003''
   \<and> set (favorites (fst (toggleFavorite tuesday_9am demo_app))) = {''pump_003''}"
  using Store.toggleFavorite_sets [OF demo_app_inv demo_app_fields(2), of tuesday_9am]
    demo_app_inv demo_app_fields(2)
  by (simp add: demo_app_def init_app_def)

theorem app_run_preserves_inv_witness:
  "app_inv (init_app [] 0 False)
   \<and> app_inv (fst (app_run [(tuesday_9am, LoadSample), (tuesday_9am, AddMarkers),
       (tuesday_9am, OpenDetails (Some ''pump_003'')), (tuesday_9am, ClickFavorite)]
       (init_app [] 0 False)))"
proof -
  have h: "app_inv (init_app [] 0 False)" by (simp add: app_inv_def init_app_def)
  from Store.app_run_preserves_inv [OF h] h show ?thesis by blast
qed

subsection \<open>Findings\<close>



text \<open>Spec scenario D (no reading, no date, no profile) says the result is not
  extrapolated. The code reads the null date as the epoch, so the age is huge and
  \<open>isPrediction\<close> is true, while the prediction 0 keeps confidence 100.\<close>

theorem finding_no_data_is_prediction:
  "sd_isPrediction (smart tuesday_9am (reading tuesday_9am None None None))
   \<and> sd_predictedQueue (smart tuesday_9am (reading tuesday_9am None None None)) = Some 0
   \<and> sd_confidence (smart tuesday_9am (reading tuesday_9am None None None)) = 100"
  by (simp add: scenario_simps smart_fields historical_estimate_def peak_adjust_def js_round_def)



text \<open>The comment of \<open>loadKnownCNGStations\<close> says the sample stations are appended
  to the curated ones; they replace them, so no curated station survives.\<close>

theorem finding_known_stations_discarded:
  "pumps (loadKnownCNGStations c s) = loadSampleData (now_ms c)
   \<and> set (pumps (loadKnownCNGStations c s)) \<inter> set knownStations = {}"
  by (simp add: loadKnownCNGStations_def knownStations_def Let_def loadSampleData_def
      sample_pump_def known_station_def)


subsection \<open>Witnesses and findings of the list view\<close>

theorem handleSearch_matches_witness:
  "2 \<le> length (js_toLowerCase ''IGL'')
   \<and> map pump_id (handleSearch SortDefault FilterAll ''IGL'' (loadSampleData (now_ms tuesday_9am)))
       = [''pump_003'', ''pump_008'', ''pump_012'']"
proof -
  have h: "2 \<le> length (js_toLowerCase ''IGL'')" by code_simp
  have low: "js_toLowerCase ''IGL'' = ''igl''" by code_simp
  have e: "map pump_id (filter (search_match ''igl'') (loadSampleData (now_ms tuesday_9am)))
      = [''pump_003'', ''pump_008'', ''pump_012'']"
    unfolding tuesday_9am_def by code_simp
  from ListView.handleSearch_matches [OF h, of SortDefault FilterAll "loadSampleData (now_ms tuesday_9am)"]
    h low e show ?thesis by simp
qed



text \<open>\<open>extractBrand\<close> matches brand names as substrings, so a station called
  ''Ashpur Fuels'' is attributed to HP. The method is never called: the converted
  OpenStreetMap stations take their brand from the tags instead.\<close>

theorem finding_extractBrand_substring:
  "extractBrand ''Ashpur Fuels'' = ''HP''"
  by code_simp

subsection \<open>Witnesses of the presentation and storage claims\<close>

theorem marker_no_data_witness:
  "queueLength (knownStations ! 0) = None \<and> lastUpdated (knownStations ! 0) = None
   \<and> historicalData (knownStations ! 0) = None \<and> 172800000 \<le> now_ms tuesday_9am \<and> tz_offset tuesday_9am = 0
   \<and> mk_status (fst (getMarkerIcon tuesday_9am Gray (knownStations ! 0))) = Green
   \<and> mk_label (fst (getMarkerIcon tuesday_9am Gray (knownStations ! 0))) = PredictedLabel (Some 0)
   \<and> getTimeAgo tuesday_9am (lastUpdated (knownStations ! 0)) = ''5 days ago''"
proof -
  have h: "queueLength (knownStations ! 0) = None" "lastUpdated (knownStations ! 0) = None"
    "historicalData (knownStations ! 0) = None" "172800000 \<le> now_ms tuesday_9am" "tz_offset tuesday_9am = 0"
    by (simp_all add: knownStations_def known_station_def tuesday_9am_def)
  have d: "js_int_string (now_ms tuesday_9am div 60000 div 60 div 24) = ''5''"
    by (simp add: tuesday_9am_def) code_simp
  from Presentation.finding_no_data_marker [OF h, of Gray] h d show ?thesis by simp
qed

theorem time_ago_one_days_witness:
  "1500 \<le> (now_ms tuesday_9am - 368400000) div 60000 \<and> (now_ms tuesday_9am - 368400000) div 60000 < 2880
   \<and> getTimeAgo tuesday_9am (Some 368400000) = ''1 days ago''"
proof -
  have h: "1500 \<le> (now_ms tuesday_9am - 368400000) div 60000"
    "(now_ms tuesday_9am - 368400000) div 60000 < 2880"
    by (simp_all add: tuesday_9am_def)
  from Presentation.finding_time_ago_one_days [OF h] h show ?thesis by simp
qed


lemma empty_storage_agrees: "storage_agrees Map.empty (init_app [] 0 False)"
  by (simp add: storage_agrees_def load_favorites_def load_points_def load_premium_def
      storage_item_def init_app_def) code_simp

theorem reload_restores_witness:
  "storage_agrees Map.empty (init_app [] 0 False) \<and> app_inv (init_app [] 0 False)
   \<and> CNGFlowApp_init (storage_run demo_events (init_app [] 0 False) Map.empty) =
       Some (init_app (favorites (fst (app_run demo_events (init_app [] 0 False))))
               (userPoints (fst (app_run demo_events (init_app [] 0 False))))
               (isPremium (fst (app_run demo_events (init_app [] 0 False)))))"
proof -
  note a = empty_storage_agrees
  have i: "app_inv (init_app [] 0 False)" by (simp add: app_inv_def init_app_def)
  from Storage.reload_restores [OF a i, of demo_events] a i show ?thesis by simp
qed

subsection \<open>Findings of the location paths\<close>

text \<open>The conversion of the demo response: the tagged element becomes a station named
  after its operator with the street as address; the element on the equator is
  dropped, because \<open>el.lat && el.lon\<close> reads the latitude 0 as missing.\<close>

theorem finding_osm_equator_dropped:
  "map (\<lambda>p. (pump_id p, name p, address p, brand p)) (osm_stations osm_demo)
     = [(''osm_101'', ''IGL'', ''Ring Road'', ''IGL'')]"
  by code_simp

text \<open>When no element has coordinates, or the response has none, the app starts with
  no station at all: \<open>loadRealCNGStations\<close> falls back to the curated stations only
  when the request throws.\<close>

theorem finding_no_station_found_empty:
  "pumps (snd (CNGFlowApp_start c (GeoPosition u) d (OverpassOk (Some [])) (init_app [] 0 False))) = []
   \<and> pumps (snd (CNGFlowApp_start c (GeoPosition u) d (OverpassOk (Some [last osm_demo]))
                  (init_app [] 0 False))) = []"
  by (simp add: CNGFlowApp_start_def loadRealCNGStations_def init_app_def osm_demo_def osm_stations_def
      has_coords_def updateDistances_def addPumpMarkers_def)

text \<open>On a refusal the rich variant falls back to Connaught Place and still sorts the
  list by distance; the simple variant leaves both the location and the list alone.\<close>

theorem finding_denied_location_fallback:
  "fst (requestUserLocation c GeoDenied d None s) = Some default_location
   \<and> simple_requestUserLocation GeoDenied d None s = (None, s)"
  by (simp add: requestUserLocation_def simple_requestUserLocation_def)

subsection \<open>Witnesses of the client, variant, refresh, gesture and theme claims\<close>

theorem waiting_run_socket_inv_witness:
  "waiting_run (api_init None) [Connect, ScriptLoaded, Disconnect] api_demo
   \<and> socket_inv (api_init None) \<and> socket_inv api_demo"
proof -
  have r: "waiting_run (api_init None) [Connect, ScriptLoaded, Disconnect] api_demo"
    by (simp add: api_demo_def waiting_run_simps api_step_simps waits_def api_init_def
        connectWebSocket_def script_onload_def)
  have i: "socket_inv (api_init None)"
    by (simp add: socket_inv_def api_init_def open_sockets_def)
  from ApiService.waiting_run_socket_inv [OF r i] r i show ?thesis by simp
qed

theorem variant_run_refines_witness:
  "list_all (\<lambda>(c, e). shared_event e) simple_demo_events
   \<and> strip_app (fst (app_run (map (\<lambda>(c, e). (c, rich_event e)) simple_demo_events) demo_app))
       = fst (simple_run simple_demo_events (strip_app demo_app))"
proof -
  have h: "list_all (\<lambda>(c, e). shared_event e) simple_demo_events"
    by (simp add: simple_demo_events_def)
  from Variant.variant_run_refines [OF h, of demo_app] h show ?thesis by simp
qed

theorem refresh_keeps_inv_witness:
  "refresh_step tuesday_9am demo_app (refreshData tuesday_9am demo_draw demo_app) \<and> app_inv demo_app
   \<and> app_inv (refreshData tuesday_9am demo_draw demo_app)
   \<and> userPoints (refreshData tuesday_9am demo_draw demo_app) = userPoints demo_app"
proof -
  have r: "refresh_step tuesday_9am demo_app (refreshData tuesday_9am demo_draw demo_app)"
    by (rule refresh_step.refresh) (simp add: valid_draw_def demo_draw_def)
  from Refresh.refresh_keeps_inv [OF r demo_app_inv] r demo_app_inv show ?thesis by simp
qed

theorem pull_gesture_triggers_witness:
  "ptr_rest ptr_init \<and> (0::rat) \<le> 100
   \<and> refresh_timers (ptr_run ptr_init ([TouchStart 0 100] @ map TouchMove [150, 200] @ [TouchEnd])) = 1"
proof -
  have h: "ptr_rest ptr_init" "(0::rat) \<le> 100" by (simp_all add: ptr_rest_def ptr_init_def)
  from PullToRefresh.pull_gesture_triggers [OF h, of "[150, 200]"] h show ?thesis
    by (simp add: ptr_init_def)
qed

theorem theme_run_inv_witness:
  "ToggleClick \<in> set [SystemChange False, ToggleClick]
   \<and> stored_theme (foldl theme_step (initTheme None True) [SystemChange False, ToggleClick])
       = data_theme (foldl theme_step (initTheme None True) [SystemChange False, ToggleClick])"
  using Theme.theme_run_inv [of None True "[SystemChange False, ToggleClick]"] by simp

subsection \<open>Witnesses of the composition and of the REST client\<close>

text \<open>Path parameters are not encoded: a pump id with a question mark moves the
  query string of \<open>getQueueHistory\<close>.\<close>

theorem finding_unencoded_path_param:
  "api_path num_str (GetQueueHistory ''p?x'' 20 0) = ''/queues/history/p?x?limit=20&offset=0''"
  by code_simp

theorem system_run_inv_witness:
  "sys_inv sys_start \<and> sys_inv (sys_run (\<lambda>i. 1) sys_demo_events sys_start)
   \<and> sys_loc (sys_run (\<lambda>i. 1) sys_demo_events sys_start) \<noteq> None"
proof -
  have i: "sys_inv sys_start"
    using empty_storage_agrees by (simp add: sys_inv_def sys_start_def app_inv_def init_app_def)
  from System.system_run_inv [OF i, of "\<lambda>i. 1" sys_demo_events] i show ?thesis
    by (simp add: sys_start_def)
qed

theorem request_errors_witness:
  "request_result (HttpResponse False (JsonBody None (0::nat))) = Inl (ApiError ''API request failed'')
   \<and> fst (login_call (api_init None) (HttpResponse True (JsonBody None (Some (Some ''jwt''))))) \<noteq> api_init None
   \<and> login_call (api_init None) (HttpResponse True (JsonBody None (Some (Some ''jwt''))))
       = (setAuthToken ''jwt'' (api_init None), CallOk (Some (Some ''jwt'')))"
  using ApiRequests.request_errors [where r = "HttpResponse False (JsonBody None (0::nat))"
      and m = "''API request failed''" and s = "api_init None"
      and r' = "HttpResponse True (JsonBody None (Some (Some ''jwt'')))"]
  by (simp add: request_result_def login_call_def login_done_def setAuthToken_def api_init_def)

end
